theory Spec2Isabelle
  imports Main "HOL-Library.Sublist"
begin

section \<open>Python values\<close>

text \<open>
  A Python \<open>str\<close> is a sequence of Unicode code points; it is modelled as a list of
  natural numbers. \<open>py\<close> writes an ASCII literal of the source as such a list.
\<close>

type_synonym pystr = "nat list"

definition py :: "string \<Rightarrow> pystr" where
  "py s = map of_char s"

text \<open>
  The exceptions that the modelled code can raise: a division by zero, an index out of
  range, a missing dictionary key, a method called on a value that has none, \<open>int\<close>
  applied to a value of the wrong type or to a string that is no number (each with its
  text), and a failure of an external collaborator with its text.
\<close>

datatype py_error =
  ZeroDivisionError | IndexError | KeyError "pystr option" | AttributeError pystr pystr |
  TypeError pystr | ValueError pystr | CollaboratorError pystr

text \<open>Python list indexing \<open>xs[k]\<close>: a negative index counts from the end.\<close>

definition py_index :: "'a list \<Rightarrow> int \<Rightarrow> py_error + nat" where
  "py_index xs k =
     (let n = int (length xs); j = (if k < 0 then n + k else k)
      in if 0 \<le> j \<and> j < n then Inr (nat j) else Inl IndexError)"

section \<open>Python strings\<close>

text \<open>
  The character classes are those of the Unicode database of the Python runtime
  (version 14.0). \<open>str.isspace\<close>, the characters removed by \<open>str.strip()\<close> and the
  class \<open>\s\<close> of \<open>re\<close> agree on every code point.
\<close>

definition py_isspace :: "nat \<Rightarrow> bool" where
  "py_isspace c \<longleftrightarrow>
     (9 \<le> c \<and> c \<le> 13) \<or> (28 \<le> c \<and> c \<le> 32) \<or> c = 133 \<or> c = 160 \<or> c = 5760 \<or>
     (8192 \<le> c \<and> c \<le> 8202) \<or> c = 8232 \<or> c = 8233 \<or> c = 8239 \<or> c = 8287 \<or> c = 12288"

text \<open>
  The decimal digits (category Nd): \<open>str.isdecimal\<close> and the class \<open>\d\<close> of \<open>re\<close>.
  They come in runs of ten, listed by the code point of their zero; \<open>int\<close> reads the
  digit at offset \<open>k\<close> of its run as \<open>k\<close>.
\<close>

definition nd_starts :: "nat list" where
  "nd_starts =
    [48, 1632, 1776, 1984, 2406, 2534, 2662, 2790, 2918, 3046, 3174, 3302, 3430, 3558,
     3664, 3792, 3872, 4160, 4240, 6112, 6160, 6470, 6608, 6784, 6800, 6992, 7088, 7232,
     7248, 42528, 43216, 43264, 43472, 43504, 43600, 44016, 65296, 66720, 68912, 69734,
     69872, 69942, 70096, 70384, 70736, 70864, 71248, 71360, 71472, 71904, 72016, 72784,
     73040, 73120, 92768, 92864, 93008, 120782, 120792, 120802, 120812, 120822, 123200,
     123632, 125264, 130032]"

definition py_isdecimal :: "nat \<Rightarrow> bool" where
  "py_isdecimal c \<longleftrightarrow> list_ex (\<lambda>s. s \<le> c \<and> c < s + 10) nd_starts"

definition digit_value :: "nat \<Rightarrow> nat" where
  "digit_value c = (case find (\<lambda>s. s \<le> c \<and> c < s + 10) nd_starts of Some s \<Rightarrow> c - s | None \<Rightarrow> 0)"

text \<open>\<open>str.isdigit\<close> on one character: the decimal digits and the other digit characters.\<close>

definition digit_ranges :: "(nat \<times> nat) list" where
  "digit_ranges =
    [(48, 57), (178, 179), (185, 185), (1632, 1641), (1776, 1785), (1984, 1993),
     (2406, 2415), (2534, 2543), (2662, 2671), (2790, 2799), (2918, 2927), (3046, 3055),
     (3174, 3183), (3302, 3311), (3430, 3439), (3558, 3567), (3664, 3673), (3792, 3801),
     (3872, 3881), (4160, 4169), (4240, 4249), (4969, 4977), (6112, 6121), (6160, 6169),
     (6470, 6479), (6608, 6618), (6784, 6793), (6800, 6809), (6992, 7001), (7088, 7097),
     (7232, 7241), (7248, 7257), (8304, 8304), (8308, 8313), (8320, 8329), (9312, 9320),
     (9332, 9340), (9352, 9360), (9450, 9450), (9461, 9469), (9471, 9471), (10102, 10110),
     (10112, 10120), (10122, 10130), (42528, 42537), (43216, 43225), (43264, 43273),
     (43472, 43481), (43504, 43513), (43600, 43609), (44016, 44025), (65296, 65305),
     (66720, 66729), (68160, 68163), (68912, 68921), (69216, 69224), (69714, 69722),
     (69734, 69743), (69872, 69881), (69942, 69951), (70096, 70105), (70384, 70393),
     (70736, 70745), (70864, 70873), (71248, 71257), (71360, 71369), (71472, 71481),
     (71904, 71913), (72016, 72025), (72784, 72793), (73040, 73049), (73120, 73129),
     (92768, 92777), (92864, 92873), (93008, 93017), (120782, 120831), (123200, 123209),
     (123632, 123641), (125264, 125273), (127232, 127242), (130032, 130041)]"

definition py_isdigit :: "nat \<Rightarrow> bool" where
  "py_isdigit c \<longleftrightarrow> list_ex (\<lambda>(a, b). a \<le> c \<and> c \<le> b) digit_ranges"

text \<open>\<open>s.strip()\<close> and \<open>s.lstrip(chars)\<close>.\<close>

definition py_strip :: "pystr \<Rightarrow> pystr" where
  "py_strip s = rev (dropWhile py_isspace (rev (dropWhile py_isspace s)))"

definition py_lstrip_chars :: "pystr \<Rightarrow> pystr \<Rightarrow> pystr" where
  "py_lstrip_chars chars s = dropWhile (\<lambda>c. c \<in> set chars) s"

text \<open>\<open>s.find(sub)\<close> (\<open>None\<close> for \<open>-1\<close>) and \<open>sub in s\<close>.\<close>

primrec py_find :: "pystr \<Rightarrow> pystr \<Rightarrow> nat option" where
  "py_find sub [] = (if sub = [] then Some 0 else None)"
| "py_find sub (c # cs) =
     (if prefix sub (c # cs) then Some 0 else map_option Suc (py_find sub cs))"

definition py_in :: "pystr \<Rightarrow> pystr \<Rightarrow> bool" where
  "py_in sub s \<longleftrightarrow> py_find sub s \<noteq> None"

text \<open>
  \<open>s.splitlines()\<close>: the line boundaries are \<open>\n\<close>, \<open>\r\<close>, \<open>\r\n\<close>, \<open>\v\<close>, \<open>\f\<close>,
  \<open>\x1c\<close>, \<open>\x1d\<close>, \<open>\x1e\<close>, \<open>\x85\<close>, U+2028 and U+2029; no empty last line is
  produced after a final boundary.
\<close>

definition linebreak :: "nat \<Rightarrow> bool" where
  "linebreak c \<longleftrightarrow> c \<in> set [10, 11, 12, 13, 28, 29, 30, 133, 8232, 8233]"

fun splitlines_from :: "pystr \<Rightarrow> pystr \<Rightarrow> pystr list" where
  "splitlines_from cur [] = (if cur = [] then [] else [rev cur])"
| "splitlines_from cur (c # cs) =
     (if c = 13 then
        (case cs of
           [] \<Rightarrow> rev cur # splitlines_from [] cs
         | d # ds \<Rightarrow> if d = 10 then rev cur # splitlines_from [] ds
                    else rev cur # splitlines_from [] cs)
      else if linebreak c then rev cur # splitlines_from [] cs
      else splitlines_from (c # cur) cs)"

definition py_splitlines :: "pystr \<Rightarrow> pystr list" where
  "py_splitlines s = splitlines_from [] s"

text \<open>
  \<open>s.split(sep)\<close> for a non-empty separator (an empty one raises \<open>ValueError\<close>; the
  source only splits on literals): the occurrences of \<open>sep\<close> are taken from the left
  and do not overlap.
\<close>

function split_from :: "pystr \<Rightarrow> pystr \<Rightarrow> pystr \<Rightarrow> pystr list" where
  "split_from sep cur [] = [rev cur]"
| "split_from sep cur (c # cs) =
     (if sep \<noteq> [] \<and> prefix sep (c # cs)
      then rev cur # split_from sep [] (drop (length sep - 1) cs)
      else split_from sep (c # cur) cs)"
  by pat_completeness auto
termination
  by (relation "measure (\<lambda>(sep, cur, s). length s)") auto

definition py_split :: "pystr \<Rightarrow> pystr \<Rightarrow> pystr list" where
  "py_split sep s = split_from sep [] s"

text \<open>\<open>sep.join(xs)\<close>.\<close>

fun py_join :: "pystr \<Rightarrow> pystr list \<Rightarrow> pystr" where
  "py_join sep [] = []"
| "py_join sep [x] = x"
| "py_join sep (x # y # ys) = x @ sep @ py_join sep (y # ys)"

text \<open>The slice \<open>xs[a:b]\<close> for indices that are not negative.\<close>

definition py_slice :: "'a list \<Rightarrow> nat \<Rightarrow> nat \<Rightarrow> 'a list" where
  "py_slice xs a b = take (b - a) (drop a xs)"

text \<open>
  \<open>str(i)\<close> for an integer: its decimal digits, with a minus sign when negative. The
  interpreter refuses this conversion for an integer of more than 4300 digits; that limit
  is left out here: the handlers format clamped durations and counts, and lengths of lists.
\<close>

function digits_of :: "nat \<Rightarrow> pystr" where
  "digits_of n = (if n < 10 then [48 + n] else digits_of (n div 10) @ [48 + n mod 10])"
  by pat_completeness auto
termination
  by (relation "measure (\<lambda>n. n)") auto

definition py_str_int :: "int \<Rightarrow> pystr" where
  "py_str_int i = (if i < 0 then 45 # digits_of (nat (- i)) else digits_of (nat i))"

text \<open>
  \<open>int(s)\<close> on a non-empty run of decimal digits, as \<open>re.findall(r"\d+", s)\<close> and the
  group \<open>(\d+)\<close> deliver it. The interpreter refuses a run of more than 4300 digits
  (the default of \<open>sys.int_max_str_digits\<close>; leading zeros count) with a \<open>ValueError\<close>.
\<close>

definition py_int_digits :: "pystr \<Rightarrow> py_error + int" where
  "py_int_digits ds =
     (if 4300 < length ds
      then Inl (ValueError
                  (py ''Exceeds the limit (4300 digits) for integer string conversion: '' @
                   py ''value has '' @ py_str_int (int (length ds)) @
                   py '' digits; use sys.set_int_max_str_digits() to increase the limit''))
      else Inr (int (foldl (\<lambda>acc c. acc * 10 + digit_value c) 0 ds)))"

text \<open>The first element of \<open>re.findall(r"\d+", s)\<close>, if any.\<close>

definition first_number :: "pystr \<Rightarrow> pystr option" where
  "first_number s =
     (let ds = takeWhile py_isdecimal (dropWhile (\<lambda>c. \<not> py_isdecimal c) s)
      in if ds = [] then None else Some ds)"

section \<open>Session planner: \<open>_split_into_n\<close>\<close>

text \<open>
  \<^verbatim>\<open>
  def _split_into_n(items: list, n: int) -> list:
      if not items:
          return [["-"] for _ in range(n)]
      buckets = [[] for _ in range(n)]
      for idx, item in enumerate(items):
          buckets[idx % n].append(item)
      return [b if b else ["-"] for b in buckets]
  \<close>
  \<open>range(n)\<close> is empty for \<open>n \<le> 0\<close>; \<open>idx % 0\<close> raises \<open>ZeroDivisionError\<close>, and with
  \<open>n < 0\<close> the bucket list is empty, so the first append raises \<open>IndexError\<close>.
  Python's \<open>%\<close> takes the sign of the divisor, as \<open>mod\<close> on \<open>int\<close> does.
\<close>

definition dash :: pystr where
  "dash = py ''-''"

fun split_loop :: "pystr list list \<Rightarrow> int \<Rightarrow> nat \<Rightarrow> pystr list \<Rightarrow> py_error + pystr list list" where
  "split_loop buckets n idx [] = Inr buckets"
| "split_loop buckets n idx (item # items) =
     (if n = 0 then Inl ZeroDivisionError
      else (case py_index buckets (int idx mod n) of
              Inl e \<Rightarrow> Inl e
            | Inr j \<Rightarrow> split_loop (buckets[j := buckets ! j @ [item]]) n (Suc idx) items))"

definition split_into_n :: "pystr list \<Rightarrow> int \<Rightarrow> py_error + pystr list list" where
  "split_into_n items n =
     (if items = [] then Inr (replicate (nat n) [dash])
      else (case split_loop (replicate (nat n) []) n 0 items of
              Inl e \<Rightarrow> Inl e
            | Inr buckets \<Rightarrow> Inr (map (\<lambda>b. if b \<noteq> [] then b else [dash]) buckets)))"

text \<open>The items whose index is congruent to \<open>j\<close> modulo \<open>n\<close>, in input order.\<close>

definition items_of_bucket :: "pystr list \<Rightarrow> nat \<Rightarrow> nat \<Rightarrow> pystr list" where
  "items_of_bucket items n j = map (\<lambda>i. items ! i) (filter (\<lambda>i. i mod n = j) [0..<length items])"

section \<open>Session planner: sections, item lists and sessions\<close>

text \<open>
  \<^verbatim>\<open>
  def _extract_section(full: str, section_name: str) -> str:
      marker = f"---{section_name}---"
      if marker not in full:
          return ""
      after = full.split(marker, 1)[1]
      next_idx = after.find("\n---")
      return after.strip() if next_idx == -1 else after[:next_idx].strip()
  \<close>
\<close>

definition extract_section :: "pystr \<Rightarrow> pystr \<Rightarrow> pystr" where
  "extract_section full section_name =
     (let marker = py ''---'' @ section_name @ py ''---'' in
      case py_find marker full of
        None \<Rightarrow> []
      | Some i \<Rightarrow>
          (let after = drop (i + length marker) full in
           case py_find (10 # py ''---'') after of
             None \<Rightarrow> py_strip after
           | Some next_idx \<Rightarrow> py_strip (take next_idx after)))"

text \<open>
  \<^verbatim>\<open>
  def _lines_to_list(block: str) -> list:
      if not block:
          return []
      out = []
      for raw in block.splitlines():
          s = raw.strip()
          if not s:
              continue
          s = s.lstrip("[bullet U+2022]- \t")
          if len(s) > 2 and s[0].isdigit() and s[1] in [".", ")"]:
              s = s[2:].strip()
          out.append(s)
      return out
  \<close>
\<close>

primrec lines_loop :: "pystr list \<Rightarrow> pystr list" where
  "lines_loop [] = []"
| "lines_loop (raw # raws) =
     (let s = py_strip raw in
      if s = [] then lines_loop raws
      else (let s1 = py_lstrip_chars [8226, 45, 32, 9] s;
                s2 = (if 2 < length s1 \<and> py_isdigit (s1 ! 0) \<and> s1 ! 1 \<in> set [46, 41]
                      then py_strip (drop 2 s1) else s1)
            in s2 # lines_loop raws))"

definition lines_to_list :: "pystr \<Rightarrow> pystr list" where
  "lines_to_list block = (if block = [] then [] else lines_loop (py_splitlines block))"

text \<open>
  \<^verbatim>\<open>
  def parse_llm_to_sessions(formatted_text: str, session_duration: int = 40, num_sessions: int = 4) -> list:
      objectives = _extract_section(formatted_text, "LEARNING OBJECTIVES")
      ...
      act_n = _split_into_n(act_list, num_sessions)
      res_n = _split_into_n(res_list, num_sessions)
      assess_n = _split_into_n(assess_list, num_sessions)

      def pick(lst, i, fallback):
          return lst[i % len(lst)] if lst else fallback

      sessions = []
      for i in range(num_sessions):
          sessions.append({
              "number": i + 1,
              "duration": f"{session_duration} mins",
              "competency": pick(obj_list, i, "Competency based on objectives"),
              "elo": pick(out_list, i, "Expected learning outcome"),
              "activities": act_n[i],
              "resources_tlm": "; ".join(res_n[i]) if res_n[i] != ["-"] else "-",
              "e_resources": [],
              "worksheets": f"Worksheet {i+1}",
              "assessment": "; ".join(assess_n[i]) if assess_n[i] != ["-"]
                            else ("; ".join(hw_list) if hw_list else "-"),
          })
      return sessions
  \<close>
\<close>

record lesson_session =
  number :: int
  duration :: pystr
  competency :: pystr
  elo :: pystr
  activities :: "pystr list"
  resources_tlm :: pystr
  e_resources :: "pystr list"
  worksheets :: pystr
  assessment :: pystr

definition py_get :: "'a list \<Rightarrow> int \<Rightarrow> py_error + 'a" where
  "py_get xs k = (case py_index xs k of Inl e \<Rightarrow> Inl e | Inr j \<Rightarrow> Inr (xs ! j))"

definition pick :: "pystr list \<Rightarrow> nat \<Rightarrow> pystr \<Rightarrow> pystr" where
  "pick lst i fallback = (if lst \<noteq> [] then lst ! (i mod length lst) else fallback)"

text \<open>The body of the loop, for one \<open>i\<close> of \<open>range(num_sessions)\<close>.\<close>

definition session_at ::
  "int \<Rightarrow> pystr list \<Rightarrow> pystr list \<Rightarrow> pystr list \<Rightarrow>
   pystr list list \<Rightarrow> pystr list list \<Rightarrow> pystr list list \<Rightarrow> nat \<Rightarrow> py_error + lesson_session" where
  "session_at session_duration obj_list out_list hw_list act_n res_n assess_n i =
     (case py_get act_n (int i) of
        Inl e \<Rightarrow> Inl e
      | Inr act \<Rightarrow>
     (case py_get res_n (int i) of
        Inl e \<Rightarrow> Inl e
      | Inr res \<Rightarrow>
     (case py_get assess_n (int i) of
        Inl e \<Rightarrow> Inl e
      | Inr assess \<Rightarrow>
          Inr \<lparr> number = int i + 1,
                duration = py_str_int session_duration @ py '' mins'',
                competency = pick obj_list i (py ''Competency based on objectives''),
                elo = pick out_list i (py ''Expected learning outcome''),
                activities = act,
                resources_tlm = (if res \<noteq> [dash] then py_join (py ''; '') res else dash),
                e_resources = [],
                worksheets = py ''Worksheet '' @ py_str_int (int i + 1),
                assessment =
                  (if assess \<noteq> [dash] then py_join (py ''; '') assess
                   else if hw_list \<noteq> [] then py_join (py ''; '') hw_list else dash) \<rparr>)))"

text \<open>A loop that appends one result per step stops at the first exception.\<close>

primrec collect :: "('e + 'a) list \<Rightarrow> 'e + 'a list" where
  "collect [] = Inr []"
| "collect (r # rs) =
     (case r of
        Inl e \<Rightarrow> Inl e
      | Inr x \<Rightarrow> (case collect rs of Inl e \<Rightarrow> Inl e | Inr xs \<Rightarrow> Inr (x # xs)))"

definition parse_llm_to_sessions :: "pystr \<Rightarrow> int \<Rightarrow> int \<Rightarrow> py_error + lesson_session list" where
  "parse_llm_to_sessions formatted_text session_duration num_sessions =
     (let objectives = extract_section formatted_text (py ''LEARNING OBJECTIVES'');
          outcomes = extract_section formatted_text (py ''LEARNING OUTCOMES'');
          resources = extract_section formatted_text (py ''TEACHING AIDS/RESOURCES'');
          activities = extract_section formatted_text (py ''ACTIVITIES'');
          assessment = extract_section formatted_text (py ''ASSESSMENT'');
          homework = extract_section formatted_text (py ''HOMEWORK'');
          obj_list = lines_to_list objectives;
          out_list = lines_to_list outcomes;
          res_list = lines_to_list resources;
          act_list = lines_to_list activities;
          assess_list = lines_to_list assessment;
          hw_list = lines_to_list homework
      in case split_into_n act_list num_sessions of
           Inl e \<Rightarrow> Inl e
         | Inr act_n \<Rightarrow>
        (case split_into_n res_list num_sessions of
           Inl e \<Rightarrow> Inl e
         | Inr res_n \<Rightarrow>
        (case split_into_n assess_list num_sessions of
           Inl e \<Rightarrow> Inl e
         | Inr assess_n \<Rightarrow>
             collect (map (session_at session_duration obj_list out_list hw_list act_n res_n assess_n)
                        [0..<nat num_sessions]))))"

section \<open>Dialogue: values, state and prompts\<close>

text \<open>
  The values that the interpreter returns and the conversation stores are dynamically
  typed: \<open>None\<close>, a \<open>str\<close>, an \<open>int\<close> or a \<open>bool\<close>. \<open>py_str\<close> is \<open>str(v)\<close>, as an
  f-string formats a value.
\<close>

datatype pyval = PNone | PStr pystr | PInt int | PBool bool

definition py_str :: "pyval \<Rightarrow> pystr" where
  "py_str v =
     (case v of
        PNone \<Rightarrow> py ''None''
      | PStr s \<Rightarrow> s
      | PInt i \<Rightarrow> py_str_int i
      | PBool b \<Rightarrow> (if b then py ''True'' else py ''False''))"

text \<open>
  \<^verbatim>\<open>
  class ConversationState:
      def __init__(self, sid: str):
          self.sid = sid
          self.stage = "LANGUAGE_SELECTION"
          self.language_mode: Optional[str] = None  # "english" / "hindi"
          self.data = {
              "topic": None, "subject": None, "class_level": None,
              "session_duration": 40, "num_sessions": 4, "language": "English",
          }
          self.history = []

      def add_to_history(self, role: str, text: str):
          self.history.append({"role": role, "text": text})
  \<close>
  The stage names are the strings of the source. The keys of the dictionary \<open>data\<close>
  are the fields \<open>data_topic\<close>, ..., \<open>data_language\<close>.
\<close>

definition LANGUAGE_SELECTION :: pystr where
  "LANGUAGE_SELECTION = py ''LANGUAGE_SELECTION''"

definition TOPIC_COLLECTION :: pystr where
  "TOPIC_COLLECTION = py ''TOPIC_COLLECTION''"

definition SUBJECT_COLLECTION :: pystr where
  "SUBJECT_COLLECTION = py ''SUBJECT_COLLECTION''"

definition CLASS_COLLECTION :: pystr where
  "CLASS_COLLECTION = py ''CLASS_COLLECTION''"

definition SESSION_DURATION :: pystr where
  "SESSION_DURATION = py ''SESSION_DURATION''"

definition NUM_SESSIONS :: pystr where
  "NUM_SESSIONS = py ''NUM_SESSIONS''"

definition CONFIRMATION :: pystr where
  "CONFIRMATION = py ''CONFIRMATION''"

definition stages :: "pystr list" where
  "stages = [LANGUAGE_SELECTION, TOPIC_COLLECTION, SUBJECT_COLLECTION, CLASS_COLLECTION,
             SESSION_DURATION, NUM_SESSIONS, CONFIRMATION]"

record conv_data =
  data_topic :: pyval
  data_subject :: pyval
  data_class_level :: pyval
  data_session_duration :: pyval
  data_num_sessions :: pyval
  data_language :: pyval

record conversation_state =
  state_sid :: pystr
  stage :: pystr
  language_mode :: "pystr option"
  data :: conv_data
  history :: "(pystr \<times> pystr) list"

definition ConversationState :: "pystr \<Rightarrow> conversation_state" where
  "ConversationState s =
     \<lparr> state_sid = s, stage = LANGUAGE_SELECTION, language_mode = None,
       data = \<lparr> data_topic = PNone, data_subject = PNone, data_class_level = PNone,
                data_session_duration = PInt 40, data_num_sessions = PInt 4,
                data_language = PStr (py ''English'') \<rparr>,
       history = [] \<rparr>"

definition add_to_history :: "conversation_state \<Rightarrow> pystr \<Rightarrow> pystr \<Rightarrow> conversation_state" where
  "add_to_history state role content = state\<lparr>history := history state @ [(role, content)]\<rparr>"

text \<open>
  What the handlers take from outside. \<open>str.lower\<close>, \<open>str.title\<close> and \<open>repr\<close> of a
  \<open>str\<close> are the Unicode-aware built-ins of the Python runtime; they are parameters, so
  every theorem below holds whatever they compute. \<open>transcribe\<close> stands for
  \<open>base64.b64decode\<close> followed by \<open>transcribe_audio_with_groq\<close> (the speech-to-text
  call), and \<open>generate\<close> for \<open>generate_lesson_from_topic\<close>,
  \<open>build_lesson_data_from_formatted\<close> and the storage of the result: each returns
  \<open>Inl\<close> the text \<open>str(e)\<close> of the exception it raises, or \<open>Inr\<close> its result (for
  \<open>generate\<close>: the lesson id, the number of worksheets and the number of YouTube links).
\<close>

record env =
  str_lower :: "pystr \<Rightarrow> pystr"
  str_title :: "pystr \<Rightarrow> pystr"
  str_repr :: "pystr \<Rightarrow> pystr"
  transcribe :: "pystr \<Rightarrow> pystr + pystr"
  generate :: "conv_data \<Rightarrow> pystr + pystr \<times> int \<times> int"

text \<open>The table \<open>PROMPTS\<close>: for each stage, the prompt in each language.\<close>

definition prompt_LANGUAGE_SELECTION_english :: pystr where
  "prompt_LANGUAGE_SELECTION_english =
     py ''Hello! I'' @ [39] @ py ''m your NCERT Lesson Plan Assistant.'' @ [10, 10] @
     py ''I can help you create a complete lesson plan through voice conversation.'' @
     [10, 10] @ py ''Which language would you prefer?'' @ [10] @ py ''1) English'' @ [10] @
     py ''2) '' @ [2361, 2367, 2306, 2342, 2368] @ py '' (Hindi)'' @ [10, 10] @
     py ''Please say '' @ [39] @ py ''English'' @ [39] @ py '' or '' @ [39] @ py ''Hindi'' @
     [39, 46]"

definition prompt_LANGUAGE_SELECTION_hindi :: pystr where
  "prompt_LANGUAGE_SELECTION_hindi =
     [2344, 2350, 2360, 2381, 2340, 2375, 33, 32, 2350, 2376, 2306, 32, 2310, 2346, 2325,
      2366] @
     py '' NCERT '' @
     [2346, 2366, 2336, 32, 2351, 2379, 2332, 2344, 2366, 32, 2360, 2361, 2366, 2351, 2325,
      32, 2361, 2370, 2305, 2404, 10, 10, 2350, 2376, 2306, 32, 2310, 2357, 2366, 2332,
      2364, 32, 2325, 2375, 32, 2350, 2366, 2343, 2381, 2351, 2350, 32, 2360, 2375, 32,
      2319, 2325, 32, 2346, 2370, 2352, 2381, 2339, 32, 2346, 2366, 2336, 32, 2351, 2379,
      2332, 2344, 2366, 32, 2348, 2344, 2366, 2344, 2375, 32, 2350, 2375, 2306, 32, 2310,
      2346, 2325, 2368, 32, 2360, 2361, 2366, 2351, 2340, 2366, 32, 2325, 2352, 32, 2360,
      2325, 2340, 2366, 32, 2361, 2370, 2305, 2404, 10, 10, 2310, 2346, 32, 2325, 2367,
      2360, 32, 2349, 2366, 2359, 2366, 32, 2325, 2379, 32, 2346, 2360, 2306, 2342, 32,
      2325, 2352, 2375, 2306, 2327, 2375, 63, 10] @
     py ''1) English'' @ [10] @ py ''2) '' @ [2361, 2367, 2306, 2342, 2368] @
     py '' (Hindi)'' @ [10, 10, 2325, 2371, 2346, 2351, 2366, 32, 39] @ py ''English'' @
     [39, 32, 2351, 2366, 32, 39] @ py ''Hindi'' @ [39, 32, 2325, 2361, 2375, 2306, 2404]"

definition prompt_TOPIC_COLLECTION_english :: pystr where
  "prompt_TOPIC_COLLECTION_english =
     py ''Great! Let'' @ [39] @ py ''s start creating your lesson plan.'' @ [10, 10] @
     py ''What is the topic or lesson title?'' @ [10] @
     py ''Example: Photosynthesis, Fractions, Freedom Struggle''"

definition prompt_TOPIC_COLLECTION_hindi :: pystr where
  "prompt_TOPIC_COLLECTION_hindi =
     [2348, 2338, 2364, 2367, 2351, 2366, 33, 32, 2330, 2354, 2367, 2319, 32, 2310, 2346,
      2325, 2368, 32, 2346, 2366, 2336, 32, 2351, 2379, 2332, 2344, 2366, 32, 2348, 2344,
      2366, 2344, 2366, 32, 2358, 2369, 2352, 2370, 32, 2325, 2352, 2340, 2375, 32, 2361,
      2376, 2306, 2404, 10, 10, 2346, 2366, 2336, 32, 2325, 2366, 32, 2357, 2367, 2359,
      2351, 32, 2351, 2366, 32, 2358, 2368, 2352, 2381, 2359, 2325, 32, 2325, 2381, 2351,
      2366, 32, 2361, 2376, 63, 10, 2313, 2342, 2366, 2361, 2352, 2339, 58, 32, 2346, 2381,
      2352, 2325, 2366, 2358, 32, 2360, 2306, 2358, 2381, 2354, 2375, 2359, 2339, 44, 32,
      2349, 2367, 2344, 2381, 2344, 44, 32, 2360, 2381, 2357, 2340, 2306, 2340, 2381, 2352,
      2340, 2366, 32, 2360, 2306, 2327, 2381, 2352, 2366, 2350]"

definition prompt_SUBJECT_COLLECTION_english :: pystr where
  "prompt_SUBJECT_COLLECTION_english =
     py ''Which subject is this lesson for? Example: Mathematics, Science, '' @
     py ''Social Science, English, Hindi.''"

definition prompt_SUBJECT_COLLECTION_hindi :: pystr where
  "prompt_SUBJECT_COLLECTION_hindi =
     [2351, 2361, 32, 2346, 2366, 2336, 32, 2325, 2367, 2360, 32, 2357, 2367, 2359, 2351,
      32, 2325, 2375, 32, 2354, 2367, 2319, 32, 2361, 2376, 63, 32, 2313, 2342, 2366, 2361,
      2352, 2339, 58, 32, 2327, 2339, 2367, 2340, 44, 32, 2357, 2367, 2332, 2381, 2334,
      2366, 2344, 44, 32, 2360, 2366, 2350, 2366, 2332, 2367, 2325, 32, 2357, 2367, 2332,
      2381, 2334, 2366, 2344, 44, 32, 2309, 2306, 2327, 2381, 2352, 2375, 2332, 2364, 2368,
      44, 32, 2361, 2367, 2306, 2342, 2368, 2404]"

definition prompt_CLASS_COLLECTION_english :: pystr where
  "prompt_CLASS_COLLECTION_english =
     py ''Which class is this lesson for? Please say class number 1 to 12. Example: Class 5.''"

definition prompt_CLASS_COLLECTION_hindi :: pystr where
  "prompt_CLASS_COLLECTION_hindi =
     [2351, 2361, 32, 2346, 2366, 2336, 32, 2325, 2367, 2360, 32, 2325, 2325, 2381, 2359,
      2366, 32, 2325, 2375, 32, 2354, 2367, 2319, 32, 2361, 2376, 63, 32, 2325, 2371, 2346,
      2351, 2366] @
     py '' 1 '' @ [2360, 2375] @ py '' 12 '' @
     [2325, 2375, 32, 2348, 2368, 2330, 32, 2325, 2325, 2381, 2359, 2366, 32, 2360, 2306,
      2326, 2381, 2351, 2366, 32, 2348, 2340, 2366, 2319, 2306, 2404]"

definition prompt_SESSION_DURATION_english :: pystr where
  "prompt_SESSION_DURATION_english =
     py ''How long should each session be? Please say 15 to 90 minutes. Example: 40 minutes.''"

definition prompt_SESSION_DURATION_hindi :: pystr where
  "prompt_SESSION_DURATION_hindi =
     [2346, 2381, 2352, 2340, 2381, 2351, 2375, 2325, 32, 2360, 2340, 2381, 2352, 32, 2325,
      2367, 2340, 2344, 2375, 32, 2350, 2367, 2344, 2335, 32, 2325, 2366, 32, 2361, 2379,
      2344, 2366, 32, 2330, 2366, 2361, 2367, 2319] @
     py ''? 15 '' @ [2360, 2375] @ py '' 90 '' @
     [2350, 2367, 2344, 2335, 2404, 32, 2313, 2342, 2366, 2361, 2352, 2339] @ py '': 40 '' @
     [2350, 2367, 2344, 2335, 2404]"

definition prompt_NUM_SESSIONS_english :: pystr where
  "prompt_NUM_SESSIONS_english =
     py ''How many sessions do you need? Please say 1 to 10. Example: 4 sessions.''"

definition prompt_NUM_SESSIONS_hindi :: pystr where
  "prompt_NUM_SESSIONS_hindi =
     [2310, 2346, 2325, 2379, 32, 2325, 2367, 2340, 2344, 2375, 32, 2360, 2340, 2381, 2352,
      32, 2330, 2366, 2361, 2367, 2319] @
     py ''? 1 '' @ [2360, 2375] @ py '' 10'' @
     [2404, 32, 2313, 2342, 2366, 2361, 2352, 2339] @ py '': 4 '' @
     [2360, 2340, 2381, 2352, 2404]"

definition prompt_CONFIRMATION_english :: "conv_data \<Rightarrow> pystr" where
  "prompt_CONFIRMATION_english d =
     py ''Perfect! Please confirm:'' @ [10, 10] @ py ''Topic: '' @ py_str (data_topic d) @
     [10] @ py ''Subject: '' @ py_str (data_subject d) @ [10] @ py ''Class: '' @
     py_str (data_class_level d) @ [10] @ py ''Session Duration: '' @
     py_str (data_session_duration d) @ py '' minutes'' @ [10] @ py ''Number of Sessions: '' @
     py_str (data_num_sessions d) @ [10, 10] @ py ''Say '' @ [39] @ py ''Yes'' @ [39] @
     py '' to generate, or '' @ [39] @ py ''No'' @ [39] @ py '' to start over.''"

definition prompt_CONFIRMATION_hindi :: "conv_data \<Rightarrow> pystr" where
  "prompt_CONFIRMATION_hindi d =
     [2325, 2371, 2346, 2351, 2366, 32, 2346, 2369, 2359, 2381, 2335, 2367, 32, 2325, 2352,
      2375, 2306, 58, 10, 10, 2357, 2367, 2359, 2351, 58, 32] @
     py_str (data_topic d) @ [10, 2360, 2348, 2381, 2332, 2375, 2325, 2381, 2335, 58, 32] @
     py_str (data_subject d) @ [10, 2325, 2325, 2381, 2359, 2366, 58, 32] @
     py_str (data_class_level d) @
     [10, 2360, 2340, 2381, 2352, 32, 2309, 2357, 2343, 2367, 58, 32] @
     py_str (data_session_duration d) @
     [32, 2350, 2367, 2344, 2335, 10, 2360, 2340, 2381, 2352, 2379, 2306, 32, 2325, 2368,
      32, 2360, 2306, 2326, 2381, 2351, 2366, 58, 32] @
     py_str (data_num_sessions d) @
     [10, 10, 2348, 2344, 2366, 2344, 2375, 32, 2325, 2375, 32, 2354, 2367, 2319, 32, 39,
      2361, 2366, 2305, 39, 32, 2325, 2361, 2375, 2306, 44, 32, 2351, 2366, 32, 2347, 2367,
      2352, 32, 2360, 2375, 32, 2358, 2369, 2352, 2370, 32, 2325, 2352, 2344, 2375, 32,
      2325, 2375, 32, 2354, 2367, 2319, 32, 39, 2344, 2361, 2368, 2306, 39, 32, 2325, 2361,
      2375, 2306, 2404]"

definition PROMPTS :: "(pystr \<times> (pystr \<times> (conv_data \<Rightarrow> pystr)) list) list" where
  "PROMPTS =
     [(LANGUAGE_SELECTION, [(py ''english'', \<lambda>d. prompt_LANGUAGE_SELECTION_english),
                            (py ''hindi'', \<lambda>d. prompt_LANGUAGE_SELECTION_hindi)]),
      (TOPIC_COLLECTION, [(py ''english'', \<lambda>d. prompt_TOPIC_COLLECTION_english),
                          (py ''hindi'', \<lambda>d. prompt_TOPIC_COLLECTION_hindi)]),
      (SUBJECT_COLLECTION, [(py ''english'', \<lambda>d. prompt_SUBJECT_COLLECTION_english),
                            (py ''hindi'', \<lambda>d. prompt_SUBJECT_COLLECTION_hindi)]),
      (CLASS_COLLECTION, [(py ''english'', \<lambda>d. prompt_CLASS_COLLECTION_english),
                          (py ''hindi'', \<lambda>d. prompt_CLASS_COLLECTION_hindi)]),
      (SESSION_DURATION, [(py ''english'', \<lambda>d. prompt_SESSION_DURATION_english),
                          (py ''hindi'', \<lambda>d. prompt_SESSION_DURATION_hindi)]),
      (NUM_SESSIONS, [(py ''english'', \<lambda>d. prompt_NUM_SESSIONS_english),
                      (py ''hindi'', \<lambda>d. prompt_NUM_SESSIONS_hindi)]),
      (CONFIRMATION, [(py ''english'', prompt_CONFIRMATION_english),
                      (py ''hindi'', prompt_CONFIRMATION_hindi)])]"

type_synonym handler_error = py_error

text \<open>
  \<open>PROMPTS[stage_name][lang]\<close>, applied to the collected data where the entry is a
  function (the prompt of \<open>CONFIRMATION\<close>): a language that is not a key raises
  \<open>KeyError\<close>.
\<close>

definition prompt :: "pystr \<Rightarrow> pystr option \<Rightarrow> conv_data \<Rightarrow> handler_error + pystr" where
  "prompt stage_name lang d =
     (case map_of PROMPTS stage_name of
        None \<Rightarrow> Inl (KeyError (Some stage_name))
      | Some by_language \<Rightarrow>
          (case lang of
             None \<Rightarrow> Inl (KeyError None)
           | Some l \<Rightarrow>
               (case map_of by_language l of
                  None \<Rightarrow> Inl (KeyError (Some l))
                | Some f \<Rightarrow> Inr (f d))))"

section \<open>Utterance interpreter: \<open>parse_user_response\<close>\<close>

text \<open>
  \<^verbatim>\<open>
  def parse_user_response(transcript: str, stage: str, language_mode: Optional[str]) -> dict:
      transcript_lower = transcript.lower().strip()

      if any(cmd in transcript_lower for cmd in ["start over", "restart", <2 Hindi commands>]):
          return {"value": "RESTART", "needs_clarification": False}

      if stage == "LANGUAGE_SELECTION":
          if "english" in transcript_lower or <Hindi> in transcript_lower:
              return {"value": "english", "needs_clarification": False}
          if "hindi" in transcript_lower or <Hindi> in transcript_lower:
              return {"value": "hindi", "needs_clarification": False}
          return {"value": None, "needs_clarification": True}

      if stage == "TOPIC_COLLECTION":
          return {"value": transcript.strip(), "needs_clarification": len(transcript.strip()) < 3}

      if stage == "SUBJECT_COLLECTION":
          subjects_map = { "math": "Mathematics", ... }
          for key, value in subjects_map.items():
              if key in transcript_lower:
                  return {"value": value, "needs_clarification": False}
          if len(transcript.strip()) > 2:
              return {"value": transcript.strip().title(), "needs_clarification": False}
          return {"value": None, "needs_clarification": True}

      if stage == "CLASS_COLLECTION":
          numbers = re.findall(r"\d+", transcript)
          if numbers:
              class_num = int(numbers[0])
              if 1 <= class_num <= 12:
                  return {"value": f"Class {class_num}", "needs_clarification": False}
          return {"value": None, "needs_clarification": True}

      if stage == "SESSION_DURATION":   # likewise, 15 <= duration <= 90, value duration
      if stage == "NUM_SESSIONS":       # likewise, 1 <= num <= 10, value num

      if stage == "CONFIRMATION":
          yes_words = ["yes", "yeah", "correct", "right", "okay", "ok", "sure", <5 Hindi words>]
          no_words = ["no", <Hindi>, <Hindi>, "wrong", <Hindi>]
          if any(w in transcript_lower for w in yes_words):
              return {"value": True, "needs_clarification": False}
          if any(w in transcript_lower for w in no_words):
              return {"value": False, "needs_clarification": False}
          return {"value": None, "needs_clarification": True}

      return {"value": None, "needs_clarification": True}
  \<close>
  The dictionary that is returned is a record; the result is \<open>Inl\<close> when \<open>int\<close> raises.
\<close>

record parsed =
  val :: pyval
  needs_clarification :: bool

definition restart_cmds :: "pystr list" where
  "restart_cmds =
     [py ''start over'',
      py ''restart'',
      [2358, 2369, 2352, 2370, 32, 2325, 2352, 2379],
      [2347, 2367, 2352, 32, 2360, 2375]]"

definition hindi_english :: pystr where
  "hindi_english = [2311, 2306, 2327, 2381, 2354, 2367, 2358]"

definition hindi_hindi :: pystr where
  "hindi_hindi = [2361, 2367, 2306, 2342, 2368]"

definition subjects_map :: "(pystr \<times> pystr) list" where
  "subjects_map =
     [(py ''math'', py ''Mathematics''),
      (py ''maths'', py ''Mathematics''),
      ([2327, 2339, 2367, 2340], py ''Mathematics''),
      (py ''science'', py ''Science''),
      ([2357, 2367, 2332, 2381, 2334, 2366, 2344], py ''Science''),
      (py ''english'', py ''English''),
      ([2309, 2306, 2327, 2381, 2352, 2375, 2332, 2368], py ''English''),
      (py ''hindi'', py ''Hindi''),
      ([2361, 2367, 2306, 2342, 2368], py ''Hindi''),
      (py ''social'', py ''Social Science''),
      ([2360, 2366, 2350, 2366, 2332, 2367, 2325], py ''Social Science''),
      (py ''history'', py ''History''),
      ([2311, 2340, 2367, 2361, 2366, 2360], py ''History''),
      (py ''geography'', py ''Geography''),
      ([2349, 2370, 2327, 2379, 2354], py ''Geography''),
      (py ''physics'', py ''Physics''),
      ([2349, 2380, 2340, 2367, 2325, 2368], py ''Physics''),
      (py ''chemistry'', py ''Chemistry''),
      ([2352, 2360, 2366, 2351, 2344], py ''Chemistry''),
      (py ''biology'', py ''Biology''),
      ([2332, 2368, 2357, 32, 2357, 2367, 2332, 2381, 2334, 2366, 2344], py ''Biology''),
      (py ''computer'', py ''Computer Science''),
      ([2325, 2306, 2346, 2381, 2351, 2370, 2335, 2352], py ''Computer Science'')]"

definition yes_words :: "pystr list" where
  "yes_words =
     [py ''yes'',
      py ''yeah'',
      py ''correct'',
      py ''right'',
      py ''okay'',
      py ''ok'',
      py ''sure'',
      [2361, 2366, 2306],
      [2361, 2366, 2305],
      [2360, 2361, 2368],
      [2336, 2368, 2325],
      [2332, 2368]]"

definition no_words :: "pystr list" where
  "no_words =
     [py ''no'',
      [2344, 2361, 2368, 2306],
      [2327, 2354, 2340],
      py ''wrong'',
      [2344, 2361, 2368]]"

definition parse_user_response ::
  "env \<Rightarrow> pystr \<Rightarrow> pystr \<Rightarrow> pystr option \<Rightarrow> py_error + parsed" where
  "parse_user_response rt transcript stage_name lang_mode =
     (let transcript_lower = py_strip (str_lower rt transcript) in
      if list_ex (\<lambda>cmd. py_in cmd transcript_lower) restart_cmds
      then Inr \<lparr>val = PStr (py ''RESTART''), needs_clarification = False\<rparr>
      else if stage_name = LANGUAGE_SELECTION then
        (if py_in (py ''english'') transcript_lower \<or> py_in hindi_english transcript_lower
         then Inr \<lparr>val = PStr (py ''english''), needs_clarification = False\<rparr>
         else if py_in (py ''hindi'') transcript_lower \<or> py_in hindi_hindi transcript_lower
         then Inr \<lparr>val = PStr (py ''hindi''), needs_clarification = False\<rparr>
         else Inr \<lparr>val = PNone, needs_clarification = True\<rparr>)
      else if stage_name = TOPIC_COLLECTION then
        Inr \<lparr>val = PStr (py_strip transcript),
          needs_clarification = (length (py_strip transcript) < 3)\<rparr>
      else if stage_name = SUBJECT_COLLECTION then
        (case find (\<lambda>(key, name). py_in key transcript_lower) subjects_map of
           Some (key, name) \<Rightarrow> Inr \<lparr>val = PStr name, needs_clarification = False\<rparr>
         | None \<Rightarrow>
             if 2 < length (py_strip transcript)
             then Inr \<lparr>val = PStr (str_title rt (py_strip transcript)),
                        needs_clarification = False\<rparr>
             else Inr \<lparr>val = PNone, needs_clarification = True\<rparr>)
      else if stage_name = CLASS_COLLECTION then
        (case first_number transcript of
           Some ds \<Rightarrow>
             (case py_int_digits ds of
                Inl e \<Rightarrow> Inl e
              | Inr class_num \<Rightarrow>
                  if 1 \<le> class_num \<and> class_num \<le> 12
                  then Inr \<lparr>val = PStr (py ''Class '' @ py_str_int class_num),
                             needs_clarification = False\<rparr>
                  else Inr \<lparr>val = PNone, needs_clarification = True\<rparr>)
         | None \<Rightarrow> Inr \<lparr>val = PNone, needs_clarification = True\<rparr>)
      else if stage_name = SESSION_DURATION then
        (case first_number transcript of
           Some ds \<Rightarrow>
             (case py_int_digits ds of
                Inl e \<Rightarrow> Inl e
              | Inr minutes \<Rightarrow>
                  if 15 \<le> minutes \<and> minutes \<le> 90
                  then Inr \<lparr>val = PInt minutes,
                             needs_clarification = False\<rparr>
                  else Inr \<lparr>val = PNone, needs_clarification = True\<rparr>)
         | None \<Rightarrow> Inr \<lparr>val = PNone, needs_clarification = True\<rparr>)
      else if stage_name = NUM_SESSIONS then
        (case first_number transcript of
           Some ds \<Rightarrow>
             (case py_int_digits ds of
                Inl e \<Rightarrow> Inl e
              | Inr num \<Rightarrow>
                  if 1 \<le> num \<and> num \<le> 10
                  then Inr \<lparr>val = PInt num,
                             needs_clarification = False\<rparr>
                  else Inr \<lparr>val = PNone, needs_clarification = True\<rparr>)
         | None \<Rightarrow> Inr \<lparr>val = PNone, needs_clarification = True\<rparr>)
      else if stage_name = CONFIRMATION then
        (if list_ex (\<lambda>w. py_in w transcript_lower) yes_words
         then Inr \<lparr>val = PBool True, needs_clarification = False\<rparr>
         else if list_ex (\<lambda>w. py_in w transcript_lower) no_words
         then Inr \<lparr>val = PBool False, needs_clarification = False\<rparr>
         else Inr \<lparr>val = PNone, needs_clarification = True\<rparr>)
      else Inr \<lparr>val = PNone, needs_clarification = True\<rparr>)"

section \<open>Dialogue stage machine: the handler \<open>voicemessage\<close>\<close>

text \<open>
  An emitted \<open>airesponse\<close> event. The key \<open>topic\<close> is present only in the response
  that announces a generated lesson plan.
\<close>

record airesponse =
  resp_text :: pystr
  resp_speak :: bool
  resp_language :: pyval
  resp_downloadid :: "pystr option"
  resp_topic :: "pyval option"

definition say :: "pystr \<Rightarrow> pyval \<Rightarrow> airesponse" where
  "say t l = \<lparr> resp_text = t, resp_speak = True, resp_language = l,
                resp_downloadid = None, resp_topic = None \<rparr>"

text \<open>\<open>str(e)\<close> for the exceptions of a handler.\<close>

definition error_text :: "env \<Rightarrow> handler_error \<Rightarrow> pystr" where
  "error_text rt e =
     (case e of
        ZeroDivisionError \<Rightarrow> py ''integer division or modulo by zero''
      | IndexError \<Rightarrow> py ''list index out of range''
      | KeyError None \<Rightarrow> py ''None''
      | KeyError (Some k) \<Rightarrow> str_repr rt k
      | AttributeError ty attr \<Rightarrow>
          [39] @ ty @ [39] @ py '' object has no attribute '' @ [39] @ attr @ [39]
      | TypeError msg \<Rightarrow> msg
      | ValueError msg \<Rightarrow> msg
      | CollaboratorError msg \<Rightarrow> msg)"

text \<open>
  The \<open>except Exception as e\<close> clause of \<open>voicemessage\<close>:
  \<^verbatim>\<open>
      except Exception as e:
          logging.exception("Voice conversation failed")
          await sio.emit("airesponse",
              {"text": f"Error: {str(e)}", "speak": True, "language": "English", "downloadid": None},
              room=sid)
  \<close>
\<close>

definition error_response :: "env \<Rightarrow> handler_error \<Rightarrow> airesponse" where
  "error_response rt e = say (py ''Error: '' @ error_text rt e) (PStr (py ''English''))"

text \<open>The literal texts of the handler.\<close>

definition text_no_audio :: pystr where
  "text_no_audio =
     [10060] @ py '' No audio received.''"

definition text_not_understood_english :: pystr where
  "text_not_understood_english =
     py ''Could not understand. Please try again.''"

definition text_not_understood_hindi :: pystr where
  "text_not_understood_hindi =
     [2360, 2350, 2333, 32, 2344, 2361, 2368, 2306, 32, 2310, 2351, 2366, 2404, 32, 2325,
      2371, 2346, 2351, 2366, 32, 2347, 2367, 2352, 32, 2360, 2375, 32, 2346, 2381, 2352,
      2351, 2366, 2360, 32, 2325, 2352, 2375, 2306, 2404]"

definition text_starting_over_english :: pystr where
  "text_starting_over_english =
     py ''Starting over...''"

definition text_starting_over_hindi :: pystr where
  "text_starting_over_hindi =
     [2347, 2367, 2352, 32, 2360, 2375, 32, 2358, 2369, 2352, 2370, 32, 2325, 2352, 32,
      2352, 2361, 2375, 32, 2361, 2376, 2306, 46, 46, 46]"

definition clarify_TOPIC_COLLECTION_english :: pystr where
  "clarify_TOPIC_COLLECTION_english =
     py ''Please tell me the lesson topic clearly.''"

definition clarify_TOPIC_COLLECTION_hindi :: pystr where
  "clarify_TOPIC_COLLECTION_hindi =
     [2325, 2371, 2346, 2351, 2366, 32, 2357, 2367, 2359, 2351, 32, 2360, 2381, 2346, 2359,
      2381, 2335, 32, 2352, 2370, 2346, 32, 2360, 2375, 32, 2348, 2340, 2366, 2319, 2306,
      2404]"

definition clarify_SUBJECT_COLLECTION_english :: pystr where
  "clarify_SUBJECT_COLLECTION_english =
     py ''Please specify the subject name.''"

definition clarify_SUBJECT_COLLECTION_hindi :: pystr where
  "clarify_SUBJECT_COLLECTION_hindi =
     [2325, 2371, 2346, 2351, 2366, 32, 2357, 2367, 2359, 2351, 32, 2325, 2366, 32, 2344,
      2366, 2350, 32, 2348, 2340, 2366, 2319, 2306, 2404]"

definition clarify_CLASS_COLLECTION_english :: pystr where
  "clarify_CLASS_COLLECTION_english =
     py ''Please say a class number between 1 and 12.''"

definition clarify_CLASS_COLLECTION_hindi :: pystr where
  "clarify_CLASS_COLLECTION_hindi =
     [2325, 2371, 2346, 2351, 2366] @ py '' 1 '' @ [2360, 2375] @ py '' 12 '' @
     [2325, 2375, 32, 2348, 2368, 2330, 32, 2325, 2325, 2381, 2359, 2366, 32, 2360, 2306,
      2326, 2381, 2351, 2366, 32, 2348, 2340, 2366, 2319, 2306, 2404]"

definition clarify_SESSION_DURATION_english :: pystr where
  "clarify_SESSION_DURATION_english =
     py ''Please say duration between 15 and 90 minutes.''"

definition clarify_SESSION_DURATION_hindi :: pystr where
  "clarify_SESSION_DURATION_hindi =
     [2325, 2371, 2346, 2351, 2366] @ py '' 15 '' @ [2360, 2375] @ py '' 90 '' @
     [2350, 2367, 2344, 2335, 32, 2325, 2375, 32, 2348, 2368, 2330, 32, 2309, 2357, 2343,
      2367, 32, 2348, 2340, 2366, 2319, 2306, 2404]"

definition clarify_NUM_SESSIONS_english :: pystr where
  "clarify_NUM_SESSIONS_english =
     py ''Please say number of sessions between 1 and 10.''"

definition clarify_NUM_SESSIONS_hindi :: pystr where
  "clarify_NUM_SESSIONS_hindi =
     [2325, 2371, 2346, 2351, 2366] @ py '' 1 '' @ [2360, 2375] @ py '' 10 '' @
     [2325, 2375, 32, 2348, 2368, 2330, 32, 2360, 2340, 2381, 2352, 2379, 2306, 32, 2325,
      2368, 32, 2360, 2306, 2326, 2381, 2351, 2366, 32, 2348, 2340, 2366, 2319, 2306, 2404]"

definition clarify_CONFIRMATION_english :: pystr where
  "clarify_CONFIRMATION_english =
     py ''Please say Yes or No.''"

definition clarify_CONFIRMATION_hindi :: pystr where
  "clarify_CONFIRMATION_hindi =
     [2325, 2371, 2346, 2351, 2366, 32, 2361, 2366, 2305, 32, 2351, 2366, 32, 2344, 2361,
      2368, 2306, 32, 2325, 2361, 2375, 2306, 2404]"

definition text_generating :: pystr where
  "text_generating =
     py ''Generating your complete lesson plan with worksheets. Please wait.''"

definition success_msg_hindi :: "conversation_state \<Rightarrow> int \<Rightarrow> int \<Rightarrow> pystr" where
  "success_msg_hindi state num_worksheets num_yt_links =
     [2346, 2366, 2336, 32, 2351, 2379, 2332, 2344, 2366, 32, 2340, 2376, 2351, 2366, 2352,
      32, 2361, 2376, 33, 32, 2357, 2367, 2359, 2351, 58, 32] @
     py_str (data_topic (data state)) @ [2404, 32, 2325, 2325, 2381, 2359, 2366, 58, 32] @
     py_str (data_class_level (data state)) @ [2404, 32, 2357, 2367, 2359, 2351, 58, 32] @
     py_str (data_subject (data state)) @ [2404, 32] @ py_str_int num_worksheets @
     [32, 2357, 2352, 2381, 2325, 2358, 2368, 2335, 32, 2324, 2352, 32] @
     py_str_int num_yt_links @ py '' YouTube '' @
     [2354, 2367, 2306, 2325, 32, 2340, 2376, 2351, 2366, 2352, 32, 2361, 2376, 2306, 2404,
      32, 2309, 2348, 32, 2310, 2346, 32, 2337, 2366, 2313, 2344, 2354, 2379, 2337, 32,
      2325, 2352, 32, 2360, 2325, 2340, 2375, 32, 2361, 2376, 2306, 2404]"

definition success_msg_english :: "conversation_state \<Rightarrow> int \<Rightarrow> int \<Rightarrow> pystr" where
  "success_msg_english state num_worksheets num_yt_links =
     py ''Lesson plan ready! Topic: '' @ py_str (data_topic (data state)) @ py ''. Class: '' @
     py_str (data_class_level (data state)) @ py ''. Subject: '' @
     py_str (data_subject (data state)) @ py ''. '' @ py_str_int num_worksheets @
     py '' worksheets and '' @ py_str_int num_yt_links @
     py '' YouTube links are ready. You can now download the complete lesson plan with all worksheets.''"

text \<open>
  \<open>conversation_states\<close> is the dictionary from session id to state. A handler returns
  the dictionary it leaves behind and the responses it emitted, in order. The state
  object is mutated in place, so what was assigned before an exception stays assigned.
\<close>

type_synonym states = "pystr \<rightharpoonup> conversation_state"

text \<open>\<open>lang_mode or "english"\<close>: \<open>None\<close> and the empty string are falsy.\<close>

definition or_english :: "pystr option \<Rightarrow> pystr" where
  "or_english lang_mode =
     (case lang_mode of
        None \<Rightarrow> py ''english''
      | Some l \<Rightarrow> if l = [] then py ''english'' else l)"

text \<open>
  The end of the handler: the exception clause if the branch raised, else
  \<^verbatim>\<open>
      if response_text:
          await sio.emit("airesponse",
              {"text": response_text, "speak": True, "language": response_lang, "downloadid": None},
              room=sid)
  \<close>
\<close>

definition respond ::
  "env \<Rightarrow> states \<Rightarrow> handler_error + pystr \<Rightarrow> pyval \<Rightarrow> states \<times> airesponse list" where
  "respond rt conversation_states response_text response_lang =
     (case response_text of
        Inl e \<Rightarrow> (conversation_states, [error_response rt e])
      | Inr t \<Rightarrow> (conversation_states, if t \<noteq> [] then [say t response_lang] else []))"

text \<open>
  The restart branch:
  \<^verbatim>\<open>
      if parsed.get("value") == "RESTART":
          prev_lang = state.language_mode or "english"
          conversation_states[sid] = ConversationState(sid)
          conversation_states[sid].language_mode = prev_lang
          conversation_states[sid].data["language"] = prev_lang.title()
          await sio.emit("airesponse", {"text": "Starting over..." if prev_lang == "english"
              else <Hindi>, "speak": True, "language": prev_lang.title(), "downloadid": None}, room=sid)
          await sio.emit("airesponse", {"text": PROMPTS["LANGUAGE_SELECTION"]["english"],
              "speak": True, "language": "English", "downloadid": None}, room=sid)
          return
  \<close>
\<close>

definition restart :: "env \<Rightarrow> states \<Rightarrow> pystr \<Rightarrow> conversation_state \<Rightarrow> states \<times> airesponse list" where
  "restart rt conversation_states sid state =
     (let prev_lang = or_english (language_mode state);
          fresh = ConversationState sid;
          fresh = fresh\<lparr>language_mode := Some prev_lang\<rparr>;
          fresh = fresh\<lparr>data := (data fresh)\<lparr>data_language := PStr (str_title rt prev_lang)\<rparr>\<rparr>
      in (conversation_states(sid \<mapsto> fresh),
          [say (if prev_lang = py ''english'' then text_starting_over_english
                else text_starting_over_hindi) (PStr (str_title rt prev_lang)),
           say prompt_LANGUAGE_SELECTION_english (PStr (py ''English''))]))"

text \<open>
  The stage machine, after the restart branch. \<open>state\<close> is \<open>conversation_states[sid]\<close>
  with the utterance already added to its history.
  \<^verbatim>\<open>
      response_text = None
      response_lang = state.data.get("language", "English")

      if state.stage == "LANGUAGE_SELECTION":
          if parsed["needs_clarification"]:
              response_text = PROMPTS["LANGUAGE_SELECTION"]["english"]
              response_lang = "English"
          else:
              state.language_mode = parsed["value"]
              state.data["language"] = state.language_mode.title()
              state.stage = "TOPIC_COLLECTION"
              response_text = PROMPTS["TOPIC_COLLECTION"][state.language_mode]
              response_lang = state.data["language"]

      elif state.stage == "TOPIC_COLLECTION":
          if parsed["needs_clarification"]:
              response_text = "Please tell me the lesson topic clearly." \
                  if state.language_mode == "english" else <Hindi>
          else:
              state.data["topic"] = parsed["value"]
              state.stage = "SUBJECT_COLLECTION"
              response_text = PROMPTS["SUBJECT_COLLECTION"][state.language_mode]

      elif state.stage == "SUBJECT_COLLECTION":   # likewise: "subject", then CLASS_COLLECTION
      elif state.stage == "CLASS_COLLECTION":     # likewise: "class_level", then SESSION_DURATION
      elif state.stage == "SESSION_DURATION":     # likewise: "session_duration", then NUM_SESSIONS
      elif state.stage == "NUM_SESSIONS":
          if parsed["needs_clarification"]:
              response_text = "Please say number of sessions between 1 and 10." \
                  if state.language_mode == "english" else <Hindi>
          else:
              state.data["num_sessions"] = parsed["value"]
              state.stage = "CONFIRMATION"
              response_text = PROMPTS["CONFIRMATION"][state.language_mode](state.data)

      elif state.stage == "CONFIRMATION":
          if parsed["needs_clarification"]:
              response_text = "Please say Yes or No." if state.language_mode == "english" else <Hindi>
          elif parsed["value"] is False:
              lang = state.language_mode or "english"
              conversation_states[sid] = ConversationState(sid)
              conversation_states[sid].language_mode = lang
              conversation_states[sid].data["language"] = lang.title()
              conversation_states[sid].stage = "TOPIC_COLLECTION"
              response_text = PROMPTS["TOPIC_COLLECTION"][lang]
          else:
              # Generate
              lang = state.data.get("language", "English")
              await sio.emit("airesponse", {"text": "Generating your complete lesson plan with
                  worksheets. Please wait.", "speak": True, "language": lang, "downloadid": None}, room=sid)
              formatted = generate_lesson_from_topic(...)
              lesson_data = build_lesson_data_from_formatted(...)
              lesson_id = str(uuid.uuid4())[:8]
              lessons_store[lesson_id] = {...}
              ... (storage in the database) ...
              num_worksheets = len(lesson_data.get("worksheets", []))
              num_yt_links = len(lesson_data.get("youtube_links", []))
              if state.language_mode == "hindi":
                  success_msg = (...)
              else:
                  success_msg = (...)
              await sio.emit("airesponse", {"text": success_msg, "speak": True,
                  "language": state.data["language"], "downloadid": lesson_id,
                  "topic": state.data["topic"]}, room=sid)
              del conversation_states[sid]
              return
  \<close>
  In the branch of \<open>LANGUAGE_SELECTION\<close> the interpreted value is a \<open>str\<close> (the
  interpreter returns \<open>"english"\<close> or \<open>"hindi"\<close> there); on any other value
  \<open>.title()\<close> raises \<open>AttributeError\<close>.
\<close>

definition clarification :: "conversation_state \<Rightarrow> pystr \<Rightarrow> pystr \<Rightarrow> pystr" where
  "clarification state english hindi =
     (if language_mode state = Some (py ''english'') then english else hindi)"

definition type_name :: "pyval \<Rightarrow> pystr" where
  "type_name v =
     (case v of
        PNone \<Rightarrow> py ''NoneType''
      | PStr s \<Rightarrow> py ''str''
      | PInt i \<Rightarrow> py ''int''
      | PBool b \<Rightarrow> py ''bool'')"

definition stage_machine ::
  "env \<Rightarrow> states \<Rightarrow> pystr \<Rightarrow> conversation_state \<Rightarrow> parsed \<Rightarrow> states \<times> airesponse list" where
  "stage_machine rt conversation_states sid state parsed =
     (let response_lang = data_language (data state) in
      if stage state = LANGUAGE_SELECTION then
        (if needs_clarification parsed
         then respond rt conversation_states (Inr prompt_LANGUAGE_SELECTION_english)
                (PStr (py ''English''))
         else (case val parsed of
                 PStr v \<Rightarrow>
                   (let state = state\<lparr>language_mode := Some v\<rparr>;
                        state = state\<lparr>data := (data state)\<lparr>data_language := PStr (str_title rt v)\<rparr>\<rparr>;
                        state = state\<lparr>stage := TOPIC_COLLECTION\<rparr>
                    in respond rt (conversation_states(sid \<mapsto> state))
                         (prompt TOPIC_COLLECTION (language_mode state) (data state))
                         (data_language (data state)))
               | v \<Rightarrow>
                   respond rt (conversation_states(sid \<mapsto> state\<lparr>language_mode := None\<rparr>))
                     (Inl (AttributeError (type_name v) (py ''title''))) response_lang))
      else if stage state = TOPIC_COLLECTION then
        (if needs_clarification parsed
         then respond rt conversation_states
                (Inr (clarification state clarify_TOPIC_COLLECTION_english
                        clarify_TOPIC_COLLECTION_hindi)) response_lang
         else (let state = state\<lparr>data := (data state)\<lparr>data_topic := val parsed\<rparr>\<rparr>;
                   state = state\<lparr>stage := SUBJECT_COLLECTION\<rparr>
               in respond rt (conversation_states(sid \<mapsto> state))
                    (prompt SUBJECT_COLLECTION (language_mode state) (data state)) response_lang))
      else if stage state = SUBJECT_COLLECTION then
        (if needs_clarification parsed
         then respond rt conversation_states
                (Inr (clarification state clarify_SUBJECT_COLLECTION_english
                        clarify_SUBJECT_COLLECTION_hindi)) response_lang
         else (let state = state\<lparr>data := (data state)\<lparr>data_subject := val parsed\<rparr>\<rparr>;
                   state = state\<lparr>stage := CLASS_COLLECTION\<rparr>
               in respond rt (conversation_states(sid \<mapsto> state))
                    (prompt CLASS_COLLECTION (language_mode state) (data state)) response_lang))
      else if stage state = CLASS_COLLECTION then
        (if needs_clarification parsed
         then respond rt conversation_states
                (Inr (clarification state clarify_CLASS_COLLECTION_english
                        clarify_CLASS_COLLECTION_hindi)) response_lang
         else (let state = state\<lparr>data := (data state)\<lparr>data_class_level := val parsed\<rparr>\<rparr>;
                   state = state\<lparr>stage := SESSION_DURATION\<rparr>
               in respond rt (conversation_states(sid \<mapsto> state))
                    (prompt SESSION_DURATION (language_mode state) (data state)) response_lang))
      else if stage state = SESSION_DURATION then
        (if needs_clarification parsed
         then respond rt conversation_states
                (Inr (clarification state clarify_SESSION_DURATION_english
                        clarify_SESSION_DURATION_hindi)) response_lang
         else (let state = state\<lparr>data := (data state)\<lparr>data_session_duration := val parsed\<rparr>\<rparr>;
                   state = state\<lparr>stage := NUM_SESSIONS\<rparr>
               in respond rt (conversation_states(sid \<mapsto> state))
                    (prompt NUM_SESSIONS (language_mode state) (data state)) response_lang))
      else if stage state = NUM_SESSIONS then
        (if needs_clarification parsed
         then respond rt conversation_states
                (Inr (clarification state clarify_NUM_SESSIONS_english
                        clarify_NUM_SESSIONS_hindi)) response_lang
         else (let state = state\<lparr>data := (data state)\<lparr>data_num_sessions := val parsed\<rparr>\<rparr>;
                   state = state\<lparr>stage := CONFIRMATION\<rparr>
               in respond rt (conversation_states(sid \<mapsto> state))
                    (prompt CONFIRMATION (language_mode state) (data state)) response_lang))
      else if stage state = CONFIRMATION then
        (if needs_clarification parsed
         then respond rt conversation_states
                (Inr (clarification state clarify_CONFIRMATION_english
                        clarify_CONFIRMATION_hindi)) response_lang
         else if val parsed = PBool False then
           (let lang = or_english (language_mode state);
                fresh = ConversationState sid;
                fresh = fresh\<lparr>language_mode := Some lang\<rparr>;
                fresh = fresh\<lparr>data := (data fresh)\<lparr>data_language := PStr (str_title rt lang)\<rparr>\<rparr>;
                fresh = fresh\<lparr>stage := TOPIC_COLLECTION\<rparr>
            in respond rt (conversation_states(sid \<mapsto> fresh))
                 (prompt TOPIC_COLLECTION (Some lang) (data fresh)) response_lang)
         else
           (let lang = data_language (data state);
                announce = say text_generating lang
            in case generate rt (data state) of
                 Inl msg \<Rightarrow> (conversation_states, [announce, error_response rt (CollaboratorError msg)])
               | Inr (lesson_id, num_worksheets, num_yt_links) \<Rightarrow>
                   (let success_msg =
                          (if language_mode state = Some (py ''hindi'')
                           then success_msg_hindi state num_worksheets num_yt_links
                           else success_msg_english state num_worksheets num_yt_links)
                    in (conversation_states(sid := None),
                        [announce,
                         \<lparr> resp_text = success_msg, resp_speak = True,
                           resp_language = data_language (data state),
                           resp_downloadid = Some lesson_id,
                           resp_topic = Some (data_topic (data state)) \<rparr>]))))
      else respond rt conversation_states (Inr []) response_lang)"

text \<open>
  \<^verbatim>\<open>
  @sio.event
  async def voicemessage(sid, data):
      try:
          audio_b64 = data.get("audio", "")
          if not audio_b64:
              await sio.emit("airesponse", {"text": "[X] No audio received.", "speak": True,
                  "language": "English", "downloadid": None}, room=sid)
              return

          # Initialize conversation
          if sid not in conversation_states:
              conversation_states[sid] = ConversationState(sid)
              await sio.emit("airesponse", {"text": PROMPTS["LANGUAGE_SELECTION"]["english"],
                  "speak": True, "language": "English", "downloadid": None}, room=sid)
              return

          state = conversation_states[sid]

          # Decode + Transcribe
          audio_bytes = base64.b64decode(audio_b64)
          transcript = transcribe_audio_with_groq(audio_bytes)
          if not transcript:
              msg = "Could not understand. Please try again." \
                  if state.language_mode == "english" else <Hindi>
              await sio.emit("airesponse", {"text": msg, "speak": True,
                  "language": state.data.get("language", "English"), "downloadid": None}, room=sid)
              return

          state.add_to_history("user", transcript)
          parsed = parse_user_response(transcript, state.stage, state.language_mode)

          # Restart
          if parsed.get("value") == "RESTART":
              ...
          (the stage machine)
      except Exception as e:
          ...
  \<close>
  The argument \<open>audio_b64\<close> is \<open>data.get("audio", "")\<close>, empty when the key is missing.
\<close>

definition voicemessage :: "env \<Rightarrow> states \<Rightarrow> pystr \<Rightarrow> pystr \<Rightarrow> states \<times> airesponse list" where
  "voicemessage rt conversation_states sid audio_b64 =
     (if audio_b64 = [] then (conversation_states, [say text_no_audio (PStr (py ''English''))])
      else (case conversation_states sid of
              None \<Rightarrow>
                (conversation_states(sid \<mapsto> ConversationState sid),
                 [say prompt_LANGUAGE_SELECTION_english (PStr (py ''English''))])
            | Some state \<Rightarrow>
                (case transcribe rt audio_b64 of
                   Inl msg \<Rightarrow> (conversation_states, [error_response rt (CollaboratorError msg)])
                 | Inr transcript \<Rightarrow>
                     if transcript = []
                     then (conversation_states,
                           [say (clarification state text_not_understood_english
                                   text_not_understood_hindi) (data_language (data state))])
                     else (let state = add_to_history state (py ''user'') transcript;
                               conversation_states = conversation_states(sid \<mapsto> state)
                           in case parse_user_response rt transcript (stage state)
                                     (language_mode state) of
                                Inl e \<Rightarrow> (conversation_states, [error_response rt e])
                              | Inr parsed \<Rightarrow>
                                  if val parsed = PStr (py ''RESTART'')
                                  then restart rt conversation_states sid state
                                  else stage_machine rt conversation_states sid state
                                         parsed))))"

text \<open>
  A test double for what comes from outside, exact on ASCII text: \<open>lower\<close> and \<open>title\<close>
  on the letters A-Z and a-z, \<open>repr\<close> of a text without quotes, backslashes and control
  characters; the audio payload is its own transcript, and generation is unavailable.
\<close>

definition ascii_lower :: "pystr \<Rightarrow> pystr" where
  "ascii_lower s = map (\<lambda>c. if 65 \<le> c \<and> c \<le> 90 then c + 32 else c) s"

fun ascii_title_from :: "bool \<Rightarrow> pystr \<Rightarrow> pystr" where
  "ascii_title_from prev_cased [] = []"
| "ascii_title_from prev_cased (c # cs) =
     (if 97 \<le> c \<and> c \<le> 122
      then (if prev_cased then c else c - 32) # ascii_title_from True cs
      else if 65 \<le> c \<and> c \<le> 90
      then (if prev_cased then c + 32 else c) # ascii_title_from True cs
      else c # ascii_title_from False cs)"

definition ascii_env :: env where
  "ascii_env =
     \<lparr> str_lower = ascii_lower,
       str_title = ascii_title_from False,
       str_repr = (\<lambda>s. [39] @ s @ [39]),
       transcribe = (\<lambda>audio. Inr audio),
       generate = (\<lambda>d. Inl (py ''generation is not available'')) \<rparr>"

section \<open>One-shot requests: the handler \<open>textmessage\<close>\<close>

text \<open>
  The payload of a \<open>textmessage\<close> event is a dictionary; its values are restricted here
  to \<open>None\<close>, strings, integers and booleans. \<open>data.get(key)\<close> is \<open>None\<close> for a missing
  key, and \<open>x or d\<close> is \<open>d\<close> when \<open>x\<close> is falsy.
\<close>

type_synonym event = "pystr \<rightharpoonup> pyval"

definition dict_get :: "event \<Rightarrow> pystr \<Rightarrow> pyval" where
  "dict_get d k = (case d k of None \<Rightarrow> PNone | Some v \<Rightarrow> v)"

definition truthy :: "pyval \<Rightarrow> bool" where
  "truthy v =
     (case v of
        PNone \<Rightarrow> False
      | PStr s \<Rightarrow> s \<noteq> []
      | PInt i \<Rightarrow> i \<noteq> 0
      | PBool b \<Rightarrow> b)"

definition py_or :: "pyval \<Rightarrow> pyval \<Rightarrow> pyval" where
  "py_or x d = (if truthy x then x else d)"

text \<open>The method call \<open>v.strip()\<close>: only a string has the method.\<close>

definition strip_method :: "pyval \<Rightarrow> handler_error + pystr" where
  "strip_method v =
     (case v of
        PStr s \<Rightarrow> Inr (py_strip s)
      | _ \<Rightarrow> Inl (AttributeError (type_name v) (py ''strip'')))"

text \<open>
  The generation job of the \<open>try\<close> block, with the arguments the handler passes to
  \<open>generate_lesson_from_topic\<close> and \<open>build_lesson_data_from_formatted\<close>.
\<close>

record text_job =
  job_topic :: pystr
  job_subject :: pystr
  job_class_level :: pystr
  job_language :: pystr
  job_session_duration :: int
  job_num_sessions :: int

text \<open>
  The collaborators of \<open>textmessage\<close>: \<open>int\<close> on a string (Python's parser of integer
  literals), and the body of the \<open>try\<close> block up to the last \<open>emit\<close> (language model,
  lesson store, database), which either raises, with the text of the exception, or
  delivers the lesson id, the titles of the worksheets and the number of YouTube links.
\<close>

record text_env =
  int_str :: "pystr \<Rightarrow> handler_error + int"
  generate_text :: "text_job \<Rightarrow> pystr + pystr \<times> pystr list \<times> int"

definition py_int :: "text_env \<Rightarrow> pyval \<Rightarrow> handler_error + int" where
  "py_int rt v =
     (case v of
        PNone \<Rightarrow>
          Inl (TypeError (py ''int() argument must be a string, a bytes-like object or a real number, not '' @
                          [39] @ py ''NoneType'' @ [39]))
      | PStr s \<Rightarrow> int_str rt s
      | PInt i \<Rightarrow> Inr i
      | PBool b \<Rightarrow> Inr (if b then 1 else 0))"

text \<open>What the handler does, in order: responses emitted and generation jobs run.\<close>

datatype effect = Emit airesponse | Generation text_job

definition show_text :: "pystr \<Rightarrow> pystr option \<Rightarrow> pyval option \<Rightarrow> pystr \<Rightarrow> airesponse" where
  "show_text t download_id topic language =
     \<lparr> resp_text = t, resp_speak = False, resp_language = PStr language,
       resp_downloadid = download_id, resp_topic = topic \<rparr>"

definition text_enter_topic :: pystr where
  "text_enter_topic = [10060] @ py '' Please enter a topic or lesson content.''"

definition text_generating_plan :: "int \<Rightarrow> int \<Rightarrow> int \<Rightarrow> pystr" where
  "text_generating_plan num_sessions session_duration total_time =
     [128196] @ py '' Generating lesson plan with worksheets...'' @ [10, 9201, 65039, 32] @
     py_str_int num_sessions @ py '' sessions '' @ [215, 32] @ py_str_int session_duration @
     py '' mins = '' @ py_str_int total_time @ py '' mins total''"

definition text_generation_failed :: "pystr \<Rightarrow> pystr" where
  "text_generation_failed msg = [10060] @ py '' Generation failed: '' @ msg"

text \<open>
  \<^verbatim>\<open>
      worksheet_summary = ""
      for ws in lesson_data.get("worksheets", []):
          worksheet_summary += f"\n  \U0001f4cb {ws.get('title', 'Worksheet')}"
  \<close>
\<close>

definition worksheet_summary :: "pystr list \<Rightarrow> pystr" where
  "worksheet_summary titles = concat (map (\<lambda>t. [10, 32, 32, 128203, 32] @ t) titles)"

definition text_plan_ready ::
  "text_job \<Rightarrow> int \<Rightarrow> pystr list \<Rightarrow> int \<Rightarrow> pystr" where
  "text_plan_ready job total_time titles num_yt_links =
     [9989] @ py '' LESSON PLAN WITH WORKSHEETS READY!'' @ [10, 10, 128218] @ py '' Topic: '' @
     job_topic job @
     [10, 127891] @ py '' Class: '' @ job_class_level job @
     [10, 128214] @ py '' Subject: '' @ job_subject job @
     [10, 127760] @ py '' Language: '' @ job_language job @
     [10, 10, 9201, 65039] @ py '' Duration: '' @ py_str_int (job_num_sessions job) @
     py '' sessions '' @ [215, 32] @ py_str_int (job_session_duration job) @ py '' mins = '' @
     py_str_int total_time @
     py '' mins total'' @ [10, 10, 128221] @ py '' Worksheets Included: '' @
     py_str_int (int (length titles)) @ worksheet_summary titles @
     [10, 10, 128250] @ py '' YouTube Links: '' @ py_str_int num_yt_links @
     [10, 10, 128229] @
     py '' Download DOCX/PDF now to get the complete lesson plan with all worksheets!''"

text \<open>
  The handler:
  \<^verbatim>\<open>
      topic = (data.get("topic") or "Lesson Topic").strip()
      subject = (data.get("subject") or "Mathematics").strip()
      class_level = (data.get("classlevel") or "Class 2").strip()
      language = (data.get("language") or "English").strip()
      raw_content = (data.get("content") or "").strip()

      session_duration = int(data.get("sessionduration") or 40)
      num_sessions = int(data.get("numsessions") or 4)

      session_duration = max(15, min(90, session_duration))
      num_sessions = max(1, min(10, num_sessions))

      if not topic and not raw_content:
          await sio.emit("airesponse",
              {"text": "\u274c Please enter a topic or lesson content.", "downloadid": None,
               "speak": False, "language": language}, room=sid)
          return

      total_time = session_duration * num_sessions
      await sio.emit("airesponse", {"text": f"\U0001f4c4 Generating lesson plan ...", ...}, room=sid)

      try:
          formatted = generate_lesson_from_topic(topic=topic, ...)
          ...
          await sio.emit("airesponse", {"text": (...), "downloadid": lesson_id,
               "topic": topic, "speak": False, "language": language}, room=sid)
      except Exception as e:
          logging.exception("Text generation failed")
          await sio.emit("airesponse",
              {"text": f"\u274c Generation failed: {str(e)}", "downloadid": None,
               "speak": False, "language": language}, room=sid)
  \<close>
  An exception of the first seven assignments is raised before anything is emitted and
  is not caught by the handler: the result is then \<open>Inl\<close>.
\<close>

definition textmessage :: "text_env \<Rightarrow> event \<Rightarrow> handler_error + effect list" where
  "textmessage rt d =
     (case strip_method (py_or (dict_get d (py ''topic'')) (PStr (py ''Lesson Topic''))) of
        Inl e \<Rightarrow> Inl e
      | Inr topic \<Rightarrow>
     (case strip_method (py_or (dict_get d (py ''subject'')) (PStr (py ''Mathematics''))) of
        Inl e \<Rightarrow> Inl e
      | Inr subject \<Rightarrow>
     (case strip_method (py_or (dict_get d (py ''classlevel'')) (PStr (py ''Class 2''))) of
        Inl e \<Rightarrow> Inl e
      | Inr class_level \<Rightarrow>
     (case strip_method (py_or (dict_get d (py ''language'')) (PStr (py ''English''))) of
        Inl e \<Rightarrow> Inl e
      | Inr language \<Rightarrow>
     (case strip_method (py_or (dict_get d (py ''content'')) (PStr [])) of
        Inl e \<Rightarrow> Inl e
      | Inr raw_content \<Rightarrow>
     (case py_int rt (py_or (dict_get d (py ''sessionduration'')) (PInt 40)) of
        Inl e \<Rightarrow> Inl e
      | Inr session_duration0 \<Rightarrow>
     (case py_int rt (py_or (dict_get d (py ''numsessions'')) (PInt 4)) of
        Inl e \<Rightarrow> Inl e
      | Inr num_sessions0 \<Rightarrow>
     (let session_duration = max 15 (min 90 session_duration0);
          num_sessions = max 1 (min 10 num_sessions0)
      in if topic = [] \<and> raw_content = []
         then Inr [Emit (show_text text_enter_topic None None language)]
         else
           let total_time = session_duration * num_sessions;
               announce = Emit (show_text
                  (text_generating_plan num_sessions session_duration total_time)
                  None None language);
               job = \<lparr> job_topic = topic, job_subject = subject,
                       job_class_level = class_level, job_language = language,
                       job_session_duration = session_duration,
                       job_num_sessions = num_sessions \<rparr>
           in (case generate_text rt job of
                 Inr (lesson_id, titles, num_yt_links) \<Rightarrow>
                   Inr [announce, Generation job,
                        Emit (show_text (text_plan_ready job total_time titles num_yt_links)
                                (Some lesson_id) (Some (PStr topic)) language)]
               | Inl msg \<Rightarrow>
                   Inr [announce, Generation job,
                        Emit (show_text (text_generation_failed msg) None None language)]))
     )))))))"

text \<open>A test double: \<open>int\<close> reads ASCII digits only, and generation succeeds.\<close>

definition ascii_text_env :: text_env where
  "ascii_text_env =
     \<lparr> int_str = (\<lambda>s. if s \<noteq> [] \<and> list_all (\<lambda>c. 48 \<le> c \<and> c \<le> 57) s
                       then py_int_digits s
                       else Inl (ValueError (py ''invalid literal for int() with base 10''))),
       generate_text = (\<lambda>job. Inr (py ''1a2b3c4d'', [py ''Worksheet 1''], 0)) \<rparr>"

section \<open>Worksheets: \<open>parse_worksheets\<close>\<close>

subsection \<open>The regular expressions of the parser\<close>

text \<open>
  All patterns of the parser are compiled with \<open>re.IGNORECASE\<close> and consist of ASCII
  characters. A pattern character \<open>p\<close> then matches a character \<open>t\<close> of the text when
  \<open>t\<close> is \<open>p\<close>, or the other case of the letter \<open>p\<close>, or one of the four characters that
  Unicode case-folds to an ASCII letter: U+0130 and U+0131 for \<open>i\<close>, U+212A for \<open>k\<close>,
  U+017F for \<open>s\<close>.
\<close>

definition ci_match :: "nat \<Rightarrow> nat \<Rightarrow> bool" where
  "ci_match p t \<longleftrightarrow>
     t = p \<or> (65 \<le> p \<and> p \<le> 90 \<and> t = p + 32) \<or> (97 \<le> p \<and> p \<le> 122 \<and> t + 32 = p) \<or>
     ((p = 73 \<or> p = 105) \<and> (t = 304 \<or> t = 305)) \<or>
     ((p = 75 \<or> p = 107) \<and> t = 8490) \<or>
     ((p = 83 \<or> p = 115) \<and> t = 383)"

text \<open>A literal of a pattern matches at the start of the text.\<close>

fun ci_prefix :: "pystr \<Rightarrow> pystr \<Rightarrow> bool" where
  "ci_prefix [] s = True"
| "ci_prefix (p # ps) [] = False"
| "ci_prefix (p # ps) (t # ts) = (ci_match p t \<and> ci_prefix ps ts)"

text \<open>
  The four marker styles, tried in this order:
  \<^verbatim>\<open>
      patterns = [
          r"===WORKSHEET\s+(\d+)===",
          r"---WORKSHEET\s+(\d+)---",
          r"WORKSHEET\s+(\d+):",
          r"\*\*WORKSHEET\s+(\d+)\*\*",
      ]
  \<close>
  Each is a literal, \<open>\s+\<close>, the group \<open>(\d+)\<close> and a literal.
\<close>

record marker =
  marker_open :: pystr
  marker_close :: pystr

definition patterns :: "marker list" where
  "patterns =
     [\<lparr> marker_open = py ''===WORKSHEET'', marker_close = py ''==='' \<rparr>,
      \<lparr> marker_open = py ''---WORKSHEET'', marker_close = py ''---'' \<rparr>,
      \<lparr> marker_open = py ''WORKSHEET'', marker_close = py '':'' \<rparr>,
      \<lparr> marker_open = py ''**WORKSHEET'', marker_close = py ''**'' \<rparr>]"

text \<open>
  A match of a marker at the start of the text: the group and the length of the match.
  \<open>\s+\<close> and \<open>(\d+)\<close> take the longest run: the character after \<open>\s+\<close> has to be a
  digit, which is no whitespace, and the character after \<open>(\d+)\<close> has to be the first one
  of the closing literal, which is no digit, so that giving back a part of a run never
  leads to a match.
\<close>

definition match_marker :: "marker \<Rightarrow> pystr \<Rightarrow> (pystr \<times> nat) option" where
  "match_marker m s =
     (if ci_prefix (marker_open m) s
      then let s1 = drop (length (marker_open m)) s;
               spaces = takeWhile py_isspace s1;
               s2 = dropWhile py_isspace s1;
               digits = takeWhile py_isdecimal s2;
               s3 = dropWhile py_isdecimal s2
           in if spaces \<noteq> [] \<and> digits \<noteq> [] \<and> ci_prefix (marker_close m) s3
              then Some (digits, length (marker_open m) + length spaces + length digits +
                                 length (marker_close m))
              else None
      else None)"

text \<open>
  \<open>re.split(pattern, s, flags=re.IGNORECASE)\<close> for a pattern with one group: the matches
  are taken from the left and do not overlap; the result alternates the text between
  the matches with the groups. \<open>cur\<close> is the text since the last match, reversed.
\<close>

function re_split_from :: "marker \<Rightarrow> pystr \<Rightarrow> pystr \<Rightarrow> pystr list" where
  "re_split_from m cur [] = [rev cur]"
| "re_split_from m cur (c # cs) =
     (case match_marker m (c # cs) of
        Some (g, k) \<Rightarrow> rev cur # g # re_split_from m [] (drop (k - 1) cs)
      | None \<Rightarrow> re_split_from m (c # cur) cs)"
  by pat_completeness auto
termination
  by (relation "measure (\<lambda>(m, cur, s). length s)") auto

definition re_split :: "marker \<Rightarrow> pystr \<Rightarrow> pystr list" where
  "re_split m s = re_split_from m [] s"

text \<open>
  \<^verbatim>\<open>
      sections = None
      for pattern in patterns:
          sections = re.split(pattern, worksheet_text, flags=re.IGNORECASE)
          if len(sections) > 1:
              break
  \<close>
\<close>

fun try_patterns :: "pystr list option \<Rightarrow> marker list \<Rightarrow> pystr \<Rightarrow> pystr list option" where
  "try_patterns sections [] worksheet_text = sections"
| "try_patterns sections (pattern # rest) worksheet_text =
     (let sections' = re_split pattern worksheet_text
      in if length sections' > 1 then Some sections'
         else try_patterns (Some sections') rest worksheet_text)"

text \<open>
  The closing markers \<open>===END WORKSHEET \d+===\<close> and \<open>---END WORKSHEET \d+---\<close>: a
  literal (with its blank), \<open>\d+\<close> and a literal. \<open>match_end\<close> gives the length of a match
  at the start of the text, and \<open>re_sub_end\<close> is \<open>re.sub(pattern, "", s)\<close>, which deletes the
  matches, taken from the left.
\<close>

definition match_end :: "pystr \<Rightarrow> pystr \<Rightarrow> pystr \<Rightarrow> nat option" where
  "match_end opening closing s =
     (if ci_prefix opening s
      then let s1 = drop (length opening) s;
               digits = takeWhile py_isdecimal s1;
               s2 = dropWhile py_isdecimal s1
           in if digits \<noteq> [] \<and> ci_prefix closing s2
              then Some (length opening + length digits + length closing)
              else None
      else None)"

function re_sub_end :: "pystr \<Rightarrow> pystr \<Rightarrow> pystr \<Rightarrow> pystr" where
  "re_sub_end opening closing [] = []"
| "re_sub_end opening closing (c # cs) =
     (case match_end opening closing (c # cs) of
        Some k \<Rightarrow> re_sub_end opening closing (drop (k - 1) cs)
      | None \<Rightarrow> c # re_sub_end opening closing cs)"
  by pat_completeness auto
termination
  by (relation "measure (\<lambda>(opening, closing, s). length s)") auto

definition remove_end_markers :: "pystr \<Rightarrow> pystr" where
  "remove_end_markers ws_content =
     re_sub_end (py ''---END WORKSHEET '') (py ''---'')
       (re_sub_end (py ''===END WORKSHEET '') (py ''==='') ws_content)"

text \<open>
  \<open>re.search\<close>: the first position, from the left, at which the pattern matches.
\<close>

fun re_search :: "(pystr \<Rightarrow> 'a option) \<Rightarrow> pystr \<Rightarrow> 'a option" where
  "re_search match_at [] = match_at []"
| "re_search match_at (c # cs) =
     (case match_at (c # cs) of
        Some r \<Rightarrow> Some r
      | None \<Rightarrow> re_search match_at cs)"

fun first_some :: "('a \<Rightarrow> 'b option) \<Rightarrow> 'a list \<Rightarrow> 'b option" where
  "first_some f [] = None"
| "first_some f (x # xs) = (case f x of Some y \<Rightarrow> Some y | None \<Rightarrow> first_some f xs)"

text \<open>
  The three header fields are read with patterns of one shape,
  \<^verbatim>\<open>
      re.search(r"TITLE:\s*(.+?)(?:\n|SESSION:)", ws_content, re.IGNORECASE)
      re.search(r"OBJECTIVE:\s*(.+?)(?:\n|DURATION:)", ws_content, re.IGNORECASE)
      re.search(r"DURATION:\s*(.+?)(?:\n|SECTION)", ws_content, re.IGNORECASE)
  \<close>
  a label, \<open>\s*\<close>, a group that takes as few characters as possible, at least one and
  none of them a newline, and then a newline or a stop word. \<open>lazy_group\<close> is the group
  and what follows it; \<open>\s*\<close> first takes all the whitespace and gives it back one
  character at a time as long as the rest does not match.
\<close>

definition field_stop :: "pystr \<Rightarrow> pystr \<Rightarrow> bool" where
  "field_stop stop_word s \<longleftrightarrow> (case s of [] \<Rightarrow> False | c # cs \<Rightarrow> c = 10) \<or> ci_prefix stop_word s"

fun lazy_group :: "pystr \<Rightarrow> pystr \<Rightarrow> pystr \<Rightarrow> pystr option" where
  "lazy_group stop_word cur [] = None"
| "lazy_group stop_word cur (c # cs) =
     (if cur \<noteq> [] \<and> field_stop stop_word (c # cs) then Some (rev cur)
      else if c = 10 then None
      else lazy_group stop_word (c # cur) cs)"

definition field_at :: "pystr \<Rightarrow> pystr \<Rightarrow> pystr \<Rightarrow> pystr option" where
  "field_at label stop_word s =
     (if ci_prefix label s
      then let s1 = drop (length label) s;
               spaces = length (takeWhile py_isspace s1)
           in first_some (\<lambda>k. lazy_group stop_word [] (drop k s1)) (rev [0..<Suc spaces])
      else None)"

definition search_field :: "pystr \<Rightarrow> pystr \<Rightarrow> pystr \<Rightarrow> pystr option" where
  "search_field label stop_word ws_content = re_search (field_at label stop_word) ws_content"

subsection \<open>\<open>extract_worksheet_sections\<close>\<close>

text \<open>
  \<^verbatim>\<open>
      section_patterns = {
          "fill_blanks": r"SECTION A[:\s]*FILL IN THE BLANKS.*?(?=SECTION B|$)",
          "true_false": r"SECTION B[:\s]*TRUE OR FALSE.*?(?=SECTION C|$)",
          "mcq": r"SECTION C[:\s]*MULTIPLE CHOICE.*?(?=SECTION D|$)",
          "short_answer": r"SECTION D[:\s]*SHORT ANSWER.*?(?=SECTION E|ANSWER KEY|$)",
          "activity": r"SECTION E[:\s]*ACTIVITY.*?(?=ANSWER KEY|$)",
          "answer_key": r"ANSWER KEY:.*?(?=={3}|$)",
      }
      for section_name, pattern in section_patterns.items():
          match = re.search(pattern, content, re.IGNORECASE | re.DOTALL)
          if match:
              sections[section_name] = match.group(0).strip()
  \<close>
  A pattern is a heading, for the first five followed by \<open>[:\s]*\<close> and a name (a letter
  comes next, so the class takes its whole run), and then as few characters as possible
  up to a stop word or \<open>$\<close>, which holds at the end of the text and before a newline that
  ends the text.
\<close>

record section_pattern =
  section_name :: pystr
  section_heading :: pystr
  section_label :: "pystr option"
  section_stops :: "pystr list"

definition section_patterns :: "section_pattern list" where
  "section_patterns =
     [\<lparr> section_name = py ''fill_blanks'', section_heading = py ''SECTION A'',
        section_label = Some (py ''FILL IN THE BLANKS''), section_stops = [py ''SECTION B''] \<rparr>,
      \<lparr> section_name = py ''true_false'', section_heading = py ''SECTION B'',
        section_label = Some (py ''TRUE OR FALSE''), section_stops = [py ''SECTION C''] \<rparr>,
      \<lparr> section_name = py ''mcq'', section_heading = py ''SECTION C'',
        section_label = Some (py ''MULTIPLE CHOICE''), section_stops = [py ''SECTION D''] \<rparr>,
      \<lparr> section_name = py ''short_answer'', section_heading = py ''SECTION D'',
        section_label = Some (py ''SHORT ANSWER''),
        section_stops = [py ''SECTION E'', py ''ANSWER KEY''] \<rparr>,
      \<lparr> section_name = py ''activity'', section_heading = py ''SECTION E'',
        section_label = Some (py ''ACTIVITY''), section_stops = [py ''ANSWER KEY''] \<rparr>,
      \<lparr> section_name = py ''answer_key'', section_heading = py ''ANSWER KEY:'',
        section_label = None, section_stops = [py ''===''] \<rparr>]"

definition lookahead :: "pystr list \<Rightarrow> pystr \<Rightarrow> bool" where
  "lookahead stops s \<longleftrightarrow> list_ex (\<lambda>w. ci_prefix w s) stops \<or> s = [] \<or> s = [10]"

fun lazy_any :: "pystr list \<Rightarrow> pystr \<Rightarrow> pystr" where
  "lazy_any stops [] = []"
| "lazy_any stops (c # cs) = (if lookahead stops (c # cs) then [] else c # lazy_any stops cs)"

definition section_at :: "section_pattern \<Rightarrow> pystr \<Rightarrow> pystr option" where
  "section_at p s =
     (if ci_prefix (section_heading p) s
      then let s1 = drop (length (section_heading p)) s
           in (case section_label p of
                 None \<Rightarrow> Some (take (length s - length s1) s @ lazy_any (section_stops p) s1)
               | Some label \<Rightarrow>
                   let s2 = dropWhile (\<lambda>c. c = 58 \<or> py_isspace c) s1
                   in if ci_prefix label s2
                      then let s3 = drop (length label) s2
                           in Some (take (length s - length s3) s @
                                    lazy_any (section_stops p) s3)
                      else None)
      else None)"

definition extract_worksheet_sections :: "pystr \<Rightarrow> (pystr \<times> pystr) list" where
  "extract_worksheet_sections content =
     List.map_filter
       (\<lambda>p. map_option (\<lambda>g. (section_name p, py_strip g)) (re_search (section_at p) content))
       section_patterns"

subsection \<open>The parser\<close>

record worksheet =
  ws_number :: int
  ws_title :: pystr
  ws_objective :: pystr
  ws_duration :: pystr
  ws_content :: pystr
  ws_sections :: "(pystr \<times> pystr) list"

text \<open>
  \<open>int(ws_num) if ws_num.isdigit() else len(worksheets) + 1\<close>. \<open>int\<close> raises
  \<open>ValueError\<close> on a digit that is no decimal, such as a superscript two.
\<close>

definition str_isdigit :: "pystr \<Rightarrow> bool" where
  "str_isdigit s \<longleftrightarrow> s \<noteq> [] \<and> list_all py_isdigit s"

definition worksheet_number :: "pystr \<Rightarrow> nat \<Rightarrow> py_error + int" where
  "worksheet_number ws_num len_worksheets =
     (if str_isdigit ws_num
      then if list_all py_isdecimal ws_num then py_int_digits ws_num
           else Inl (ValueError (py ''invalid literal for int() with base 10: '' @
                                 [39] @ ws_num @ [39]))
      else Inr (int len_worksheets + 1))"

text \<open>
  The body of the loop over the pairs (number, content):
  \<^verbatim>\<open>
      ws_num = sections[i].strip()
      ws_content = sections[i + 1].strip()
      ws_content = re.sub(r"===END WORKSHEET \d+===", "", ws_content, flags=re.IGNORECASE)
      ws_content = re.sub(r"---END WORKSHEET \d+---", "", ws_content, flags=re.IGNORECASE)
      title_match = re.search(r"TITLE:\s*(.+?)(?:\n|SESSION:)", ws_content, re.IGNORECASE)
      title = title_match.group(1).strip() if title_match else f"Worksheet {ws_num}: {topic}"
      obj_match = re.search(r"OBJECTIVE:\s*(.+?)(?:\n|DURATION:)", ws_content, re.IGNORECASE)
      objective = obj_match.group(1).strip() if obj_match else ""
      dur_match = re.search(r"DURATION:\s*(.+?)(?:\n|SECTION)", ws_content, re.IGNORECASE)
      duration = dur_match.group(1).strip() if dur_match else "20 minutes"
      sections_data = extract_worksheet_sections(ws_content)
      worksheets.append({
          "number": int(ws_num) if ws_num.isdigit() else len(worksheets) + 1,
          "title": title, "objective": objective, "duration": duration,
          "content": ws_content, "sections": sections_data,
      })
  \<close>
\<close>

definition marked_worksheet :: "pystr \<Rightarrow> pystr \<Rightarrow> pystr \<Rightarrow> nat \<Rightarrow> py_error + worksheet" where
  "marked_worksheet topic section_num section_content len_worksheets =
     (let ws_num = py_strip section_num;
          content = remove_end_markers (py_strip section_content);
          title = (case search_field (py ''TITLE:'') (py ''SESSION:'') content of
                     Some g \<Rightarrow> py_strip g
                   | None \<Rightarrow> py ''Worksheet '' @ ws_num @ py '': '' @ topic);
          objective = (case search_field (py ''OBJECTIVE:'') (py ''DURATION:'') content of
                         Some g \<Rightarrow> py_strip g
                       | None \<Rightarrow> []);
          duration_label = (case search_field (py ''DURATION:'') (py ''SECTION'') content of
                        Some g \<Rightarrow> py_strip g
                      | None \<Rightarrow> py ''20 minutes'');
          sections_data = extract_worksheet_sections content
      in case worksheet_number ws_num len_worksheets of
           Inl e \<Rightarrow> Inl e
         | Inr n \<Rightarrow>
             Inr \<lparr> ws_number = n, ws_title = title, ws_objective = objective,
                   ws_duration = duration_label, ws_content = content,
                   ws_sections = sections_data \<rparr>)"

text \<open>
  The loop
  \<^verbatim>\<open>
      i = 1
      while i < len(sections):
          if i + 1 < len(sections):
              ...
              i += 2
          else:
              i += 1
  \<close>
  over the sections from index \<open>i\<close> on; \<open>found\<close> is the list \<open>worksheets\<close>.
\<close>

fun pairs_loop :: "pystr \<Rightarrow> pystr list \<Rightarrow> worksheet list \<Rightarrow> py_error + worksheet list" where
  "pairs_loop topic (section_num # section_content # rest) found =
     (case marked_worksheet topic section_num section_content (length found) of
        Inl e \<Rightarrow> Inl e
      | Inr w \<Rightarrow> pairs_loop topic rest (found @ [w]))"
| "pairs_loop topic [section_num] found = Inr found"
| "pairs_loop topic [] found = Inr found"

text \<open>
  The fallback:
  \<^verbatim>\<open>
      content_chunks = worksheet_text.split("\n\n")
      chunk_size = len(content_chunks) // num_sessions if len(content_chunks) >= num_sessions else 1
      for i in range(num_sessions):
          start_idx = i * chunk_size
          end_idx = start_idx + chunk_size if i < num_sessions - 1 else len(content_chunks)
          chunk_content = "\n\n".join(content_chunks[start_idx:end_idx])
          worksheets.append({
              "number": i + 1,
              "title": f"Worksheet {i + 1}: {topic}",
              "objective": f"Practice and reinforce understanding of {topic}",
              "duration": "20 minutes",
              "content": chunk_content if chunk_content.strip() else worksheet_text,
              "sections": {},
          })
  \<close>
  The division raises \<open>ZeroDivisionError\<close> for \<open>num_sessions = 0\<close>. The body of the loop
  runs only for \<open>num_sessions \<ge> 1\<close>; then \<open>chunk_size \<ge> 1\<close> and no index of the slice is
  negative.
\<close>

definition chunk_size_of :: "nat \<Rightarrow> int \<Rightarrow> py_error + int" where
  "chunk_size_of len_chunks num_sessions =
     (if int len_chunks \<ge> num_sessions
      then if num_sessions = 0 then Inl ZeroDivisionError
           else Inr (int len_chunks div num_sessions)
      else Inr 1)"

definition chunk_content_of :: "pystr list \<Rightarrow> int \<Rightarrow> int \<Rightarrow> nat \<Rightarrow> pystr" where
  "chunk_content_of content_chunks chunk_size num_sessions i =
     (let start_idx = int i * chunk_size;
          end_idx = (if int i < num_sessions - 1 then start_idx + chunk_size
                     else int (length content_chunks))
      in py_join [10, 10] (py_slice content_chunks (nat start_idx) (nat end_idx)))"

definition fallback_worksheet ::
  "pystr \<Rightarrow> pystr \<Rightarrow> pystr list \<Rightarrow> int \<Rightarrow> int \<Rightarrow> nat \<Rightarrow> worksheet" where
  "fallback_worksheet worksheet_text topic content_chunks chunk_size num_sessions i =
     (let chunk_content = chunk_content_of content_chunks chunk_size num_sessions i
      in \<lparr> ws_number = int i + 1,
           ws_title = py ''Worksheet '' @ py_str_int (int i + 1) @ py '': '' @ topic,
           ws_objective = py ''Practice and reinforce understanding of '' @ topic,
           ws_duration = py ''20 minutes'',
           ws_content = (if py_strip chunk_content \<noteq> [] then chunk_content
                         else worksheet_text),
           ws_sections = [] \<rparr>)"

definition parse_worksheets :: "pystr \<Rightarrow> pystr \<Rightarrow> int \<Rightarrow> py_error + worksheet list" where
  "parse_worksheets worksheet_text topic num_sessions =
     (case (case try_patterns None patterns worksheet_text of
              Some sections \<Rightarrow>
                if length sections > 1 then pairs_loop topic (drop 1 sections) []
                else Inr []
            | None \<Rightarrow> Inr []) of
        Inl e \<Rightarrow> Inl e
      | Inr found \<Rightarrow>
          if found \<noteq> [] then Inr found
          else
            let content_chunks = py_split [10, 10] worksheet_text
            in (case chunk_size_of (length content_chunks) num_sessions of
                  Inl e \<Rightarrow> Inl e
                | Inr chunk_size \<Rightarrow>
                    Inr (map (fallback_worksheet worksheet_text topic content_chunks
                                chunk_size num_sessions)
                           [0..<nat num_sessions])))"

section \<open>Properties of \<open>_split_into_n\<close>\<close>

lemma py_index_in_range:
  "0 \<le> k \<Longrightarrow> k < int (length xs) \<Longrightarrow> py_index xs k = Inr (nat k)"
  by (simp add: py_index_def)

lemma filter_shift_upt:
  "map f (filter P [Suc a..<Suc b]) = map (\<lambda>i. f (Suc i)) (filter (\<lambda>i. P (Suc i)) [a..<b])"
proof -
  have "[Suc a..<Suc b] = map Suc [a..<b]"
    by (simp add: map_Suc_upt)
  then show ?thesis
    by (simp add: filter_map comp_def)
qed

lemma split_loop_closed_form:
  assumes "0 < n" and "length buckets = n"
  shows "\<exists>bs. split_loop buckets (int n) idx items = Inr bs \<and> length bs = n \<and>
           (\<forall>j<n. bs ! j = buckets ! j @
              map (\<lambda>i. items ! i) (filter (\<lambda>i. (idx + i) mod n = j) [0..<length items]))"
  using assms
proof (induction items arbitrary: buckets idx)
  case Nil
  then show ?case by simp
next
  case (Cons item items)
  let ?k = "idx mod n"
  let ?b = "buckets[?k := buckets ! ?k @ [item]]"
  have k: "?k < n" using Cons.prems by simp
  have ix: "py_index buckets (int idx mod int n) = Inr ?k"
  proof -
    have "int idx mod int n = int ?k" by (simp add: zmod_int)
    moreover have "py_index buckets (int ?k) = Inr (nat (int ?k))"
      by (rule py_index_in_range) (use k Cons.prems in simp_all)
    ultimately show ?thesis by simp
  qed
  have len: "length ?b = n" using Cons.prems by simp
  from Cons.IH [OF Cons.prems(1) len, of "Suc idx"]
  obtain bs where bs: "split_loop ?b (int n) (Suc idx) items = Inr bs" "length bs = n"
    and el: "\<forall>j<n. bs ! j = ?b ! j @
              map (\<lambda>i. items ! i) (filter (\<lambda>i. (Suc idx + i) mod n = j) [0..<length items])"
    by blast
  have run: "split_loop buckets (int n) idx (item # items) = Inr bs"
    using Cons.prems(1) ix bs(1) by simp
  have "bs ! j = buckets ! j @
          map (\<lambda>i. (item # items) ! i)
            (filter (\<lambda>i. (idx + i) mod n = j) [0..<length (item # items)])" if j: "j < n" for j
  proof -
    have up: "[0..<length (item # items)] = 0 # [Suc 0..<Suc (length items)]"
      by (simp add: upt_rec)
    have tl: "map (\<lambda>i. (item # items) ! i)
                (filter (\<lambda>i. (idx + i) mod n = j) [Suc 0..<Suc (length items)])
              = map (\<lambda>i. items ! i) (filter (\<lambda>i. (Suc idx + i) mod n = j) [0..<length items])"
      by (simp only: filter_shift_upt nth_Cons_Suc add_Suc_right add_Suc)
    show ?thesis
    proof (cases "?k = j")
      case True
      then have "?b ! j = buckets ! j @ [item]"
        using j Cons.prems by simp
      with el j True show ?thesis
        by (simp only: up tl [symmetric]) simp
    next
      case False
      then have "?b ! j = buckets ! j" by simp
      with el j False show ?thesis
        by (simp only: up tl [symmetric]) simp
    qed
  qed
  with run bs(2) show ?case by blast
qed

text \<open>
  Claim C6. For every item list and every \<open>n \<ge> 1\<close>, \<open>_split_into_n\<close> returns exactly
  \<open>n\<close> buckets; bucket \<open>j\<close> holds the items whose index is \<open>j\<close> modulo \<open>n\<close>, in input
  order, and a bucket left empty is \<open>["-"]\<close>. In particular
  \<open>_split_into_n(["a","b","c","d","e"], 4) = [["a","e"],["b"],["c"],["d"]]\<close> and
  \<open>_split_into_n([], 3) = [["-"],["-"],["-"]]\<close>.
\<close>

theorem split_into_n_round_robin:
  "(\<forall>items n. 1 \<le> n \<longrightarrow>
      (\<exists>bs. split_into_n items n = Inr bs \<and> length bs = nat n \<and>
         (\<forall>j<nat n. bs ! j =
            (if items_of_bucket items (nat n) j \<noteq> [] then items_of_bucket items (nat n) j
             else [py ''-'']))))
   \<and> split_into_n [py ''a'', py ''b'', py ''c'', py ''d'', py ''e''] 4
       = Inr [[py ''a'', py ''e''], [py ''b''], [py ''c''], [py ''d'']]
   \<and> split_into_n [] 3 = Inr [[py ''-''], [py ''-''], [py ''-'']]"
proof (intro conjI allI impI)
  fix items :: "pystr list" and n :: int
  assume n: "1 \<le> n"
  define m where "m = nat n"
  have m: "0 < m" "int m = n" using n by (simp_all add: m_def)
  show "\<exists>bs. split_into_n items n = Inr bs \<and> length bs = nat n \<and>
         (\<forall>j<nat n. bs ! j =
            (if items_of_bucket items (nat n) j \<noteq> [] then items_of_bucket items (nat n) j
             else [py ''-'']))"
  proof (cases "items = []")
    case True
    then show ?thesis
      by (simp add: split_into_n_def items_of_bucket_def dash_def)
  next
    case False
    from split_loop_closed_form [of m "replicate m []" 0 items] m
    obtain bs where bs: "split_loop (replicate m []) n 0 items = Inr bs" "length bs = m"
      and el: "\<forall>j<m. bs ! j = replicate m [] ! j @
                 map (\<lambda>i. items ! i) (filter (\<lambda>i. (0 + i) mod m = j) [0..<length items])"
      by auto
    have el': "bs ! j = items_of_bucket items m j" if "j < m" for j
      using el that by (simp add: items_of_bucket_def)
    have "split_into_n items n = Inr (map (\<lambda>b. if b \<noteq> [] then b else [dash]) bs)"
      using False bs(1) by (simp add: split_into_n_def m_def)
    then show ?thesis
      using bs(2) el' by (simp add: m_def [symmetric] dash_def)
  qed
next
  show "split_into_n [py ''a'', py ''b'', py ''c'', py ''d'', py ''e''] 4
       = Inr [[py ''a'', py ''e''], [py ''b''], [py ''c''], [py ''d'']]"
    by (simp add: split_into_n_def py_index_def eval_nat_numeral)
next
  show "split_into_n [] 3 = Inr [[py ''-''], [py ''-''], [py ''-'']]"
    by (simp add: split_into_n_def dash_def eval_nat_numeral)
qed

theorem split_into_n_round_robin_witness:
  "split_into_n [py ''x'', py ''y'', py ''z''] 2 = Inr [[py ''x'', py ''z''], [py ''y'']]"
proof -
  let ?xs = "[py ''x'', py ''y'', py ''z'']"
  have h: "1 \<le> (2::int)" by simp
  from split_into_n_round_robin
  have all: "\<forall>items n. 1 \<le> n \<longrightarrow>
      (\<exists>bs. split_into_n items n = Inr bs \<and> length bs = nat n \<and>
         (\<forall>j<nat n. bs ! j =
            (if items_of_bucket items (nat n) j \<noteq> [] then items_of_bucket items (nat n) j
             else [py ''-''])))"
    by (rule conjunct1)
  from all h obtain bs where bs: "split_into_n ?xs 2 = Inr bs" "length bs = nat 2"
    and el: "\<forall>j<nat 2. bs ! j =
            (if items_of_bucket ?xs (nat 2) j \<noteq> [] then items_of_bucket ?xs (nat 2) j
             else [py ''-''])"
    by blast
  have n2: "nat 2 = Suc (Suc 0)" by simp
  have i0: "items_of_bucket ?xs (Suc (Suc 0)) 0 = [py ''x'', py ''z'']"
    by (simp add: items_of_bucket_def upt_rec)
  have i1: "items_of_bucket ?xs (Suc (Suc 0)) (Suc 0) = [py ''y'']"
    by (simp add: items_of_bucket_def upt_rec)
  have b0: "bs ! 0 = [py ''x'', py ''z'']"
    using el [unfolded n2, rule_format, of 0] i0 by simp
  have b1: "bs ! Suc 0 = [py ''y'']"
    using el [unfolded n2, rule_format, of "Suc 0"] i1 by simp
  have "length bs = Suc (Suc 0)" using bs(2) n2 by simp
  then have "bs = [bs ! 0, bs ! Suc 0]"
    by (cases bs; cases "tl bs"; cases "tl (tl bs)") auto
  with b0 b1 bs(1) show ?thesis by simp
qed

section \<open>Properties of the session planner\<close>

lemma split_into_n_buckets:
  assumes "1 \<le> n"
  shows "\<exists>bs. split_into_n items n = Inr bs \<and> length bs = nat n \<and>
           (\<forall>b\<in>set bs. b \<noteq> []) \<and> (items = [] \<longrightarrow> bs = replicate (nat n) [dash]) \<and>
           (\<forall>j<nat n. bs ! j =
              (if items_of_bucket items (nat n) j \<noteq> [] then items_of_bucket items (nat n) j
               else [dash]))"
proof (cases "items = []")
  case True
  then show ?thesis by (simp add: split_into_n_def items_of_bucket_def)
next
  case False
  define m where "m = nat n"
  have m: "0 < m" "int m = n" using assms by (simp_all add: m_def)
  from split_loop_closed_form [of m "replicate m []" 0 items] m
  obtain bs where bs: "split_loop (replicate m []) n 0 items = Inr bs" "length bs = m"
    and el: "\<forall>j<m. bs ! j = replicate m [] ! j @
               map (\<lambda>i. items ! i) (filter (\<lambda>i. (0 + i) mod m = j) [0..<length items])"
    by auto
  have el': "bs ! j = items_of_bucket items m j" if "j < m" for j
    using el that by (simp add: items_of_bucket_def)
  have run: "split_into_n items n = Inr (map (\<lambda>b. if b \<noteq> [] then b else [dash]) bs)"
    using False bs(1) by (simp add: split_into_n_def m_def)
  have ne: "\<forall>b\<in>set (map (\<lambda>b. if b \<noteq> [] then b else [dash]) bs). b \<noteq> []"
  proof
    fix b
    assume "b \<in> set (map (\<lambda>b. if b \<noteq> [] then b else [dash]) bs)"
    then have "b \<in> (\<lambda>b. if b \<noteq> [] then b else [dash]) ` set bs"
      by (simp only: set_map)
    then obtain x where "b = (if x \<noteq> [] then x else [dash])"
      by blast
    then show "b \<noteq> []"
      by (cases "x = []") simp_all
  qed
  have len: "length (map (\<lambda>b. if b \<noteq> [] then b else [dash]) bs) = nat n"
    using bs(2) by (simp add: m_def)
  have closed: "\<forall>j<nat n. map (\<lambda>b. if b \<noteq> [] then b else [dash]) bs ! j =
              (if items_of_bucket items (nat n) j \<noteq> [] then items_of_bucket items (nat n) j
               else [dash])"
    using bs(2) el' by (simp add: m_def [symmetric])
  from run ne len False closed show ?thesis
    by blast
qed

lemma py_get_in_range: "i < length xs \<Longrightarrow> py_get xs (int i) = Inr (xs ! i)"
  by (simp add: py_get_def py_index_def)

lemma collect_all_Inr:
  assumes "\<forall>x\<in>set xs. f x = Inr (g x)"
  shows "collect (map f xs) = Inr (map g xs)"
  using assms by (induction xs) simp_all

lemma session_at_in_range:
  assumes "i < length act_n" "i < length res_n" "i < length assess_n"
  shows "\<exists>s. session_at d obj_list out_list hw_list act_n res_n assess_n i = Inr s \<and>
              number s = int i + 1 \<and> activities s = act_n ! i"
  using assms by (simp add: session_at_def py_get_in_range)


text \<open>
  Claim C3. For every formatted lesson-plan text (also one with no bullet item at all)
  and every \<open>num_sessions \<ge> 1\<close>, \<open>parse_llm_to_sessions\<close> returns exactly
  \<open>num_sessions\<close> session records, numbered \<open>1..num_sessions\<close> in order, and the
  activities list of each record is non-empty: record \<open>i\<close> (counted from \<open>0\<close>) holds the
  items of the ACTIVITIES section whose index is \<open>i\<close> modulo \<open>num_sessions\<close>, in the
  order of the text, and the placeholder \<open>["-"]\<close> when there is no such item, in
  particular when the section yields no item at all.
\<close>

theorem parse_llm_to_sessions_exact:
  assumes "1 \<le> num_sessions"
  shows "\<exists>ss. parse_llm_to_sessions formatted_text session_duration num_sessions = Inr ss \<and>
           length ss = nat num_sessions \<and>
           map number ss = map int [1..<Suc (nat num_sessions)] \<and>
           (\<forall>s\<in>set ss. activities s \<noteq> []) \<and>
           (\<forall>i<nat num_sessions. activities (ss ! i) =
              (if items_of_bucket
                    (lines_to_list (extract_section formatted_text (py ''ACTIVITIES'')))
                    (nat num_sessions) i \<noteq> []
               then items_of_bucket
                      (lines_to_list (extract_section formatted_text (py ''ACTIVITIES'')))
                      (nat num_sessions) i
               else [py ''-''])) \<and>
           (lines_to_list (extract_section formatted_text (py ''ACTIVITIES'')) = [] \<longrightarrow>
              (\<forall>s\<in>set ss. activities s = [py ''-'']))"
proof -
  define m where "m = nat num_sessions"
  define act_list where "act_list = lines_to_list (extract_section formatted_text (py ''ACTIVITIES''))"
  define res_list where
    "res_list = lines_to_list (extract_section formatted_text (py ''TEACHING AIDS/RESOURCES''))"
  define assess_list where
    "assess_list = lines_to_list (extract_section formatted_text (py ''ASSESSMENT''))"
  define obj_list where
    "obj_list = lines_to_list (extract_section formatted_text (py ''LEARNING OBJECTIVES''))"
  define out_list where
    "out_list = lines_to_list (extract_section formatted_text (py ''LEARNING OUTCOMES''))"
  define hw_list where "hw_list = lines_to_list (extract_section formatted_text (py ''HOMEWORK''))"
  from split_into_n_buckets [OF assms, of act_list]
  obtain act_n where act: "split_into_n act_list num_sessions = Inr act_n" "length act_n = m"
    "\<forall>b\<in>set act_n. b \<noteq> []" "act_list = [] \<longrightarrow> act_n = replicate m [dash]"
    "\<forall>j<m. act_n ! j =
       (if items_of_bucket act_list m j \<noteq> [] then items_of_bucket act_list m j else [dash])"
    unfolding m_def by blast
  from split_into_n_buckets [OF assms, of res_list]
  obtain res_n where res: "split_into_n res_list num_sessions = Inr res_n" "length res_n = m"
    unfolding m_def by blast
  from split_into_n_buckets [OF assms, of assess_list]
  obtain assess_n where assess: "split_into_n assess_list num_sessions = Inr assess_n"
    "length assess_n = m"
    unfolding m_def by blast
  let ?f = "session_at session_duration obj_list out_list hw_list act_n res_n assess_n"
  define g where "g i = projr (?f i)" for i
  have fg: "?f i = Inr (g i) \<and> number (g i) = int i + 1 \<and> activities (g i) = act_n ! i"
    if "i < m" for i
    using session_at_in_range [of i act_n res_n assess_n session_duration obj_list out_list hw_list]
      that act(2) res(2) assess(2) by (auto simp: g_def)
  have "collect (map ?f [0..<m]) = Inr (map g [0..<m])"
    by (rule collect_all_Inr) (use fg in simp)
  then have run: "parse_llm_to_sessions formatted_text session_duration num_sessions
                  = Inr (map g [0..<m])"
    using act(1) res(1) assess(1)
    by (simp add: parse_llm_to_sessions_def Let_def m_def act_list_def res_list_def
        assess_list_def obj_list_def out_list_def hw_list_def)
  have num: "map number (map g [0..<m]) = map int [1..<Suc m]"
  proof -
    have "map number (map g [0..<m]) = map (\<lambda>i. int i + 1) [0..<m]"
      using fg by simp
    also have "\<dots> = map int (map Suc [0..<m])"
      by simp
    also have "map Suc [0..<m] = [1..<Suc m]"
      by (simp add: map_Suc_upt)
    finally show ?thesis .
  qed
  have ne: "\<forall>s\<in>set (map g [0..<m]). activities s \<noteq> []"
  proof
    fix s
    assume "s \<in> set (map g [0..<m])"
    then obtain i where i: "i < m" "s = g i"
      by auto
    then have "activities s = act_n ! i"
      using fg by simp
    moreover have "act_n ! i \<in> set act_n"
      using i(1) act(2) by simp
    ultimately show "activities s \<noteq> []"
      using act(3) by simp
  qed
  have ph: "act_list = [] \<longrightarrow> (\<forall>s\<in>set (map g [0..<m]). activities s = [py ''-''])"
  proof (intro impI ballI)
    fix s
    assume e: "act_list = []" and "s \<in> set (map g [0..<m])"
    then obtain i where i: "i < m" "s = g i"
      by auto
    then have "activities s = act_n ! i"
      using fg by simp
    also have "\<dots> = [dash]"
      using e act(4) i(1) by simp
    finally show "activities s = [py ''-'']"
      by (simp add: dash_def)
  qed
  have each: "\<forall>i<m. activities (map g [0..<m] ! i) =
                (if items_of_bucket act_list m i \<noteq> [] then items_of_bucket act_list m i
                 else [py ''-''])"
  proof (intro allI impI)
    fix i
    assume i: "i < m"
    then have "activities (map g [0..<m] ! i) = act_n ! i"
      using fg by simp
    also have "\<dots> = (if items_of_bucket act_list m i \<noteq> [] then items_of_bucket act_list m i
                       else [dash])"
      using act(5) i by simp
    finally show "activities (map g [0..<m] ! i) =
                    (if items_of_bucket act_list m i \<noteq> [] then items_of_bucket act_list m i
                     else [py ''-''])"
      by (simp add: dash_def)
  qed
  from run num ne ph each show ?thesis
    by (simp add: m_def act_list_def)
qed

lemma one_activity:
  "lines_to_list (extract_section (py ''---ACTIVITIES---'' @ [10] @ py ''Sing'') (py ''ACTIVITIES''))
   = [py ''Sing'']"
proof -
  have sect: "extract_section (py ''---ACTIVITIES---'' @ [10] @ py ''Sing'') (py ''ACTIVITIES'')
              = py ''Sing''"
    by (simp add: extract_section_def py_def py_strip_def py_isspace_def)
  have letter: "\<not> py_isdigit 83"
    by (simp add: py_isdigit_def digit_ranges_def)
  have "lines_to_list (py ''Sing'') = [py ''Sing'']"
    using letter
    by (simp add: lines_to_list_def py_splitlines_def linebreak_def py_def py_strip_def
        py_isspace_def py_lstrip_chars_def)
  with sect show ?thesis
    by (simp only:)
qed

theorem parse_llm_to_sessions_exact_witness:
  "1 \<le> (3::int) \<and>
   (\<exists>ss. parse_llm_to_sessions (py ''---ACTIVITIES---'' @ [10] @ py ''Sing'') 40 3 = Inr ss \<and>
      length ss = 3 \<and> map number ss = [1, 2, 3] \<and>
      map activities ss = [[py ''Sing''], [py ''-''], [py ''-'']])"
proof -
  let ?text = "py ''---ACTIVITIES---'' @ [10] @ py ''Sing''"
  have h: "1 \<le> (3::int)" by simp
  have n3: "nat 3 = Suc (Suc (Suc 0))" by simp
  from parse_llm_to_sessions_exact [OF h, of ?text 40]
  obtain ss where ss: "parse_llm_to_sessions ?text 40 3 = Inr ss"
    "length ss = nat 3" "map number ss = map int [1..<Suc (nat 3)]"
    and each: "\<forall>i<nat 3. activities (ss ! i) =
              (if items_of_bucket (lines_to_list (extract_section ?text (py ''ACTIVITIES'')))
                    (nat 3) i \<noteq> []
               then items_of_bucket (lines_to_list (extract_section ?text (py ''ACTIVITIES'')))
                      (nat 3) i
               else [py ''-''])"
    by blast
  have numbers: "map number ss = [1, 2, 3]"
    using ss(3) by (simp add: upt_rec)
  have len: "length ss = Suc (Suc (Suc 0))"
    using ss(2) n3 by (simp only:)
  have each': "\<forall>i<Suc (Suc (Suc 0)). activities (ss ! i) =
              (if items_of_bucket [py ''Sing''] (Suc (Suc (Suc 0))) i \<noteq> []
               then items_of_bucket [py ''Sing''] (Suc (Suc (Suc 0))) i
               else [py ''-''])"
    using each unfolding one_activity n3 .
  have b0: "items_of_bucket [py ''Sing''] (Suc (Suc (Suc 0))) 0 = [py ''Sing'']"
    by (simp add: items_of_bucket_def)
  have b1: "items_of_bucket [py ''Sing''] (Suc (Suc (Suc 0))) (Suc 0) = []"
    by (simp add: items_of_bucket_def)
  have b2: "items_of_bucket [py ''Sing''] (Suc (Suc (Suc 0))) (Suc (Suc 0)) = []"
    by (simp add: items_of_bucket_def)
  have a0: "activities (ss ! 0) = [py ''Sing'']"
    using each' [rule_format, of 0] by (simp only: b0) simp
  have a1: "activities (ss ! Suc 0) = [py ''-'']"
    using each' [rule_format, of "Suc 0"] by (simp only: b1) simp
  have a2: "activities (ss ! Suc (Suc 0)) = [py ''-'']"
    using each' [rule_format, of "Suc (Suc 0)"] by (simp only: b2) simp
  have "map activities ss = map activities (map ((!) ss) [0..<length ss])"
    by (simp only: map_nth)
  also have "\<dots> = [activities (ss ! 0), activities (ss ! Suc 0), activities (ss ! Suc (Suc 0))]"
    unfolding len by (simp add: upt_rec)
  finally have "map activities ss = [[py ''Sing''], [py ''-''], [py ''-'']]"
    by (simp only: a0 a1 a2)
  with h ss(1) len numbers show ?thesis
    by auto
qed

section \<open>Properties of the utterance interpreter\<close>

lemma stage_neq:
  "LANGUAGE_SELECTION \<noteq> TOPIC_COLLECTION"
  "LANGUAGE_SELECTION \<noteq> SUBJECT_COLLECTION"
  "LANGUAGE_SELECTION \<noteq> CLASS_COLLECTION"
  "LANGUAGE_SELECTION \<noteq> SESSION_DURATION"
  "LANGUAGE_SELECTION \<noteq> NUM_SESSIONS"
  "LANGUAGE_SELECTION \<noteq> CONFIRMATION"
  "TOPIC_COLLECTION \<noteq> LANGUAGE_SELECTION"
  "TOPIC_COLLECTION \<noteq> SUBJECT_COLLECTION"
  "TOPIC_COLLECTION \<noteq> CLASS_COLLECTION"
  "TOPIC_COLLECTION \<noteq> SESSION_DURATION"
  "TOPIC_COLLECTION \<noteq> NUM_SESSIONS"
  "TOPIC_COLLECTION \<noteq> CONFIRMATION"
  "SUBJECT_COLLECTION \<noteq> LANGUAGE_SELECTION"
  "SUBJECT_COLLECTION \<noteq> TOPIC_COLLECTION"
  "SUBJECT_COLLECTION \<noteq> CLASS_COLLECTION"
  "SUBJECT_COLLECTION \<noteq> SESSION_DURATION"
  "SUBJECT_COLLECTION \<noteq> NUM_SESSIONS"
  "SUBJECT_COLLECTION \<noteq> CONFIRMATION"
  "CLASS_COLLECTION \<noteq> LANGUAGE_SELECTION"
  "CLASS_COLLECTION \<noteq> TOPIC_COLLECTION"
  "CLASS_COLLECTION \<noteq> SUBJECT_COLLECTION"
  "CLASS_COLLECTION \<noteq> SESSION_DURATION"
  "CLASS_COLLECTION \<noteq> NUM_SESSIONS"
  "CLASS_COLLECTION \<noteq> CONFIRMATION"
  "SESSION_DURATION \<noteq> LANGUAGE_SELECTION"
  "SESSION_DURATION \<noteq> TOPIC_COLLECTION"
  "SESSION_DURATION \<noteq> SUBJECT_COLLECTION"
  "SESSION_DURATION \<noteq> CLASS_COLLECTION"
  "SESSION_DURATION \<noteq> NUM_SESSIONS"
  "SESSION_DURATION \<noteq> CONFIRMATION"
  "NUM_SESSIONS \<noteq> LANGUAGE_SELECTION"
  "NUM_SESSIONS \<noteq> TOPIC_COLLECTION"
  "NUM_SESSIONS \<noteq> SUBJECT_COLLECTION"
  "NUM_SESSIONS \<noteq> CLASS_COLLECTION"
  "NUM_SESSIONS \<noteq> SESSION_DURATION"
  "NUM_SESSIONS \<noteq> CONFIRMATION"
  "CONFIRMATION \<noteq> LANGUAGE_SELECTION"
  "CONFIRMATION \<noteq> TOPIC_COLLECTION"
  "CONFIRMATION \<noteq> SUBJECT_COLLECTION"
  "CONFIRMATION \<noteq> CLASS_COLLECTION"
  "CONFIRMATION \<noteq> SESSION_DURATION"
  "CONFIRMATION \<noteq> NUM_SESSIONS"
  by (simp_all add: LANGUAGE_SELECTION_def TOPIC_COLLECTION_def SUBJECT_COLLECTION_def
      CLASS_COLLECTION_def SESSION_DURATION_def NUM_SESSIONS_def CONFIRMATION_def py_def)

lemma restart_checked_first:
  assumes "list_ex (\<lambda>cmd. py_in cmd (py_strip (str_lower rt transcript))) restart_cmds"
  shows "parse_user_response rt transcript stage_name lang_mode
         = Inr \<lparr>val = PStr (py ''RESTART''), needs_clarification = False\<rparr>"
  using assms by (simp add: parse_user_response_def)

lemma short_is_not_restart: "length s < 3 \<Longrightarrow> s \<noteq> py ''RESTART''"
  by (auto simp add: py_def)

lemma clarification_is_not_restart:
  "parse_user_response rt transcript stage_name lang_mode = Inr parsed \<and>
   needs_clarification parsed \<longrightarrow> val parsed \<noteq> PStr (py ''RESTART'')"
proof (cases "list_ex (\<lambda>cmd. py_in cmd (py_strip (str_lower rt transcript))) restart_cmds")
  case True
  then show ?thesis
    by (auto simp add: restart_checked_first)
next
  case False
    consider (c0) "stage_name = LANGUAGE_SELECTION"
      | (c1) "stage_name \<noteq> LANGUAGE_SELECTION" "stage_name = TOPIC_COLLECTION"
      | (c2) "stage_name \<noteq> LANGUAGE_SELECTION" "stage_name \<noteq> TOPIC_COLLECTION" "stage_name = SUBJECT_COLLECTION"
      | (c3) "stage_name \<noteq> LANGUAGE_SELECTION" "stage_name \<noteq> TOPIC_COLLECTION" "stage_name \<noteq> SUBJECT_COLLECTION" "stage_name = CLASS_COLLECTION"
      | (c4) "stage_name \<noteq> LANGUAGE_SELECTION" "stage_name \<noteq> TOPIC_COLLECTION" "stage_name \<noteq> SUBJECT_COLLECTION" "stage_name \<noteq> CLASS_COLLECTION" "stage_name = SESSION_DURATION"
      | (c5) "stage_name \<noteq> LANGUAGE_SELECTION" "stage_name \<noteq> TOPIC_COLLECTION" "stage_name \<noteq> SUBJECT_COLLECTION" "stage_name \<noteq> CLASS_COLLECTION" "stage_name \<noteq> SESSION_DURATION" "stage_name = NUM_SESSIONS"
      | (c6) "stage_name \<noteq> LANGUAGE_SELECTION" "stage_name \<noteq> TOPIC_COLLECTION" "stage_name \<noteq> SUBJECT_COLLECTION" "stage_name \<noteq> CLASS_COLLECTION" "stage_name \<noteq> SESSION_DURATION" "stage_name \<noteq> NUM_SESSIONS" "stage_name = CONFIRMATION"
      | (c7) "stage_name \<noteq> LANGUAGE_SELECTION" "stage_name \<noteq> TOPIC_COLLECTION" "stage_name \<noteq> SUBJECT_COLLECTION" "stage_name \<noteq> CLASS_COLLECTION" "stage_name \<noteq> SESSION_DURATION" "stage_name \<noteq> NUM_SESSIONS" "stage_name \<noteq> CONFIRMATION"
      by blast
    then show ?thesis
    proof cases
      case c0
      with False show ?thesis
        by (auto simp add: parse_user_response_def Let_def stage_neq short_is_not_restart
            split: option.splits prod.splits sum.splits if_splits)
    next
      case c1
      with False show ?thesis
        by (auto simp add: parse_user_response_def Let_def stage_neq short_is_not_restart
            split: option.splits prod.splits sum.splits if_splits)
    next
      case c2
      with False show ?thesis
        by (auto simp add: parse_user_response_def Let_def stage_neq short_is_not_restart
            split: option.splits prod.splits sum.splits if_splits)
    next
      case c3
      with False show ?thesis
        by (auto simp add: parse_user_response_def Let_def stage_neq short_is_not_restart
            split: option.splits prod.splits sum.splits if_splits)
    next
      case c4
      with False show ?thesis
        by (auto simp add: parse_user_response_def Let_def stage_neq short_is_not_restart
            split: option.splits prod.splits sum.splits if_splits)
    next
      case c5
      with False show ?thesis
        by (auto simp add: parse_user_response_def Let_def stage_neq short_is_not_restart
            split: option.splits prod.splits sum.splits if_splits)
    next
      case c6
      with False show ?thesis
        by (auto simp add: parse_user_response_def Let_def stage_neq short_is_not_restart
            split: option.splits prod.splits sum.splits if_splits)
    next
      case c7
      with False show ?thesis
        by (auto simp add: parse_user_response_def Let_def stage_neq short_is_not_restart
            split: option.splits prod.splits sum.splits if_splits)
    qed
qed

lemma isdecimal_ascii: "c < 1632 \<Longrightarrow> py_isdecimal c \<longleftrightarrow> 48 \<le> c \<and> c \<le> 57"
  by (auto simp add: py_isdecimal_def nd_starts_def)

lemma digit_value_ascii: "48 \<le> c \<Longrightarrow> c \<le> 57 \<Longrightarrow> digit_value c = c - 48"
  by (simp add: digit_value_def nd_starts_def)

text \<open>
  Claim C10, as amended. At the stage \<open>CONFIRMATION\<close>, for every utterance whose
  lowercased, stripped text contains no restart command and contains at least one
  affirmative keyword, \<open>parse_user_response\<close> returns the value \<open>True\<close> with no
  clarification needed, also when the utterance contains a negative keyword: the
  affirmative keywords are tested before the negative ones, and the restart commands
  before both.
\<close>

theorem confirmation_affirmative_before_negative:
  assumes "\<not> (\<exists>cmd\<in>set restart_cmds. py_in cmd (py_strip (str_lower rt transcript)))"
    and "\<exists>w\<in>set yes_words. py_in w (py_strip (str_lower rt transcript))"
  shows "parse_user_response rt transcript CONFIRMATION lang_mode
         = Inr \<lparr>val = PBool True, needs_clarification = False\<rparr>"
  using assms
  by (simp add: parse_user_response_def Let_def list_ex_iff stage_neq)

lemma lowered_no_that_is_right:
  "py_strip (str_lower ascii_env (py ''No, that is right '')) = py ''no, that is right''"
  by (simp add: ascii_env_def ascii_lower_def py_strip_def py_isspace_def py_def)

theorem confirmation_affirmative_before_negative_witness:
  "py ''no'' \<in> set no_words \<and> py_in (py ''no'') (py ''no, that is right'') \<and>
   parse_user_response ascii_env (py ''No, that is right '') CONFIRMATION None
     = Inr \<lparr>val = PBool True, needs_clarification = False\<rparr>"
proof -
  have no: "py ''no'' \<in> set no_words"
    by (simp add: no_words_def)
  have has_no: "py_in (py ''no'') (py ''no, that is right'')"
    by (simp add: py_in_def py_def)
  have h1: "\<not> (\<exists>cmd\<in>set restart_cmds.
                 py_in cmd (py_strip (str_lower ascii_env (py ''No, that is right ''))))"
    unfolding lowered_no_that_is_right
    by (simp add: restart_cmds_def py_in_def py_def)
  have "py ''right'' \<in> set yes_words"
    by (simp add: yes_words_def)
  moreover have "py_in (py ''right'') (py ''no, that is right'')"
    by (simp add: py_in_def py_def)
  ultimately have h2: "\<exists>w\<in>set yes_words.
                         py_in w (py_strip (str_lower ascii_env (py ''No, that is right '')))"
    unfolding lowered_no_that_is_right by blast
  from confirmation_affirmative_before_negative [OF h1 h2] no has_no show ?thesis
    by simp
qed

text \<open>
  Claim C10 as stated fails: the utterance "yes restart" contains the affirmative
  keyword "yes", and the interpreter returns the restart command, not \<open>True\<close>.
\<close>

theorem confirmation_affirmative_counterexample:
  "py ''yes'' \<in> set yes_words \<and>
   py_in (py ''yes'') (py_strip (str_lower ascii_env (py ''yes restart''))) \<and>
   parse_user_response ascii_env (py ''yes restart'') CONFIRMATION None
     = Inr \<lparr>val = PStr (py ''RESTART''), needs_clarification = False\<rparr> \<and>
   parse_user_response ascii_env (py ''yes restart'') CONFIRMATION None
     \<noteq> Inr \<lparr>val = PBool True, needs_clarification = False\<rparr>"
proof -
  have low: "py_strip (str_lower ascii_env (py ''yes restart'')) = py ''yes restart''"
    by (simp add: ascii_env_def ascii_lower_def py_strip_def py_isspace_def py_def)
  have yes: "py ''yes'' \<in> set yes_words"
    by (simp add: yes_words_def)
  have has_yes: "py_in (py ''yes'') (py ''yes restart'')"
    by (simp add: py_in_def py_def)
  have "py ''restart'' \<in> set restart_cmds"
    by (simp add: restart_cmds_def)
  moreover have "py_in (py ''restart'') (py ''yes restart'')"
    by (simp add: py_in_def py_def)
  ultimately have "list_ex (\<lambda>cmd. py_in cmd (py_strip (str_lower ascii_env (py ''yes restart''))))
                     restart_cmds"
    unfolding low list_ex_iff by blast
  then have "parse_user_response ascii_env (py ''yes restart'') CONFIRMATION None
             = Inr \<lparr>val = PStr (py ''RESTART''), needs_clarification = False\<rparr>"
    by (rule restart_checked_first)
  with yes has_yes low show ?thesis
    by simp
qed

section \<open>Properties of the dialogue stage machine\<close>

lemma texts_nonempty:
  "prompt_LANGUAGE_SELECTION_english \<noteq> []"
  "clarify_TOPIC_COLLECTION_english \<noteq> []"
  "clarify_TOPIC_COLLECTION_hindi \<noteq> []"
  "clarify_SUBJECT_COLLECTION_english \<noteq> []"
  "clarify_SUBJECT_COLLECTION_hindi \<noteq> []"
  "clarify_CLASS_COLLECTION_english \<noteq> []"
  "clarify_CLASS_COLLECTION_hindi \<noteq> []"
  "clarify_SESSION_DURATION_english \<noteq> []"
  "clarify_SESSION_DURATION_hindi \<noteq> []"
  "clarify_NUM_SESSIONS_english \<noteq> []"
  "clarify_NUM_SESSIONS_hindi \<noteq> []"
  "clarify_CONFIRMATION_english \<noteq> []"
  "clarify_CONFIRMATION_hindi \<noteq> []"
  "prompt_TOPIC_COLLECTION_english \<noteq> []"
  "prompt_TOPIC_COLLECTION_hindi \<noteq> []"
  by (simp_all add: prompt_LANGUAGE_SELECTION_english_def
      clarify_TOPIC_COLLECTION_english_def
      clarify_TOPIC_COLLECTION_hindi_def
      clarify_SUBJECT_COLLECTION_english_def
      clarify_SUBJECT_COLLECTION_hindi_def
      clarify_CLASS_COLLECTION_english_def
      clarify_CLASS_COLLECTION_hindi_def
      clarify_SESSION_DURATION_english_def
      clarify_SESSION_DURATION_hindi_def
      clarify_NUM_SESSIONS_english_def
      clarify_NUM_SESSIONS_hindi_def
      clarify_CONFIRMATION_english_def
      clarify_CONFIRMATION_hindi_def
      prompt_TOPIC_COLLECTION_english_def
      prompt_TOPIC_COLLECTION_hindi_def py_def)

lemma stage_machine_clarifies:
  assumes "needs_clarification parsed" and "stage state \<in> set stages"
  shows "\<exists>r. stage_machine rt conversation_states sid state parsed = (conversation_states, [r]) \<and>
             resp_text r \<noteq> [] \<and> resp_downloadid r = None"
proof -
  from assms(2) consider (c0) "stage state = LANGUAGE_SELECTION"
    | (c1) "stage state = TOPIC_COLLECTION"
    | (c2) "stage state = SUBJECT_COLLECTION"
    | (c3) "stage state = CLASS_COLLECTION"
    | (c4) "stage state = SESSION_DURATION"
    | (c5) "stage state = NUM_SESSIONS"
    | (c6) "stage state = CONFIRMATION"
    by (auto simp add: stages_def)
  then show ?thesis
  proof cases
    case c0
    with assms(1) show ?thesis
      by (simp add: stage_machine_def respond_def clarification_def stage_neq texts_nonempty say_def)
  next
    case c1
    with assms(1) show ?thesis
      by (simp add: stage_machine_def respond_def clarification_def stage_neq texts_nonempty say_def)
  next
    case c2
    with assms(1) show ?thesis
      by (simp add: stage_machine_def respond_def clarification_def stage_neq texts_nonempty say_def)
  next
    case c3
    with assms(1) show ?thesis
      by (simp add: stage_machine_def respond_def clarification_def stage_neq texts_nonempty say_def)
  next
    case c4
    with assms(1) show ?thesis
      by (simp add: stage_machine_def respond_def clarification_def stage_neq texts_nonempty say_def)
  next
    case c5
    with assms(1) show ?thesis
      by (simp add: stage_machine_def respond_def clarification_def stage_neq texts_nonempty say_def)
  next
    case c6
    with assms(1) show ?thesis
      by (simp add: stage_machine_def respond_def clarification_def stage_neq texts_nonempty say_def)
  qed
qed


text \<open>
  Claim C5. For every stage of the defined sequence and every utterance that the
  interpreter classifies as needing clarification, the handler leaves the stage of the
  conversation (and its language mode and collected data) unchanged, only adding the
  utterance to the history, and emits exactly one response, whose text is not empty.
\<close>

theorem clarification_keeps_stage:
  assumes "conversation_states sid = Some state"
    and "stage state \<in> set stages"
    and "audio_b64 \<noteq> []"
    and "transcribe rt audio_b64 = Inr transcript"
    and "transcript \<noteq> []"
    and "parse_user_response rt transcript (stage state) (language_mode state) = Inr parsed"
    and "needs_clarification parsed"
  shows "\<exists>state' r.
           voicemessage rt conversation_states sid audio_b64
             = (conversation_states(sid \<mapsto> state'), [r]) \<and>
           stage state' = stage state \<and>
           language_mode state' = language_mode state \<and>
           data state' = data state \<and>
           history state' = history state @ [(py ''user'', transcript)] \<and>
           resp_text r \<noteq> [] \<and> resp_downloadid r = None"
proof -
  define state' where "state' = add_to_history state (py ''user'') transcript"
  have same: "stage state' = stage state" "language_mode state' = language_mode state"
    "data state' = data state" "history state' = history state @ [(py ''user'', transcript)]"
    by (simp_all add: state'_def add_to_history_def)
  have parse: "parse_user_response rt transcript (stage state') (language_mode state')
               = Inr parsed"
    using assms(6) by (simp add: same)
  have clar: "needs_clarification parsed"
    by (rule assms(7))
  have not_restart: "val parsed \<noteq> PStr (py ''RESTART'')"
    using clar parse
      clarification_is_not_restart [of rt transcript "stage state'" "language_mode state'" parsed]
    by simp
  have "stage state' \<in> set stages"
    using assms(2) by (simp add: same)
  from stage_machine_clarifies [OF clar this, of rt "conversation_states(sid \<mapsto> state')" sid]
  obtain r where r: "stage_machine rt (conversation_states(sid \<mapsto> state')) sid state' parsed
                     = (conversation_states(sid \<mapsto> state'), [r])"
    "resp_text r \<noteq> []" "resp_downloadid r = None"
    by blast
  have "voicemessage rt conversation_states sid audio_b64
        = stage_machine rt (conversation_states(sid \<mapsto> state')) sid state' parsed"
    using assms(1,3,4,5) not_restart parse
    by (simp add: voicemessage_def Let_def state'_def [symmetric])
  with r same show ?thesis
    by auto
qed

lemma clarify_class_13:
  "parse_user_response ascii_env (py ''I think class 13'') CLASS_COLLECTION
     (Some (py ''english''))
   = Inr \<lparr>val = PNone, needs_clarification = True\<rparr>"
proof -
  have low: "py_strip (str_lower ascii_env (py ''I think class 13'')) = py ''i think class 13''"
    by (simp add: ascii_env_def ascii_lower_def py_strip_def py_isspace_def py_def)
  have no_restart: "\<not> list_ex (\<lambda>cmd. py_in cmd (py ''i think class 13'')) restart_cmds"
    by (simp add: restart_cmds_def py_in_def py_def)
  have num: "first_number (py ''I think class 13'') = Some (py ''13'')"
    by (simp add: first_number_def py_def isdecimal_ascii)
  have thirteen: "py_int_digits (py ''13'') = Inr 13"
    by (simp add: py_int_digits_def py_def digit_value_ascii)
  show ?thesis
    using no_restart num thirteen
    by (simp add: parse_user_response_def low stage_neq)
qed

theorem clarification_keeps_stage_witness:
  "\<exists>state' r.
     voicemessage ascii_env
       [py ''sid1'' \<mapsto> (ConversationState (py ''sid1''))
          \<lparr>stage := CLASS_COLLECTION, language_mode := Some (py ''english'')\<rparr>]
       (py ''sid1'') (py ''I think class 13'')
     = ([py ''sid1'' \<mapsto> state'], [r]) \<and>
     stage state' = CLASS_COLLECTION \<and> resp_text r = clarify_CLASS_COLLECTION_english"
proof -
  let ?state = "(ConversationState (py ''sid1''))
                  \<lparr>stage := CLASS_COLLECTION, language_mode := Some (py ''english'')\<rparr>"
  let ?states = "[py ''sid1'' \<mapsto> ?state]"
  have h1: "?states (py ''sid1'') = Some ?state"
    by simp
  have h2: "stage ?state \<in> set stages"
    by (simp add: stages_def)
  have h3: "py ''I think class 13'' \<noteq> []"
    by (simp add: py_def)
  have h4: "transcribe ascii_env (py ''I think class 13'') = Inr (py ''I think class 13'')"
    by (simp add: ascii_env_def)
  have h6: "parse_user_response ascii_env (py ''I think class 13'') (stage ?state)
              (language_mode ?state)
            = Inr \<lparr>val = PNone, needs_clarification = True\<rparr>"
    using clarify_class_13 by simp
  have h7: "needs_clarification \<lparr>val = PNone, needs_clarification = True\<rparr>"
    by simp
  from clarification_keeps_stage
    [of "?states" "py ''sid1''" "?state" "py ''I think class 13''" ascii_env
       "py ''I think class 13''" "\<lparr>val = PNone, needs_clarification = True\<rparr>",
     OF h1 h2 h3 h4 h3 h6 h7]
  obtain state' r where run: "voicemessage ascii_env ?states (py ''sid1'') (py ''I think class 13'')
                              = (?states(py ''sid1'' \<mapsto> state'), [r])"
    and st: "stage state' = stage ?state"
    by blast
  have r: "resp_text r = clarify_CLASS_COLLECTION_english"
  proof -
    have "snd (voicemessage ascii_env ?states (py ''sid1'') (py ''I think class 13''))
          = [say clarify_CLASS_COLLECTION_english (PStr (py ''English''))]"
      using h3 h4 clarify_class_13
      by (simp add: voicemessage_def Let_def add_to_history_def stage_machine_def respond_def
          clarification_def stage_neq texts_nonempty ConversationState_def)
    with run show ?thesis
      by (simp add: say_def)
  qed
  from run st r show ?thesis
    by auto
qed


text \<open>
  Claim C8. At the stage \<open>CONFIRMATION\<close>, for every utterance interpreted as the
  negative value, the handler replaces the conversation by a fresh one: every
  collected field is back at its default, the history is empty, the language mode is
  the established one (\<open>"english"\<close> if none was set), the field \<open>language\<close> is that
  mode title-cased, and the stage is \<open>TOPIC_COLLECTION\<close>.
\<close>

theorem confirmation_rejected_resets:
  assumes "conversation_states sid = Some state"
    and "stage state = CONFIRMATION"
    and "audio_b64 \<noteq> []"
    and "transcribe rt audio_b64 = Inr transcript"
    and "transcript \<noteq> []"
    and "parse_user_response rt transcript CONFIRMATION (language_mode state)
         = Inr \<lparr>val = PBool False, needs_clarification = False\<rparr>"
  shows "\<exists>state' responses.
           voicemessage rt conversation_states sid audio_b64
             = (conversation_states(sid \<mapsto> state'), responses) \<and>
           stage state' = TOPIC_COLLECTION \<and>
           language_mode state' = Some (or_english (language_mode state)) \<and>
           (\<forall>l. language_mode state = Some l \<and> l \<noteq> [] \<longrightarrow> language_mode state' = Some l) \<and>
           data state' = (data (ConversationState sid))
             \<lparr>data_language := PStr (str_title rt (or_english (language_mode state)))\<rparr> \<and>
           data_topic (data state') = PNone \<and> data_subject (data state') = PNone \<and>
           data_class_level (data state') = PNone \<and>
           data_session_duration (data state') = PInt 40 \<and>
           data_num_sessions (data state') = PInt 4 \<and>
           history state' = []"
proof -
  define old where "old = add_to_history state (py ''user'') transcript"
  define lang where "lang = or_english (language_mode state)"
  define fresh where
    "fresh = (ConversationState sid)
       \<lparr>language_mode := Some lang,
        data := (data (ConversationState sid))\<lparr>data_language := PStr (str_title rt lang)\<rparr>,
        stage := TOPIC_COLLECTION\<rparr>"
  have same: "stage old = CONFIRMATION" "language_mode old = language_mode state"
    using assms(2) by (simp_all add: old_def add_to_history_def)
  have parsed: "parse_user_response rt transcript (stage old) (language_mode old)
                = Inr \<lparr>val = PBool False, needs_clarification = False\<rparr>"
    using assms(6) by (simp add: same)
  have machine: "stage_machine rt (conversation_states(sid \<mapsto> old)) sid old
                   \<lparr>val = PBool False, needs_clarification = False\<rparr>
                 = respond rt (conversation_states(sid \<mapsto> fresh))
                     (prompt TOPIC_COLLECTION (Some lang) (data fresh))
                     (data_language (data old))"
    by (simp add: stage_machine_def same stage_neq Let_def fresh_def lang_def)
  have "voicemessage rt conversation_states sid audio_b64
        = stage_machine rt (conversation_states(sid \<mapsto> old)) sid old
            \<lparr>val = PBool False, needs_clarification = False\<rparr>"
    using assms(1,3,4,5) parsed
    by (simp add: voicemessage_def Let_def old_def [symmetric])
  with machine have "fst (voicemessage rt conversation_states sid audio_b64)
                     = conversation_states(sid \<mapsto> fresh)"
    by (simp add: respond_def split: sum.splits)
  then have run: "voicemessage rt conversation_states sid audio_b64
                  = (conversation_states(sid \<mapsto> fresh),
                     snd (voicemessage rt conversation_states sid audio_b64))"
    by (metis prod.collapse)
  have keep: "\<forall>l. language_mode state = Some l \<and> l \<noteq> [] \<longrightarrow> language_mode fresh = Some l"
    by (simp add: fresh_def lang_def or_english_def)
  have fields: "stage fresh = TOPIC_COLLECTION" "language_mode fresh = Some lang"
    "data fresh = (data (ConversationState sid))\<lparr>data_language := PStr (str_title rt lang)\<rparr>"
    "data_topic (data fresh) = PNone" "data_subject (data fresh) = PNone"
    "data_class_level (data fresh) = PNone" "data_session_duration (data fresh) = PInt 40"
    "data_num_sessions (data fresh) = PInt 4" "history fresh = []"
    by (simp_all add: fresh_def ConversationState_def)
  from run keep fields show ?thesis
    unfolding lang_def by blast
qed

lemma rejected_that_is_wrong:
  "parse_user_response ascii_env (py ''that is wrong'') CONFIRMATION (Some (py ''hindi''))
   = Inr \<lparr>val = PBool False, needs_clarification = False\<rparr>"
proof -
  have low: "py_strip (str_lower ascii_env (py ''that is wrong'')) = py ''that is wrong''"
    by (simp add: ascii_env_def ascii_lower_def py_strip_def py_isspace_def py_def)
  have no_restart: "\<not> list_ex (\<lambda>cmd. py_in cmd (py ''that is wrong'')) restart_cmds"
    by (simp add: restart_cmds_def py_in_def py_def)
  have no_yes: "\<not> list_ex (\<lambda>w. py_in w (py ''that is wrong'')) yes_words"
    by (simp add: yes_words_def py_in_def py_def)
  have a_no: "list_ex (\<lambda>w. py_in w (py ''that is wrong'')) no_words"
    by (simp add: no_words_def py_in_def py_def)
  show ?thesis
    using no_restart no_yes a_no
    by (simp add: parse_user_response_def low stage_neq)
qed

theorem confirmation_rejected_resets_witness:
  "\<exists>state' responses.
     voicemessage ascii_env
       [py ''sid1'' \<mapsto> (ConversationState (py ''sid1''))
          \<lparr>stage := CONFIRMATION, language_mode := Some (py ''hindi''),
           data := (data (ConversationState (py ''sid1'')))
                     \<lparr>data_topic := PStr (py ''Fractions''), data_num_sessions := PInt 6\<rparr>\<rparr>]
       (py ''sid1'') (py ''that is wrong'')
     = ([py ''sid1'' \<mapsto> state'], responses) \<and>
     stage state' = TOPIC_COLLECTION \<and> language_mode state' = Some (py ''hindi'') \<and>
     data_language (data state') = PStr (py ''Hindi'') \<and>
     data_topic (data state') = PNone \<and> data_num_sessions (data state') = PInt 4"
proof -
  let ?state = "(ConversationState (py ''sid1''))
                  \<lparr>stage := CONFIRMATION, language_mode := Some (py ''hindi''),
                   data := (data (ConversationState (py ''sid1'')))
                     \<lparr>data_topic := PStr (py ''Fractions''), data_num_sessions := PInt 6\<rparr>\<rparr>"
  let ?states = "[py ''sid1'' \<mapsto> ?state]"
  have h1: "?states (py ''sid1'') = Some ?state"
    by simp
  have h2: "stage ?state = CONFIRMATION"
    by simp
  have h3: "py ''that is wrong'' \<noteq> []"
    by (simp add: py_def)
  have h4: "transcribe ascii_env (py ''that is wrong'') = Inr (py ''that is wrong'')"
    by (simp add: ascii_env_def)
  have h6: "parse_user_response ascii_env (py ''that is wrong'') CONFIRMATION
              (language_mode ?state)
            = Inr \<lparr>val = PBool False, needs_clarification = False\<rparr>"
    using rejected_that_is_wrong by simp
  have lang: "or_english (Some (py ''hindi'')) = py ''hindi''"
    by (simp add: or_english_def py_def)
  have title: "str_title ascii_env (py ''hindi'') = py ''Hindi''"
    by (simp add: ascii_env_def py_def)
  from confirmation_rejected_resets
    [of "?states" "py ''sid1''" "?state" "py ''that is wrong''" ascii_env "py ''that is wrong''",
     OF h1 h2 h3 h4 h3 h6]
  obtain state' responses where
    run: "voicemessage ascii_env ?states (py ''sid1'') (py ''that is wrong'')
          = (?states(py ''sid1'' \<mapsto> state'), responses)"
    and st: "stage state' = TOPIC_COLLECTION"
    and lm: "language_mode state' = Some (or_english (language_mode ?state))"
    and d: "data state' = (data (ConversationState (py ''sid1'')))
              \<lparr>data_language := PStr (str_title ascii_env (or_english (language_mode ?state)))\<rparr>"
    and f: "data_topic (data state') = PNone" "data_num_sessions (data state') = PInt 4"
    by blast
  have "data_language (data state') = PStr (py ''Hindi'')"
    using d by (simp add: lang title)
  with run st lm f show ?thesis
    by (auto simp add: lang)
qed

section \<open>The guard of \<open>textmessage\<close>\<close>

lemma strip_ascii_words:
  "py_strip (py ''Lesson Topic'') = py ''Lesson Topic''"
  "py_strip (py ''Mathematics'') = py ''Mathematics''"
  "py_strip (py ''Class 2'') = py ''Class 2''"
  "py_strip (py ''English'') = py ''English''"
  "py_strip [] = []"
  by (simp_all add: py_strip_def py_isspace_def py_def)

text \<open>
  Claim C9, as the code behaves. An event with neither topic nor content (here the
  empty payload) is not rejected: the topic defaults to \<open>"Lesson Topic"\<close> before the
  guard is evaluated, so the handler announces the generation and runs it.
\<close>

theorem textmessage_missing_topic_generates:
  "\<exists>last. textmessage rt Map.empty
     = Inr [Emit (show_text (text_generating_plan 4 40 160) None None (py ''English'')),
            Generation \<lparr> job_topic = py ''Lesson Topic'', job_subject = py ''Mathematics'',
                         job_class_level = py ''Class 2'', job_language = py ''English'',
                         job_session_duration = 40, job_num_sessions = 4 \<rparr>,
            last]"
proof -
  have topic: "py ''Lesson Topic'' \<noteq> []"
    by (simp add: py_def)
  show ?thesis
    by (cases "generate_text rt \<lparr> job_topic = py ''Lesson Topic'',
                 job_subject = py ''Mathematics'', job_class_level = py ''Class 2'',
                 job_language = py ''English'', job_session_duration = 40,
                 job_num_sessions = 4 \<rparr>")
       (auto simp add: textmessage_def dict_get_def py_or_def truthy_def strip_method_def
          py_int_def strip_ascii_words topic Let_def)
qed

text \<open>
  The same with both keys present and empty. The guard fires only for a topic that is
  not empty and consists of whitespace.
\<close>

lemma textmessage_empty_topic_generates:
  "textmessage ascii_text_env [py ''topic'' \<mapsto> PStr [], py ''content'' \<mapsto> PStr []]
   = Inr [Emit (show_text (text_generating_plan 4 40 160) None None (py ''English'')),
          Generation \<lparr> job_topic = py ''Lesson Topic'', job_subject = py ''Mathematics'',
                       job_class_level = py ''Class 2'', job_language = py ''English'',
                       job_session_duration = 40, job_num_sessions = 4 \<rparr>,
          Emit (show_text
                  (text_plan_ready
                     \<lparr> job_topic = py ''Lesson Topic'', job_subject = py ''Mathematics'',
                       job_class_level = py ''Class 2'', job_language = py ''English'',
                       job_session_duration = 40, job_num_sessions = 4 \<rparr>
                     160 [py ''Worksheet 1''] 0)
                  (Some (py ''1a2b3c4d'')) (Some (PStr (py ''Lesson Topic''))) (py ''English''))]"
proof -
  have topic: "py ''Lesson Topic'' \<noteq> []" "py ''topic'' \<noteq> py ''content''"
    "py ''subject'' \<noteq> py ''topic''" "py ''subject'' \<noteq> py ''content''"
    "py ''classlevel'' \<noteq> py ''topic''" "py ''classlevel'' \<noteq> py ''content''"
    "py ''language'' \<noteq> py ''topic''" "py ''language'' \<noteq> py ''content''"
    "py ''sessionduration'' \<noteq> py ''topic''" "py ''sessionduration'' \<noteq> py ''content''"
    "py ''numsessions'' \<noteq> py ''topic''" "py ''numsessions'' \<noteq> py ''content''"
    by (simp_all add: py_def)
  show ?thesis
    by (simp add: textmessage_def dict_get_def py_or_def truthy_def strip_method_def
          py_int_def strip_ascii_words topic Let_def ascii_text_env_def)
qed

lemma textmessage_blank_topic_rejected:
  "textmessage ascii_text_env [py ''topic'' \<mapsto> PStr (py '' '')]
   = Inr [Emit (show_text text_enter_topic None None (py ''English''))]"
proof -
  have keys: "py '' '' \<noteq> []"
    "py ''subject'' \<noteq> py ''topic''" "py ''classlevel'' \<noteq> py ''topic''"
    "py ''language'' \<noteq> py ''topic''" "py ''content'' \<noteq> py ''topic''"
    "py ''sessionduration'' \<noteq> py ''topic''" "py ''numsessions'' \<noteq> py ''topic''"
    by (simp_all add: py_def)
  have blank: "py_strip (py '' '') = []"
    by (simp add: py_strip_def py_isspace_def py_def)
  show ?thesis
    by (simp add: textmessage_def dict_get_def py_or_def truthy_def strip_method_def
          py_int_def strip_ascii_words keys blank Let_def ascii_text_env_def)
qed

section \<open>The fallback of \<open>parse_worksheets\<close>\<close>

lemma try_patterns_no_split:
  assumes "\<forall>m\<in>set ms. length (re_split m worksheet_text) \<le> 1"
  shows "try_patterns sections ms worksheet_text = None \<or>
         (\<exists>ss. try_patterns sections ms worksheet_text = Some ss \<and> length ss \<le> 1) \<or>
         try_patterns sections ms worksheet_text = sections"
  using assms
proof (induction ms arbitrary: sections)
  case Nil
  then show ?case by simp
next
  case (Cons m ms)
  have short: "length (re_split m worksheet_text) \<le> 1"
    using Cons.prems by simp
  have rest: "\<forall>m\<in>set ms. length (re_split m worksheet_text) \<le> 1"
    using Cons.prems by simp
  have step: "try_patterns sections (m # ms) worksheet_text
              = try_patterns (Some (re_split m worksheet_text)) ms worksheet_text"
    using short by (simp add: Let_def)
  from Cons.IH [OF rest, of "Some (re_split m worksheet_text)"] short
  show ?case
    unfolding step by auto
qed

lemma fallback_path:
  assumes "\<forall>m\<in>set patterns. length (re_split m worksheet_text) \<le> 1"
  shows "parse_worksheets worksheet_text topic num_sessions
         = (case chunk_size_of (length (py_split [10, 10] worksheet_text)) num_sessions of
              Inl e \<Rightarrow> Inl e
            | Inr chunk_size \<Rightarrow>
                Inr (map (fallback_worksheet worksheet_text topic
                            (py_split [10, 10] worksheet_text) chunk_size num_sessions)
                       [0..<nat num_sessions]))"
proof -
  from try_patterns_no_split [OF assms, of None]
  have "try_patterns None patterns worksheet_text = None \<or>
        (\<exists>ss. try_patterns None patterns worksheet_text = Some ss \<and> length ss \<le> 1)"
    by auto
  then show ?thesis
    by (auto simp add: parse_worksheets_def Let_def)
qed

lemma numbers_from_one: "map (\<lambda>i. int i + 1) [0..<n] = map int [1..<Suc n]"
proof -
  have "map int [1..<Suc n] = map int (map Suc [0..<n])"
    by (simp only: map_Suc_upt One_nat_def)
  then show ?thesis
    by (simp add: comp_def add.commute)
qed

text \<open>
  Claim C1. On a text that none of the four marker styles splits, and for every
  \<open>num_sessions \<ge> 1\<close>, \<open>parse_worksheets\<close> returns (it raises nothing) exactly
  \<open>num_sessions\<close> records, numbered \<open>1, \<dots>, num_sessions\<close> in this order.
\<close>

theorem parse_worksheets_fallback_count:
  assumes "\<forall>m\<in>set patterns. length (re_split m worksheet_text) \<le> 1"
    and "1 \<le> num_sessions"
  shows "\<exists>ws. parse_worksheets worksheet_text topic num_sessions = Inr ws \<and>
              length ws = nat num_sessions \<and>
              map ws_number ws = map int [1..<Suc (nat num_sessions)]"
proof -
  define chunk_size where
    "chunk_size = (if int (length (py_split [10, 10] worksheet_text)) \<ge> num_sessions
                   then int (length (py_split [10, 10] worksheet_text)) div num_sessions
                   else 1)"
  have size: "chunk_size_of (length (py_split [10, 10] worksheet_text)) num_sessions
              = Inr chunk_size"
    using assms(2) by (simp add: chunk_size_of_def chunk_size_def)
  let ?ws = "map (fallback_worksheet worksheet_text topic (py_split [10, 10] worksheet_text)
                    chunk_size num_sessions) [0..<nat num_sessions]"
  have run: "parse_worksheets worksheet_text topic num_sessions = Inr ?ws"
    by (simp add: fallback_path [OF assms(1)] size)
  have "map ws_number ?ws = map (\<lambda>i. int i + 1) [0..<nat num_sessions]"
    by (simp add: fallback_worksheet_def Let_def comp_def)
  then have "map ws_number ?ws = map int [1..<Suc (nat num_sessions)]"
    by (simp only: numbers_from_one)
  with run show ?thesis
    by simp
qed

lemma no_marker_at_abc:
  "\<not> ci_match 61 97" "\<not> ci_match 45 97" "\<not> ci_match 87 97" "\<not> ci_match 42 97"
  "\<not> ci_match 61 98" "\<not> ci_match 45 98" "\<not> ci_match 87 98" "\<not> ci_match 42 98"
  "\<not> ci_match 61 99" "\<not> ci_match 45 99" "\<not> ci_match 87 99" "\<not> ci_match 42 99"
  by (simp_all add: ci_match_def)

lemma no_split_abc: "\<forall>m\<in>set patterns. re_split m (py ''abc'') = [py ''abc'']"
  by (simp add: patterns_def re_split_def match_marker_def py_def no_marker_at_abc)

theorem parse_worksheets_fallback_count_witness:
  "\<exists>ws. parse_worksheets (py ''abc'') (py ''Fractions'') 2 = Inr ws \<and>
        length ws = 2 \<and> map ws_number ws = [1, 2]"
proof -
  have none: "\<forall>m\<in>set patterns. length (re_split m (py ''abc'')) \<le> 1"
    using no_split_abc by simp
  have "map int [1..<Suc (nat 2)] = [1, 2]"
    by (simp add: upt_rec)
  with parse_worksheets_fallback_count [OF none, of 2 "py ''Fractions''"]
  show ?thesis
    by simp
qed



text \<open>
  A marker that nothing follows gives a record with empty content as well: the marker
  path has no replacement for an empty block.
\<close>

lemma marker_without_body:
  "map_sum id (map ws_content) (parse_worksheets (py ''===WORKSHEET 1==='') (py ''Fractions'') 4)
   = Inr [[]]"
proof -
  have digit: "py_isdecimal 49" "\<not> py_isdecimal 61" "py_isdigit 49"
    by (simp_all add: py_isdecimal_def nd_starts_def py_isdigit_def digit_ranges_def)
  have split: "re_split \<lparr> marker_open = py ''===WORKSHEET'', marker_close = py ''==='' \<rparr>
                 (py ''===WORKSHEET 1==='') = [[], [49], []]"
    by (simp add: re_split_def match_marker_def py_def ci_match_def py_isspace_def digit)
  have number: "worksheet_number [49] 0 = Inr 1"
    by (simp add: worksheet_number_def str_isdigit_def digit py_int_digits_def digit_value_def
        nd_starts_def)
  have "parse_worksheets (py ''===WORKSHEET 1==='') (py ''Fractions'') 4
        = (case marked_worksheet (py ''Fractions'') [49] [] 0 of
             Inl e \<Rightarrow> Inl e
           | Inr w \<Rightarrow> Inr [w])"
    by (simp add: parse_worksheets_def patterns_def split split: sum.splits)
  moreover have "\<exists>w. marked_worksheet (py ''Fractions'') [49] [] 0 = Inr w \<and> ws_content w = []"
    using number
    by (simp add: marked_worksheet_def Let_def py_strip_def py_isspace_def
        remove_end_markers_def)
  ultimately show ?thesis
    by auto
qed



lemma no_marker_start:
  assumes "c \<noteq> 61" "c \<noteq> 45" "c \<noteq> 42" "c \<noteq> 87" "c \<noteq> 119" "m \<in> set patterns"
  shows "match_marker m (c # cs) = None"
  using assms by (auto simp add: patterns_def match_marker_def py_def ci_match_def)

lemma re_split_plain:
  assumes "\<forall>c\<in>set s. c \<noteq> 61 \<and> c \<noteq> 45 \<and> c \<noteq> 42 \<and> c \<noteq> 87 \<and> c \<noteq> 119"
    and "m \<in> set patterns"
  shows "re_split_from m cur s = [rev cur @ s]"
  using assms(1)
proof (induction s arbitrary: cur)
  case Nil
  then show ?case by simp
next
  case (Cons c cs)
  have "match_marker m (c # cs) = None"
    using Cons.prems assms(2) by (intro no_marker_start) simp_all
  moreover have "re_split_from m (c # cur) cs = [rev (c # cur) @ cs]"
    using Cons.prems by (intro Cons.IH) simp
  ultimately show ?case
    by simp
qed

lemma no_split_plain:
  assumes "\<forall>c\<in>set s. c \<noteq> 61 \<and> c \<noteq> 45 \<and> c \<noteq> 42 \<and> c \<noteq> 87 \<and> c \<noteq> 119"
  shows "\<forall>m\<in>set patterns. length (re_split m s) \<le> 1"
  using re_split_plain [OF assms, of _ "[]"] by (simp add: re_split_def)

section \<open>Joining and splitting\<close>

lemma py_join_Cons: "ys \<noteq> [] \<Longrightarrow> py_join sep (x # ys) = x @ sep @ py_join sep ys"
  by (cases ys) simp_all

lemma py_join_append:
  "xs \<noteq> [] \<Longrightarrow> ys \<noteq> [] \<Longrightarrow> py_join sep (xs @ ys) = py_join sep xs @ sep @ py_join sep ys"
proof (induction xs)
  case Nil
  then show ?case by simp
next
  case (Cons x xs)
  show ?case
  proof (cases "xs = []")
    case True
    with Cons.prems show ?thesis
      by (simp add: py_join_Cons)
  next
    case False
    with Cons show ?thesis
      by (simp add: py_join_Cons)
  qed
qed

lemma split_from_nonempty: "split_from sep cur s \<noteq> []"
  by (induction sep cur s rule: split_from.induct) simp_all

lemma prefix_drop: "prefix sep (c # cs) \<Longrightarrow> sep \<noteq> [] \<Longrightarrow> sep @ drop (length sep - 1) cs = c # cs"
  by (cases sep) (auto simp add: prefix_def)

lemma join_split_from:
  "sep \<noteq> [] \<Longrightarrow> py_join sep (split_from sep cur s) = rev cur @ s"
proof (induction sep cur s rule: split_from.induct)
  case (1 sep cur)
  then show ?case by simp
next
  case (2 sep cur c cs)
  show ?case
  proof (cases "prefix sep (c # cs)")
    case True
    have "py_join sep (split_from sep cur (c # cs))
          = rev cur @ sep @ py_join sep (split_from sep [] (drop (length sep - 1) cs))"
      using True "2.prems" by (simp add: py_join_Cons split_from_nonempty)
    also have "py_join sep (split_from sep [] (drop (length sep - 1) cs))
               = drop (length sep - 1) cs"
      using "2.IH"(1) True "2.prems" by simp
    finally show ?thesis
      using prefix_drop [OF True "2.prems"] by simp
  next
    case False
    then show ?thesis
      using "2.IH"(2) "2.prems" by simp
  qed
qed

lemma join_split: "sep \<noteq> [] \<Longrightarrow> py_join sep (py_split sep s) = s"
  by (simp add: py_split_def join_split_from)

lemma py_split_nonempty: "py_split sep s \<noteq> []"
  by (simp add: py_split_def split_from_nonempty)

lemma join_groups:
  assumes "0 < c" and "Suc k * c \<le> length xs"
  shows "py_join sep (map (\<lambda>i. py_join sep (take c (drop (i * c) xs))) [0..<Suc k])
         = py_join sep (take (Suc k * c) xs)"
  using assms(2)
proof (induction k)
  case 0
  then show ?case by simp
next
  case (Suc k)
  let ?g = "\<lambda>i. py_join sep (take c (drop (i * c) xs))"
  have below: "Suc k * c \<le> length xs" and inside: "Suc k * c < length xs"
    using Suc.prems assms(1) by simp_all
  have front: "take (Suc k * c) xs \<noteq> []"
    using assms(1) inside by (cases xs) simp_all
  have rear: "take c (drop (Suc k * c) xs) \<noteq> []"
    using assms(1) inside by simp
  define A where "A = map ?g [0..<Suc k]"
  define b where "b = ?g (Suc k)"
  have A: "A \<noteq> []"
    by (simp add: A_def)
  have eq: "map ?g [0..<Suc (Suc k)] = A @ [b]"
    by (simp add: A_def b_def)
  have "py_join sep (map ?g [0..<Suc (Suc k)]) = py_join sep (A @ [b])"
    by (simp only: eq)
  also have "\<dots> = py_join sep A @ sep @ py_join sep [b]"
    by (rule py_join_append [OF A]) simp
  also have "py_join sep [b] = b"
    by simp
  also have "py_join sep A = py_join sep (take (Suc k * c) xs)"
    unfolding A_def using Suc.IH [OF below] .
  finally have "py_join sep (map ?g [0..<Suc (Suc k)])
                = py_join sep (take (Suc k * c) xs) @ sep @
                  py_join sep (take c (drop (Suc k * c) xs))"
    by (simp only: b_def)
  also have "\<dots> = py_join sep (take (Suc k * c) xs @ take c (drop (Suc k * c) xs))"
    using front rear by (simp add: py_join_append)
  also have "take (Suc k * c) xs @ take c (drop (Suc k * c) xs) = take (Suc k * c + c) xs"
    by (rule take_add [symmetric])
  also have "Suc k * c + c = Suc (Suc k) * c"
    by simp
  finally show ?case .
qed


lemma chunk_content_nat:
  assumes "1 \<le> n" and "i < nat n"
  shows "chunk_content_of xs (int c) n i
         = py_join [10, 10] (if Suc i < nat n then take c (drop (i * c) xs) else drop (i * c) xs)"
proof -
  have less: "int i < n - 1 \<longleftrightarrow> Suc i < nat n"
    using assms by auto
  have start: "nat (int i * int c) = i * c"
    by (simp add: nat_mult_distrib)
  have stop: "nat (int i * int c + int c) = i * c + c"
    by (simp add: nat_add_distrib nat_mult_distrib)
  show ?thesis
    by (simp add: chunk_content_of_def Let_def py_slice_def less start stop)
qed

lemma join_all_groups:
  assumes "0 < c" and "0 < k" and "k * c \<le> length xs"
  shows "py_join sep (map (\<lambda>i. py_join sep (if Suc i < k then take c (drop (i * c) xs)
                                            else drop (i * c) xs)) [0..<k])
         = py_join sep xs"
proof (cases k)
  case 0
  with assms(2) show ?thesis by simp
next
  case (Suc j)
  show ?thesis
  proof (cases j)
    case 0
    with Suc show ?thesis by simp
  next
    case (Suc l)
    let ?g = "\<lambda>i. py_join sep (take c (drop (i * c) xs))"
    let ?h = "\<lambda>i. py_join sep (if Suc i < k then take c (drop (i * c) xs) else drop (i * c) xs)"
    have k: "k = Suc j" "j = Suc l"
      by fact+
    have inside: "j * c < length xs" and below: "Suc l * c \<le> length xs"
      using assms(1,3) k by simp_all
    have front: "take (j * c) xs \<noteq> []"
      using assms(1) inside k by (cases xs) simp_all
    have rear: "drop (j * c) xs \<noteq> []"
      using inside by simp
    define A where "A = map ?g [0..<j]"
    have A: "A \<noteq> []"
      by (simp add: A_def k)
    have "map ?h [0..<j] = map ?g [0..<j]"
      by (rule map_cong) (auto simp add: k)
    then have eq: "map ?h [0..<k] = A @ [py_join sep (drop (j * c) xs)]"
      by (simp add: A_def k)
    have "py_join sep (map ?h [0..<k]) = py_join sep (A @ [py_join sep (drop (j * c) xs)])"
      by (simp only: eq)
    also have "\<dots> = py_join sep A @ sep @ py_join sep [py_join sep (drop (j * c) xs)]"
      by (rule py_join_append [OF A]) simp
    also have "py_join sep [py_join sep (drop (j * c) xs)] = py_join sep (drop (j * c) xs)"
      by simp
    also have "py_join sep A = py_join sep (take (j * c) xs)"
      unfolding A_def k using join_groups [OF assms(1) below] .
    also have "py_join sep (take (j * c) xs) @ sep @ py_join sep (drop (j * c) xs)
               = py_join sep (take (j * c) xs @ drop (j * c) xs)"
      by (rule py_join_append [OF front rear, symmetric])
    finally show ?thesis
      by simp
  qed
qed

text \<open>
  Claim C7 as stated fails: the text "abc" has no marker and one chunk; with four
  sessions every record carries the whole text, and the four contents together are
  "abcabcabcabc".
\<close>

theorem parse_worksheets_repeats_text_counterexample:
  "map_sum id (map ws_content) (parse_worksheets (py ''abc'') (py ''Fractions'') 4)
   = Inr [py ''abc'', py ''abc'', py ''abc'', py ''abc'']"
proof -
  have none: "\<forall>m\<in>set patterns. length (re_split m (py ''abc'')) \<le> 1"
    using no_split_abc by simp
  have chunks: "py_split [10, 10] (py ''abc'') = [py ''abc'']"
    by (simp add: py_split_def py_def)
  have strip: "py_strip (py ''abc'') \<noteq> []" "py_strip [] = []"
    by (simp_all add: py_strip_def py_isspace_def py_def)
  have four: "[0..<4] = [0, Suc 0, Suc (Suc 0), Suc (Suc (Suc 0))]"
    by (simp add: upt_rec eval_nat_numeral)
  have contents:
    "ws_content (fallback_worksheet (py ''abc'') (py ''Fractions'') [py ''abc''] 1 4 i)
     = py ''abc''" for i
    using strip
    by (cases i)
       (simp_all add: fallback_worksheet_def chunk_content_of_def py_slice_def Let_def
          nat_mult_distrib nat_add_distrib)
  show ?thesis
    by (simp add: fallback_path [OF none] chunks chunk_size_of_def four contents comp_def)
qed

text \<open>
  Claim C7, as amended. On a text that none of the four marker styles splits, for every
  \<open>num_sessions \<ge> 1\<close> (in particular \<open>4\<close>): if the text has at least \<open>num_sessions\<close> chunks
  between blank lines, and each of the \<open>num_sessions\<close> groups of consecutive chunks that
  the fallback forms has a character that is no whitespace, then \<open>parse_worksheets\<close>
  returns exactly \<open>num_sessions\<close> records, and their contents joined by a blank line
  (\<open>"\n\n"\<close>, the separator that the split removed) are the text.
\<close>

theorem parse_worksheets_fallback_reconstructs:
  assumes "\<forall>m\<in>set patterns. length (re_split m worksheet_text) \<le> 1"
    and "1 \<le> num_sessions"
    and "num_sessions \<le> int (length (py_split [10, 10] worksheet_text))"
    and "\<forall>i<nat num_sessions.
           py_strip (chunk_content_of (py_split [10, 10] worksheet_text)
                       (int (length (py_split [10, 10] worksheet_text)) div num_sessions)
                       num_sessions i) \<noteq> []"
  shows "\<exists>ws. parse_worksheets worksheet_text topic num_sessions = Inr ws \<and>
              length ws = nat num_sessions \<and>
              py_join [10, 10] (map ws_content ws) = worksheet_text"
proof -
  define chunks where "chunks = py_split [10, 10] worksheet_text"
  define k where "k = nat num_sessions"
  define c where "c = length chunks div k"
  have k: "0 < k" "int k = num_sessions" "k \<le> length chunks"
    using assms(2,3) by (simp_all add: k_def chunks_def)
  have c: "0 < c" "k * c \<le> length chunks"
    using k by (simp_all add: c_def div_greater_zero_iff)
  have size_eq: "int (length chunks) div num_sessions = int c"
    using k(2) by (simp add: c_def zdiv_int)
  have size: "chunk_size_of (length chunks) num_sessions = Inr (int c)"
    using assms(2,3) size_eq by (simp add: chunk_size_of_def chunks_def)
  let ?f = "fallback_worksheet worksheet_text topic chunks (int c) num_sessions"
  let ?h = "\<lambda>i. py_join [10, 10] (if Suc i < k then take c (drop (i * c) chunks)
                                    else drop (i * c) chunks)"
  have run: "parse_worksheets worksheet_text topic num_sessions = Inr (map ?f [0..<k])"
    using size by (simp add: fallback_path [OF assms(1)] chunks_def k_def)
  have content: "ws_content (?f i) = ?h i" if "i < k" for i
  proof -
    have "py_strip (chunk_content_of chunks (int c) num_sessions i) \<noteq> []"
      using assms(4) that by (simp add: chunks_def [symmetric] size_eq k_def)
    then have "ws_content (?f i) = chunk_content_of chunks (int c) num_sessions i"
      by (simp add: fallback_worksheet_def Let_def)
    also have "\<dots> = ?h i"
      using chunk_content_nat [OF assms(2), of i chunks c] that by (simp add: k_def)
    finally show ?thesis .
  qed
  have "map ws_content (map ?f [0..<k]) = map ?h [0..<k]"
    using content by simp
  then have "py_join [10, 10] (map ws_content (map ?f [0..<k])) = py_join [10, 10] (map ?h [0..<k])"
    by (simp only:)
  also have "\<dots> = py_join [10, 10] chunks"
    by (rule join_all_groups [OF c(1) k(1) c(2)])
  also have "\<dots> = worksheet_text"
    unfolding chunks_def by (rule join_split) simp
  finally have joined: "py_join [10, 10] (map ws_content (map ?f [0..<k])) = worksheet_text" .
  have "length (map ?f [0..<k]) = nat num_sessions"
    by (simp add: k_def)
  with run joined show ?thesis
    by blast
qed

theorem parse_worksheets_fallback_reconstructs_witness:
  "\<exists>ws. parse_worksheets (py ''a'' @ [10, 10] @ py ''b'') (py ''Fractions'') 2 = Inr ws \<and>
        length ws = 2 \<and>
        py_join [10, 10] (map ws_content ws) = py ''a'' @ [10, 10] @ py ''b''"
proof -
  let ?text = "py ''a'' @ [10, 10] @ py ''b''"
  have none: "\<forall>m\<in>set patterns. length (re_split m ?text) \<le> 1"
    by (rule no_split_plain) (simp add: py_def)
  have h2: "1 \<le> (2::int)"
    by simp
  have chunks: "py_split [10, 10] ?text = [py ''a'', py ''b'']"
    by (simp add: py_split_def py_def)
  have h3: "(2::int) \<le> int (length (py_split [10, 10] ?text))"
    unfolding chunks by simp
  have strip: "py_strip (py ''a'') \<noteq> []" "py_strip (py ''b'') \<noteq> []"
    by (simp_all add: py_strip_def py_isspace_def py_def)
  have groups: "chunk_content_of [py ''a'', py ''b''] 1 2 0 = py ''a''"
    "chunk_content_of [py ''a'', py ''b''] 1 2 (Suc 0) = py ''b''"
    by (simp_all add: chunk_content_of_def py_slice_def)
  have h4: "\<forall>i<nat 2.
              py_strip (chunk_content_of (py_split [10, 10] ?text)
                          (int (length (py_split [10, 10] ?text)) div 2) 2 i) \<noteq> []"
    unfolding chunks using strip groups by (simp add: eval_nat_numeral All_less_Suc)
  from parse_worksheets_fallback_reconstructs [OF none h2 h3 h4, of "py ''Fractions''"]
  show ?thesis
    by simp
qed

section \<open>The marker path of \<open>parse_worksheets\<close>\<close>

lemma ci_prefix_Nil: "ci_prefix L [] \<longleftrightarrow> L = []"
  by (cases L) simp_all

lemma ci_prefix_append_long:
  "length L \<le> length u \<Longrightarrow> ci_prefix L (u @ v) = ci_prefix L u"
  by (induction L u rule: ci_prefix.induct) simp_all

lemma ci_prefix_append_short:
  "ci_prefix L (u @ v) \<Longrightarrow> length u \<le> length L \<Longrightarrow> ci_prefix (drop (length u) L) v"
  by (induction L u rule: ci_prefix.induct) simp_all

lemma no_straddle:
  assumes "0 < i" and "i < 12"
  shows "\<not> ci_prefix (drop i (py ''===WORKSHEET'')) (py ''===WORKSHEET'' @ rest)"
proof -
  have "i = 1 \<or> i = 2 \<or> i = 3 \<or> i = 4 \<or> i = 5 \<or> i = 6 \<or> i = 7 \<or> i = 8 \<or> i = 9 \<or>
        i = 10 \<or> i = 11"
    using assms by arith
  then show ?thesis
    by (elim disjE) (simp_all add: py_def ci_match_def)
qed

lemma no_match_inside:
  assumes occ: "\<forall>j. \<not> ci_prefix (py ''===WORKSHEET'') (drop j p)"
    and v: "v = [] \<or> (\<exists>rest. v = py ''===WORKSHEET'' @ rest)"
    and j: "j < length p"
  shows "\<not> ci_prefix (py ''===WORKSHEET'') (drop j p @ v)"
proof
  let ?L = "py ''===WORKSHEET''"
  let ?u = "drop j p"
  assume hit: "ci_prefix ?L (?u @ v)"
  have len: "length ?L = 12"
    by (simp add: py_def)
  have u: "0 < length ?u"
    using j by simp
  show False
  proof (cases "length ?L \<le> length ?u")
    case True
    then have "ci_prefix ?L ?u"
      using hit by (simp only: ci_prefix_append_long)
    with occ show False
      by blast
  next
    case False
    then have short: "length ?u \<le> length ?L" "length ?u < 12"
      using len by simp_all
    from ci_prefix_append_short [OF hit short(1)]
    have rest: "ci_prefix (drop (length ?u) ?L) v" .
    from v show False
    proof
      assume "v = []"
      with rest have "drop (length ?u) ?L = []"
        by (simp only: ci_prefix_Nil)
      with short(2) len show False
        by simp
    next
      assume "\<exists>rest. v = ?L @ rest"
      then obtain r where "v = ?L @ r"
        by blast
      with rest no_straddle [OF u short(2), of r] show False
        by simp
    qed
  qed
qed

lemma skip_part:
  assumes "\<forall>j<length p. match_marker m (drop j p @ v) = None"
  shows "re_split_from m cur (p @ v) = re_split_from m (rev p @ cur) v"
  using assms
proof (induction p arbitrary: cur)
  case Nil
  then show ?case by simp
next
  case (Cons c cs)
  have here: "match_marker m ((c # cs) @ v) = None"
    using Cons.prems [rule_format, of 0] by simp
  have later: "\<forall>j<length cs. match_marker m (drop j cs @ v) = None"
  proof (intro allI impI)
    fix j
    assume "j < length cs"
    then show "match_marker m (drop j cs @ v) = None"
      using Cons.prems [rule_format, of "Suc j"] by simp
  qed
  have "re_split_from m cur ((c # cs) @ v) = re_split_from m (c # cur) (cs @ v)"
    using here by simp
  also have "\<dots> = re_split_from m (rev cs @ c # cur) v"
    by (rule Cons.IH [OF later])
  finally show ?case
    by simp
qed

lemma skip_plain_part:
  assumes "\<forall>j. \<not> ci_prefix (py ''===WORKSHEET'') (drop j p)"
    and "v = [] \<or> (\<exists>rest. v = py ''===WORKSHEET'' @ rest)"
  shows "re_split_from \<lparr> marker_open = py ''===WORKSHEET'', marker_close = py ''==='' \<rparr>
           cur (p @ v)
         = re_split_from \<lparr> marker_open = py ''===WORKSHEET'', marker_close = py ''==='' \<rparr>
             (rev p @ cur) v"
proof (rule skip_part, intro allI impI)
  fix j
  assume "j < length p"
  from no_match_inside [OF assms this]
  show "match_marker \<lparr> marker_open = py ''===WORKSHEET'', marker_close = py ''==='' \<rparr>
          (drop j p @ v) = None"
    by (simp add: match_marker_def)
qed

lemma ascii_digits:
  "py_isdecimal 49" "py_isdecimal 50" "py_isdecimal 51" "py_isdecimal 52"
  "\<not> py_isdecimal 61" "py_isdigit 49" "py_isdigit 50" "py_isdigit 51" "py_isdigit 52"
  by (simp_all add: py_isdecimal_def nd_starts_def py_isdigit_def digit_ranges_def)

lemma marker_match:
  "match_marker \<lparr> marker_open = py ''===WORKSHEET'', marker_close = py ''==='' \<rparr>
     (py ''===WORKSHEET 1==='' @ rest) = Some (py ''1'', 17)"
  "match_marker \<lparr> marker_open = py ''===WORKSHEET'', marker_close = py ''==='' \<rparr>
     (py ''===WORKSHEET 2==='' @ rest) = Some (py ''2'', 17)"
  "match_marker \<lparr> marker_open = py ''===WORKSHEET'', marker_close = py ''==='' \<rparr>
     (py ''===WORKSHEET 3==='' @ rest) = Some (py ''3'', 17)"
  "match_marker \<lparr> marker_open = py ''===WORKSHEET'', marker_close = py ''==='' \<rparr>
     (py ''===WORKSHEET 4==='' @ rest) = Some (py ''4'', 17)"
  by (simp_all add: match_marker_def py_def ci_match_def py_isspace_def ascii_digits)


lemma marker_hit_1:
  "re_split_from \<lparr> marker_open = py ''===WORKSHEET'', marker_close = py ''==='' \<rparr>
     cur (py ''===WORKSHEET 1==='' @ rest)
   = rev cur # py ''1'' #
     re_split_from \<lparr> marker_open = py ''===WORKSHEET'', marker_close = py ''==='' \<rparr> [] rest"
proof -
  have form: "py ''===WORKSHEET 1==='' @ rest = 61 # py ''==WORKSHEET 1==='' @ rest"
    by (simp add: py_def)
  have hit: "match_marker \<lparr> marker_open = py ''===WORKSHEET'', marker_close = py ''==='' \<rparr>
               (61 # py ''==WORKSHEET 1==='' @ rest) = Some (py ''1'', 17)"
    using marker_match [of rest] unfolding form by simp
  have rest: "drop 16 (py ''==WORKSHEET 1==='' @ rest) = rest"
    by (simp add: py_def)
  show ?thesis
    unfolding form by (simp add: hit rest del: drop_append)
qed

lemma marker_hit_2:
  "re_split_from \<lparr> marker_open = py ''===WORKSHEET'', marker_close = py ''==='' \<rparr>
     cur (py ''===WORKSHEET 2==='' @ rest)
   = rev cur # py ''2'' #
     re_split_from \<lparr> marker_open = py ''===WORKSHEET'', marker_close = py ''==='' \<rparr> [] rest"
proof -
  have form: "py ''===WORKSHEET 2==='' @ rest = 61 # py ''==WORKSHEET 2==='' @ rest"
    by (simp add: py_def)
  have hit: "match_marker \<lparr> marker_open = py ''===WORKSHEET'', marker_close = py ''==='' \<rparr>
               (61 # py ''==WORKSHEET 2==='' @ rest) = Some (py ''2'', 17)"
    using marker_match [of rest] unfolding form by simp
  have rest: "drop 16 (py ''==WORKSHEET 2==='' @ rest) = rest"
    by (simp add: py_def)
  show ?thesis
    unfolding form by (simp add: hit rest del: drop_append)
qed

lemma marker_hit_3:
  "re_split_from \<lparr> marker_open = py ''===WORKSHEET'', marker_close = py ''==='' \<rparr>
     cur (py ''===WORKSHEET 3==='' @ rest)
   = rev cur # py ''3'' #
     re_split_from \<lparr> marker_open = py ''===WORKSHEET'', marker_close = py ''==='' \<rparr> [] rest"
proof -
  have form: "py ''===WORKSHEET 3==='' @ rest = 61 # py ''==WORKSHEET 3==='' @ rest"
    by (simp add: py_def)
  have hit: "match_marker \<lparr> marker_open = py ''===WORKSHEET'', marker_close = py ''==='' \<rparr>
               (61 # py ''==WORKSHEET 3==='' @ rest) = Some (py ''3'', 17)"
    using marker_match [of rest] unfolding form by simp
  have rest: "drop 16 (py ''==WORKSHEET 3==='' @ rest) = rest"
    by (simp add: py_def)
  show ?thesis
    unfolding form by (simp add: hit rest del: drop_append)
qed

lemma marker_hit_4:
  "re_split_from \<lparr> marker_open = py ''===WORKSHEET'', marker_close = py ''==='' \<rparr>
     cur (py ''===WORKSHEET 4==='' @ rest)
   = rev cur # py ''4'' #
     re_split_from \<lparr> marker_open = py ''===WORKSHEET'', marker_close = py ''==='' \<rparr> [] rest"
proof -
  have form: "py ''===WORKSHEET 4==='' @ rest = 61 # py ''==WORKSHEET 4==='' @ rest"
    by (simp add: py_def)
  have hit: "match_marker \<lparr> marker_open = py ''===WORKSHEET'', marker_close = py ''==='' \<rparr>
               (61 # py ''==WORKSHEET 4==='' @ rest) = Some (py ''4'', 17)"
    using marker_match [of rest] unfolding form by simp
  have rest: "drop 16 (py ''==WORKSHEET 4==='' @ rest) = rest"
    by (simp add: py_def)
  show ?thesis
    unfolding form by (simp add: hit rest del: drop_append)
qed

lemma marker_opening:
  "\<exists>rest. py ''===WORKSHEET 1==='' @ r = py ''===WORKSHEET'' @ rest"
  "\<exists>rest. py ''===WORKSHEET 2==='' @ r = py ''===WORKSHEET'' @ rest"
  "\<exists>rest. py ''===WORKSHEET 3==='' @ r = py ''===WORKSHEET'' @ rest"
  "\<exists>rest. py ''===WORKSHEET 4==='' @ r = py ''===WORKSHEET'' @ rest"
  by (simp_all add: py_def)

lemma end_marker_kept_head:
  assumes "c \<noteq> 61" and "c \<noteq> 45"
  shows "remove_end_markers (c # r) \<noteq> []"
proof -
  have first: "match_end (py ''===END WORKSHEET '') (py ''==='') (c # r) = None"
    using assms(1) by (simp add: match_end_def py_def ci_match_def)
  have second: "match_end (py ''---END WORKSHEET '') (py ''---'') (c # r') = None" for r'
    using assms(2) by (simp add: match_end_def py_def ci_match_def)
  show ?thesis
    by (simp add: remove_end_markers_def first second)
qed

lemma re_sub_end_without_opening:
  assumes "\<forall>j. \<not> ci_prefix opening (drop j s)"
  shows "re_sub_end opening closing s = s"
  using assms
proof (induction s)
  case Nil
  then show ?case by simp
next
  case (Cons c cs)
  have here: "match_end opening closing (c # cs) = None"
    using Cons.prems [rule_format, of 0] by (simp add: match_end_def)
  have "\<forall>j. \<not> ci_prefix opening (drop j cs)"
  proof
    fix j
    show "\<not> ci_prefix opening (drop j cs)"
      using Cons.prems [rule_format, of "Suc j"] by simp
  qed
  then have "re_sub_end opening closing cs = cs"
    by (rule Cons.IH)
  with here show ?case
    by simp
qed

lemma end_markers_absent:
  assumes "\<forall>j. \<not> ci_prefix (py ''===END WORKSHEET '') (drop j s) \<and>
               \<not> ci_prefix (py ''---END WORKSHEET '') (drop j s)"
  shows "remove_end_markers s = s"
proof -
  have "re_sub_end (py ''===END WORKSHEET '') (py ''==='') s = s"
    by (rule re_sub_end_without_opening) (use assms in blast)
  moreover have "re_sub_end (py ''---END WORKSHEET '') (py ''---'') s = s"
    by (rule re_sub_end_without_opening) (use assms in blast)
  ultimately show ?thesis
    by (simp add: remove_end_markers_def)
qed

lemma marked_worksheet_digit:
  "\<exists>w. marked_worksheet topic (py ''1'') b k = Inr w \<and> ws_number w = 1 \<and>
       ws_content w = remove_end_markers (py_strip b)"
  "\<exists>w. marked_worksheet topic (py ''2'') b k = Inr w \<and> ws_number w = 2 \<and>
       ws_content w = remove_end_markers (py_strip b)"
  "\<exists>w. marked_worksheet topic (py ''3'') b k = Inr w \<and> ws_number w = 3 \<and>
       ws_content w = remove_end_markers (py_strip b)"
  "\<exists>w. marked_worksheet topic (py ''4'') b k = Inr w \<and> ws_number w = 4 \<and>
       ws_content w = remove_end_markers (py_strip b)"
proof -
  have strip: "py_strip (py ''1'') = py ''1''" "py_strip (py ''2'') = py ''2''"
    "py_strip (py ''3'') = py ''3''" "py_strip (py ''4'') = py ''4''"
    by (simp_all add: py_strip_def py_isspace_def py_def)
  have number: "worksheet_number (py ''1'') k = Inr 1" "worksheet_number (py ''2'') k = Inr 2"
    "worksheet_number (py ''3'') k = Inr 3" "worksheet_number (py ''4'') k = Inr 4"
    by (simp_all add: worksheet_number_def str_isdigit_def py_int_digits_def py_def
        ascii_digits digit_value_def nd_starts_def)
  show "\<exists>w. marked_worksheet topic (py ''1'') b k = Inr w \<and> ws_number w = 1 \<and>
          ws_content w = remove_end_markers (py_strip b)"
    by (simp add: marked_worksheet_def Let_def strip number)
  show "\<exists>w. marked_worksheet topic (py ''2'') b k = Inr w \<and> ws_number w = 2 \<and>
          ws_content w = remove_end_markers (py_strip b)"
    by (simp add: marked_worksheet_def Let_def strip number)
  show "\<exists>w. marked_worksheet topic (py ''3'') b k = Inr w \<and> ws_number w = 3 \<and>
          ws_content w = remove_end_markers (py_strip b)"
    by (simp add: marked_worksheet_def Let_def strip number)
  show "\<exists>w. marked_worksheet topic (py ''4'') b k = Inr w \<and> ws_number w = 4 \<and>
          ws_content w = remove_end_markers (py_strip b)"
    by (simp add: marked_worksheet_def Let_def strip number)
qed


text \<open>
  Claim C2. A text that consists of a preamble and exactly four blocks
  \<open>===WORKSHEET 1===\<close>, \<dots>, \<open>===WORKSHEET 4===\<close>, in this order, each followed by a body, is
  parsed into exactly four records with the numbers \<open>1, 2, 3, 4\<close> in the order of the
  text, each with a content that is not empty: the body without the whitespace around
  it and without closing markers. That the text has exactly these four blocks means
  that neither the preamble nor a body contains the opening \<open>===WORKSHEET\<close> of a marker in
  any case of the letters; that a marker is followed by content means that its body has
  a character that is no whitespace and that the closing markers cannot use it up:
  either the first such character is not \<open>=\<close> or \<open>-\<close>, the characters a closing marker
  begins with, or the body contains no opening \<open>===END WORKSHEET\<close> or \<open>---END WORKSHEET\<close> of
  a closing marker at all. The result does not depend on \<open>num_sessions\<close>.
\<close>

theorem parse_worksheets_four_blocks:
  assumes "\<forall>p\<in>set [preamble, b1, b2, b3, b4].
             \<forall>j. \<not> ci_prefix (py ''===WORKSHEET'') (drop j p)"
    and "\<forall>b\<in>set [b1, b2, b3, b4].
           py_strip b \<noteq> [] \<and>
           (hd (py_strip b) \<noteq> 61 \<and> hd (py_strip b) \<noteq> 45 \<or>
            (\<forall>j. \<not> ci_prefix (py ''===END WORKSHEET '') (drop j (py_strip b)) \<and>
                 \<not> ci_prefix (py ''---END WORKSHEET '') (drop j (py_strip b))))"
  shows "\<exists>ws. parse_worksheets
                (preamble @ py ''===WORKSHEET 1==='' @ b1 @ py ''===WORKSHEET 2==='' @ b2 @
                 py ''===WORKSHEET 3==='' @ b3 @ py ''===WORKSHEET 4==='' @ b4)
                topic num_sessions = Inr ws \<and>
              length ws = 4 \<and>
              map ws_number ws = [1, 2, 3, 4] \<and>
              map ws_content ws = map (\<lambda>b. remove_end_markers (py_strip b)) [b1, b2, b3, b4] \<and>
              (\<forall>w\<in>set ws. ws_content w \<noteq> [])"
proof -
  let ?M = "\<lparr> marker_open = py ''===WORKSHEET'', marker_close = py ''==='' \<rparr>"
  define worksheet_text where
    "worksheet_text = preamble @ py ''===WORKSHEET 1==='' @ b1 @ py ''===WORKSHEET 2==='' @ b2 @
                      py ''===WORKSHEET 3==='' @ b3 @ py ''===WORKSHEET 4==='' @ b4"
  have occ: "\<forall>j. \<not> ci_prefix (py ''===WORKSHEET'') (drop j preamble)"
    "\<forall>j. \<not> ci_prefix (py ''===WORKSHEET'') (drop j b1)"
    "\<forall>j. \<not> ci_prefix (py ''===WORKSHEET'') (drop j b2)"
    "\<forall>j. \<not> ci_prefix (py ''===WORKSHEET'') (drop j b3)"
    "\<forall>j. \<not> ci_prefix (py ''===WORKSHEET'') (drop j b4)"
    using assms(1) by simp_all
  have s4: "re_split_from ?M [] b4 = [b4]"
    using skip_plain_part [OF occ(5), of "[]" "[]"] by simp
  have s3: "re_split_from ?M [] (b3 @ py ''===WORKSHEET 4==='' @ b4) = [b3, py ''4'', b4]"
    using skip_plain_part [OF occ(4), of "py ''===WORKSHEET 4==='' @ b4" "[]"]
      marker_opening(4) [of b4]
    by (simp add: marker_hit_4 s4)
  have s2: "re_split_from ?M []
              (b2 @ py ''===WORKSHEET 3==='' @ b3 @ py ''===WORKSHEET 4==='' @ b4)
            = [b2, py ''3'', b3, py ''4'', b4]"
    using skip_plain_part [OF occ(3),
        of "py ''===WORKSHEET 3==='' @ b3 @ py ''===WORKSHEET 4==='' @ b4" "[]"]
      marker_opening(3) [of "b3 @ py ''===WORKSHEET 4==='' @ b4"]
    by (simp add: marker_hit_3 s3)
  have s1: "re_split_from ?M []
              (b1 @ py ''===WORKSHEET 2==='' @ b2 @ py ''===WORKSHEET 3==='' @ b3 @
               py ''===WORKSHEET 4==='' @ b4)
            = [b1, py ''2'', b2, py ''3'', b3, py ''4'', b4]"
    using skip_plain_part [OF occ(2),
        of "py ''===WORKSHEET 2==='' @ b2 @ py ''===WORKSHEET 3==='' @ b3 @
            py ''===WORKSHEET 4==='' @ b4" "[]"]
      marker_opening(2) [of "b2 @ py ''===WORKSHEET 3==='' @ b3 @ py ''===WORKSHEET 4==='' @ b4"]
    by (simp add: marker_hit_2 s2)
  have split: "re_split ?M worksheet_text
               = [preamble, py ''1'', b1, py ''2'', b2, py ''3'', b3, py ''4'', b4]"
    unfolding re_split_def worksheet_text_def
    using skip_plain_part [OF occ(1),
        of "py ''===WORKSHEET 1==='' @ b1 @ py ''===WORKSHEET 2==='' @ b2 @
            py ''===WORKSHEET 3==='' @ b3 @ py ''===WORKSHEET 4==='' @ b4" "[]"]
      marker_opening(1) [of "b1 @ py ''===WORKSHEET 2==='' @ b2 @ py ''===WORKSHEET 3==='' @ b3 @
                             py ''===WORKSHEET 4==='' @ b4"]
    by (simp add: marker_hit_1 s1)
  from marked_worksheet_digit(1) [of topic b1 0]
  obtain w1 where w1: "marked_worksheet topic (py ''1'') b1 0 = Inr w1" "ws_number w1 = 1"
    "ws_content w1 = remove_end_markers (py_strip b1)"
    by blast
  from marked_worksheet_digit(2) [of topic b2 "Suc 0"]
  obtain w2 where w2: "marked_worksheet topic (py ''2'') b2 (Suc 0) = Inr w2" "ws_number w2 = 2"
    "ws_content w2 = remove_end_markers (py_strip b2)"
    by blast
  from marked_worksheet_digit(3) [of topic b3 "Suc (Suc 0)"]
  obtain w3 where w3: "marked_worksheet topic (py ''3'') b3 (Suc (Suc 0)) = Inr w3"
    "ws_number w3 = 3" "ws_content w3 = remove_end_markers (py_strip b3)"
    by blast
  from marked_worksheet_digit(4) [of topic b4 "Suc (Suc (Suc 0))"]
  obtain w4 where w4: "marked_worksheet topic (py ''4'') b4 (Suc (Suc (Suc 0))) = Inr w4"
    "ws_number w4 = 4" "ws_content w4 = remove_end_markers (py_strip b4)"
    by blast
  have loop: "pairs_loop topic [py ''1'', b1, py ''2'', b2, py ''3'', b3, py ''4'', b4] []
              = Inr [w1, w2, w3, w4]"
    by (simp add: w1(1) w2(1) w3(1) w4(1))
  have run: "parse_worksheets worksheet_text topic num_sessions = Inr [w1, w2, w3, w4]"
    by (simp add: parse_worksheets_def patterns_def split loop del: pairs_loop.simps)
  have kept: "remove_end_markers (py_strip b) \<noteq> []" if "b \<in> set [b1, b2, b3, b4]" for b
  proof -
    from assms(2) that have body: "py_strip b \<noteq> []"
      and cases: "hd (py_strip b) \<noteq> 61 \<and> hd (py_strip b) \<noteq> 45 \<or>
                  (\<forall>j. \<not> ci_prefix (py ''===END WORKSHEET '') (drop j (py_strip b)) \<and>
                       \<not> ci_prefix (py ''---END WORKSHEET '') (drop j (py_strip b)))"
      by blast+
    from cases show ?thesis
    proof
      assume first: "hd (py_strip b) \<noteq> 61 \<and> hd (py_strip b) \<noteq> 45"
      from body obtain c r where "py_strip b = c # r"
        by (cases "py_strip b") simp_all
      with first show ?thesis
        using end_marker_kept_head [of c r] by simp
    next
      assume "\<forall>j. \<not> ci_prefix (py ''===END WORKSHEET '') (drop j (py_strip b)) \<and>
                   \<not> ci_prefix (py ''---END WORKSHEET '') (drop j (py_strip b))"
      then have "remove_end_markers (py_strip b) = py_strip b"
        by (rule end_markers_absent)
      with body show ?thesis
        by simp
    qed
  qed
  have contents: "map ws_content [w1, w2, w3, w4]
                  = map (\<lambda>b. remove_end_markers (py_strip b)) [b1, b2, b3, b4]"
    by (simp add: w1(3) w2(3) w3(3) w4(3))
  have nonempty: "\<forall>w\<in>set [w1, w2, w3, w4]. ws_content w \<noteq> []"
    using kept by (simp add: w1(3) w2(3) w3(3) w4(3))
  have numbers: "map ws_number [w1, w2, w3, w4] = [1, 2, 3, 4]"
    by (simp add: w1(2) w2(2) w3(2) w4(2))
  have len: "length [w1, w2, w3, w4] = 4"
    by simp
  from run [unfolded worksheet_text_def] len numbers contents nonempty show ?thesis
    by (intro exI [of _ "[w1, w2, w3, w4]"] conjI)
qed


lemma no_opening_without_equals:
  assumes "\<forall>c\<in>set p. c \<noteq> 61"
  shows "\<forall>j. \<not> ci_prefix (py ''===WORKSHEET'') (drop j p)"
proof
  fix j
  show "\<not> ci_prefix (py ''===WORKSHEET'') (drop j p)"
  proof (cases "drop j p")
    case Nil
    then show ?thesis
      by (simp add: py_def)
  next
    case (Cons c cs)
    then have "c \<in> set (drop j p)"
      by simp
    then have "c \<in> set p"
      by (rule in_set_dropD)
    with assms have "c \<noteq> 61"
      by blast
    with Cons show ?thesis
      by (simp add: py_def ci_match_def)
  qed
qed

lemma closing_marker_removed:
  "remove_end_markers (py ''a---END WORKSHEET 1---'') = py ''a''"
  by (simp add: remove_end_markers_def match_end_def py_def ci_match_def ascii_digits
      isdecimal_ascii)

lemma letters_kept:
  "remove_end_markers (py ''b'') = py ''b''" "remove_end_markers (py ''c'') = py ''c''"
  "remove_end_markers (py ''d'') = py ''d''"
  by (simp_all add: remove_end_markers_def match_end_def py_def ci_match_def)

theorem parse_worksheets_four_blocks_witness:
  "\<exists>ws. parse_worksheets
          (py ''Plan '' @ py ''===WORKSHEET 1==='' @ py ''a---END WORKSHEET 1--- '' @
           py ''===WORKSHEET 2==='' @ py ''b'' @ py ''===WORKSHEET 3==='' @ py ''c'' @
           py ''===WORKSHEET 4==='' @ py ''d'')
          (py ''Fractions'') 4 = Inr ws \<and>
        length ws = 4 \<and> map ws_number ws = [1, 2, 3, 4] \<and>
        map ws_content ws = [py ''a'', py ''b'', py ''c'', py ''d'']"
proof -
  have h1: "\<forall>p\<in>set [py ''Plan '', py ''a---END WORKSHEET 1--- '', py ''b'', py ''c'', py ''d''].
              \<forall>j. \<not> ci_prefix (py ''===WORKSHEET'') (drop j p)"
  proof
    fix p
    assume "p \<in> set [py ''Plan '', py ''a---END WORKSHEET 1--- '', py ''b'', py ''c'', py ''d'']"
    then have "\<forall>c\<in>set p. c \<noteq> 61"
      by (auto simp add: py_def)
    then show "\<forall>j. \<not> ci_prefix (py ''===WORKSHEET'') (drop j p)"
      by (rule no_opening_without_equals)
  qed
  have strip: "py_strip (py ''a---END WORKSHEET 1--- '') = py ''a---END WORKSHEET 1---''"
    "py_strip (py ''b'') = py ''b''" "py_strip (py ''c'') = py ''c''"
    "py_strip (py ''d'') = py ''d''"
    by (simp_all add: py_strip_def py_isspace_def py_def)
  have h2: "\<forall>b\<in>set [py ''a---END WORKSHEET 1--- '', py ''b'', py ''c'', py ''d''].
              py_strip b \<noteq> [] \<and>
              (hd (py_strip b) \<noteq> 61 \<and> hd (py_strip b) \<noteq> 45 \<or>
               (\<forall>j. \<not> ci_prefix (py ''===END WORKSHEET '') (drop j (py_strip b)) \<and>
                    \<not> ci_prefix (py ''---END WORKSHEET '') (drop j (py_strip b))))"
    by (simp add: strip) (simp add: py_def)
  from parse_worksheets_four_blocks [OF h1 h2, of "py ''Fractions''" 4]
  obtain ws where
    "parse_worksheets
       (py ''Plan '' @ py ''===WORKSHEET 1==='' @ py ''a---END WORKSHEET 1--- '' @
        py ''===WORKSHEET 2==='' @ py ''b'' @ py ''===WORKSHEET 3==='' @ py ''c'' @
        py ''===WORKSHEET 4==='' @ py ''d'')
       (py ''Fractions'') 4 = Inr ws \<and>
     length ws = 4 \<and> map ws_number ws = [1, 2, 3, 4] \<and>
     map ws_content ws
       = map (\<lambda>b. remove_end_markers (py_strip b))
           [py ''a---END WORKSHEET 1--- '', py ''b'', py ''c'', py ''d''] \<and>
     (\<forall>w\<in>set ws. ws_content w \<noteq> [])" ..
  then show ?thesis
    by (intro exI [of _ ws]) (simp add: strip closing_marker_removed letters_kept)
qed

end
